theory Spec2Isabelle
  imports Complex_Main "HOL-Library.Word" "HOL-Library.Char_ord" "HOL-Library.List_Lexorder"
begin

unbundle bit_operations_syntax

section \<open>The synthesizer engine of synth_engine.h / synth_engine.cpp\<close>

text \<open>
  The \<^verbatim>\<open>float\<close> parameter values and the \<^verbatim>\<open>double\<close> times of the engine are modelled as
  \<^typ>\<open>real\<close>: the engine stores, compares and passes them on, and the few values it
  computes itself (a normalized controller value, a pitch-bend fraction, a time
  difference) are exact here; no theorem below depends on their last digits. Where a
  theorem does depend on what a \<^verbatim>\<open>float\<close> computation returns, in
  \<^verbatim>\<open>SmoothedParameterF::getNextValue\<close> and in the amplitude loop of
  \<^verbatim>\<open>updateAudioAnalysis\<close>, the arithmetic is that of IEEE 754 binary32, modelled in the
  next subsection. The C++ \<^verbatim>\<open>int\<close> values are modelled as \<^typ>\<open>int\<close>; the arithmetic of
  the modelled functions stays far inside 32 bits for every 32-bit input. MIDI bytes
  (\<^verbatim>\<open>unsigned char\<close>) are \<^typ>\<open>8 word\<close>.
\<close>

subsection \<open>Binary32 arithmetic (the C++ \<^verbatim>\<open>float\<close>)\<close>

text \<open>
  A \<^verbatim>\<open>float\<close> is a finite binary32 number, an infinity or NaN. \<open>Finite a\<close> stands for
  a \<^verbatim>\<open>float\<close> only if \<open>a\<close> is representable (\<open>isFloat32\<close> below); the two zeros are not
  told apart, which no operation used here observes. Every operation rounds its exact
  result to the nearest binary32 number, ties to even, as the default rounding mode
  does; the code is taken to evaluate each \<^verbatim>\<open>float\<close> operation in binary32, without
  extended precision and without fusing a multiplication with an addition.
\<close>

datatype float32 = Finite real | PInf | NInf | NaN

definition pow2 :: "int \<Rightarrow> real" where
  "pow2 k = (if 0 \<le> k then 2 ^ nat k else 1 / 2 ^ nat (- k))"

text \<open>\<open>log2floor n\<close> is the position of the leading bit of \<open>n \<ge> 1\<close>.\<close>

function log2floor :: "int \<Rightarrow> int" where
  "log2floor n = (if n \<le> 1 then 0 else 1 + log2floor (n div 2))"
  by pat_completeness auto
termination
  by (relation "measure nat") auto

declare log2floor.simps [simp del]

text \<open>The binary exponent of \<open>x \<noteq> 0\<close>: the \<open>e\<close> with \<open>pow2 e \<le> \<bar>x\<bar> < pow2 (e + 1)\<close>.\<close>

definition exponentOf :: "real \<Rightarrow> int" where
  "exponentOf x =
     (if 1 \<le> \<bar>x\<bar> then log2floor \<lfloor>\<bar>x\<bar>\<rfloor>
      else - (log2floor (\<lceil>1 / \<bar>x\<bar>\<rceil> - 1) + 1))"

text \<open>Rounding to the nearest integer, a tie to the even one.\<close>

definition roundEven :: "real \<Rightarrow> int" where
  "roundEven x =
     (if x - of_int \<lfloor>x\<rfloor> < 1 / 2 then \<lfloor>x\<rfloor>
      else if 1 / 2 < x - of_int \<lfloor>x\<rfloor> then \<lfloor>x\<rfloor> + 1
      else if even \<lfloor>x\<rfloor> then \<lfloor>x\<rfloor> else \<lfloor>x\<rfloor> + 1)"

text \<open>
  The spacing of the binary32 numbers around \<open>x\<close>: 24 significant bits, and the
  spacing \<open>pow2 (- 149)\<close> of the subnormal numbers below \<open>pow2 (- 126)\<close>.
\<close>

definition ulp :: "real \<Rightarrow> real" where
  "ulp x = pow2 (max (exponentOf x) (- 126) - 23)"

definition nearest32 :: "real \<Rightarrow> real" where
  "nearest32 x = of_int (roundEven (x / ulp x)) * ulp x"

text \<open>
  Rounding a real result to binary32: the nearest multiple of the spacing, and an
  infinity when that has the magnitude \<open>pow2 128\<close>.
\<close>

definition round32 :: "real \<Rightarrow> float32" where
  "round32 x =
     (if x = 0 then Finite 0
      else if pow2 128 \<le> \<bar>nearest32 x\<bar> then (if 0 < x then PInf else NInf)
      else Finite (nearest32 x))"

definition isFloat32 :: "float32 \<Rightarrow> bool" where
  "isFloat32 x = (case x of Finite a \<Rightarrow> round32 a = Finite a | _ \<Rightarrow> True)"

fun fneg :: "float32 \<Rightarrow> float32" where
  "fneg (Finite a) = Finite (- a)"
| "fneg PInf = NInf"
| "fneg NInf = PInf"
| "fneg NaN = NaN"

fun fadd :: "float32 \<Rightarrow> float32 \<Rightarrow> float32" where
  "fadd NaN y = NaN"
| "fadd x NaN = NaN"
| "fadd (Finite a) (Finite b) = round32 (a + b)"
| "fadd PInf NInf = NaN"
| "fadd NInf PInf = NaN"
| "fadd PInf y = PInf"
| "fadd x PInf = PInf"
| "fadd NInf y = NInf"
| "fadd x NInf = NInf"

definition fsub :: "float32 \<Rightarrow> float32 \<Rightarrow> float32" where
  "fsub x y = fadd x (fneg y)"

fun fmul :: "float32 \<Rightarrow> float32 \<Rightarrow> float32" where
  "fmul NaN y = NaN"
| "fmul x NaN = NaN"
| "fmul (Finite a) (Finite b) = round32 (a * b)"
| "fmul (Finite a) PInf = (if a = 0 then NaN else if 0 < a then PInf else NInf)"
| "fmul (Finite a) NInf = (if a = 0 then NaN else if 0 < a then NInf else PInf)"
| "fmul PInf (Finite b) = (if b = 0 then NaN else if 0 < b then PInf else NInf)"
| "fmul NInf (Finite b) = (if b = 0 then NaN else if 0 < b then NInf else PInf)"
| "fmul PInf PInf = PInf"
| "fmul PInf NInf = NInf"
| "fmul NInf PInf = NInf"
| "fmul NInf NInf = PInf"

fun fabs :: "float32 \<Rightarrow> float32" where
  "fabs (Finite a) = Finite \<bar>a\<bar>"
| "fabs PInf = PInf"
| "fabs NInf = PInf"
| "fabs NaN = NaN"

text \<open>The comparisons \<^verbatim>\<open><\<close>, \<^verbatim>\<open>>\<close> and \<^verbatim>\<open><=\<close>: false as soon as one side is NaN.\<close>

fun flt :: "float32 \<Rightarrow> float32 \<Rightarrow> bool" where
  "flt NaN y = False"
| "flt x NaN = False"
| "flt (Finite a) (Finite b) = (a < b)"
| "flt x NInf = False"
| "flt NInf y = True"
| "flt PInf y = False"
| "flt (Finite a) PInf = True"

definition fgt :: "float32 \<Rightarrow> float32 \<Rightarrow> bool" where
  "fgt x y = flt y x"

definition fle :: "float32 \<Rightarrow> float32 \<Rightarrow> bool" where
  "fle x y = (x \<noteq> NaN \<and> y \<noteq> NaN \<and> \<not> flt y x)"

subsection \<open>SynthEngine::SmoothedParameterF (synth_engine.h)\<close>

text \<open>
  The three \<^verbatim>\<open>float\<close> members. The engine's master volume holds reals (the engine only
  sets and reads its target); the class on its own, whose \<^verbatim>\<open>getNextValue\<close> computes,
  holds binary32 values.
\<close>

record 'a SmoothedParameterF =
  currentValue :: 'a
  targetValue :: 'a
  alpha :: 'a

definition setTarget :: "'a \<Rightarrow> 'a SmoothedParameterF \<Rightarrow> 'a SmoothedParameterF" where
  "setTarget target p = p\<lparr>targetValue := target\<rparr>"

text \<open>The literal \<^verbatim>\<open>0.00001f\<close>: the binary32 number nearest to \<open>1 / 100000\<close>.\<close>

definition epsilon32 :: float32 where
  "epsilon32 = round32 (1 / 100000)"

text \<open>\<^verbatim>\<open>getNextValue\<close> returns the new current value together with the updated object.\<close>

definition getNextValue :: "float32 SmoothedParameterF \<Rightarrow> float32 \<times> float32 SmoothedParameterF" where
  "getNextValue p =
     (if flt (fabs (fsub (targetValue p) (currentValue p))) epsilon32
      then (targetValue p, p\<lparr>currentValue := targetValue p\<rparr>)
      else (fadd (currentValue p) (fmul (fsub (targetValue p) (currentValue p)) (alpha p)),
            p\<lparr>currentValue :=
                 fadd (currentValue p) (fmul (fsub (targetValue p) (currentValue p)) (alpha p))\<rparr>))"

text \<open>\<open>advance n\<close> is \<open>n\<close> successive per-sample calls of \<^verbatim>\<open>getNextValue\<close>.\<close>

fun advance :: "nat \<Rightarrow> float32 SmoothedParameterF \<Rightarrow> float32 SmoothedParameterF" where
  "advance 0 p = p"
| "advance (Suc n) p = snd (getNextValue (advance n p))"

definition getCurrentValueNonSmoothed :: "'a SmoothedParameterF \<Rightarrow> 'a" where
  "getCurrentValueNonSmoothed p = targetValue p"

definition getCurrentSmoothedValue :: "'a SmoothedParameterF \<Rightarrow> 'a" where
  "getCurrentSmoothedValue p = currentValue p"

text \<open>
  \<^verbatim>\<open>setSmoothingTime\<close> as the engine calls it for its master volume, over the reals like
  the other values of the engine; no modelled function of the engine reads the
  coefficient.
\<close>

definition setSmoothingTime :: "real \<Rightarrow> int \<Rightarrow> real SmoothedParameterF \<Rightarrow> real SmoothedParameterF" where
  "setSmoothingTime timeMs sr p =
     (if timeMs \<le> 0 \<or> sr \<le> 0 then p\<lparr>alpha := 1\<rparr>
      else let a0 = (if timeMs < 1 then 1
                     else 1 - exp (- 1 / ((timeMs / 1000) * real_of_int sr)));
               a1 = (if a0 > 1 then 1 else a0);
               a2 = (if a1 < 0 then 0 else a1)
           in p\<lparr>alpha := a2\<rparr>)"

text \<open>
  \<^verbatim>\<open>setSmoothingTime\<close> in binary32. \<^verbatim>\<open>std::exp\<close> belongs to the C library, so the value
  of \<^verbatim>\<open>1.0f - std::exp(-1.0f / ((timeMs / 1000.0f) * sr))\<close> enters as the parameter
  \<open>computed\<close>; the tests and the two clamps are those of the code.
\<close>

definition setSmoothingTime32 ::
  "float32 \<Rightarrow> float32 \<Rightarrow> int \<Rightarrow> float32 SmoothedParameterF \<Rightarrow> float32 SmoothedParameterF" where
  "setSmoothingTime32 computed timeMs sr p =
     (if fle timeMs (Finite 0) \<or> sr \<le> 0 then p\<lparr>alpha := Finite 1\<rparr>
      else let a0 = (if flt timeMs (Finite 1) then Finite 1 else computed);
               a1 = (if fgt a0 (Finite 1) then Finite 1 else a0);
               a2 = (if flt a1 (Finite 0) then Finite 0 else a1)
           in p\<lparr>alpha := a2\<rparr>)"

text \<open>What the clamps leave in the coefficient: a number of \<open>[0, 1]\<close>, or NaN.\<close>

definition coefficientInRange :: "float32 \<Rightarrow> bool" where
  "coefficientInRange a =
     (case a of Finite k \<Rightarrow> 0 \<le> k \<and> k \<le> 1 | NaN \<Rightarrow> True | _ \<Rightarrow> False)"

definition setCurrentAndTarget :: "'a \<Rightarrow> 'a SmoothedParameterF \<Rightarrow> 'a SmoothedParameterF" where
  "setCurrentAndTarget v p = p\<lparr>currentValue := v, targetValue := v\<rparr>"

text \<open>The constructor: both values start at the initial value, then the coefficient is set.\<close>

definition SmoothedParameterF_new :: "real \<Rightarrow> real \<Rightarrow> int \<Rightarrow> real SmoothedParameterF" where
  "SmoothedParameterF_new initialValue smoothingTimeMs sr =
     setSmoothingTime smoothingTimeMs sr
       \<lparr>currentValue = initialValue, targetValue = initialValue, alpha = 0\<rparr>"

subsection \<open>Parameter identifiers (namespace SynthParameterId, synth_engine.h)\<close>

abbreviation (input) Id_masterVolume :: int where "Id_masterVolume \<equiv> 0"
abbreviation (input) Id_masterMute :: int where "Id_masterMute \<equiv> 1"
abbreviation (input) Id_pitchBend :: int where "Id_pitchBend \<equiv> 2"
abbreviation (input) Id_channelAftertouch :: int where "Id_channelAftertouch \<equiv> 3"
abbreviation (input) Id_filterCutoff :: int where "Id_filterCutoff \<equiv> 10"
abbreviation (input) Id_filterResonance :: int where "Id_filterResonance \<equiv> 11"
abbreviation (input) Id_filterType :: int where "Id_filterType \<equiv> 12"
abbreviation (input) Id_attackTime :: int where "Id_attackTime \<equiv> 20"
abbreviation (input) Id_decayTime :: int where "Id_decayTime \<equiv> 21"
abbreviation (input) Id_sustainLevel :: int where "Id_sustainLevel \<equiv> 22"
abbreviation (input) Id_releaseTime :: int where "Id_releaseTime \<equiv> 23"
abbreviation (input) Id_reverbMix :: int where "Id_reverbMix \<equiv> 30"
abbreviation (input) Id_delayTime :: int where "Id_delayTime \<equiv> 31"
abbreviation (input) Id_delayFeedback :: int where "Id_delayFeedback \<equiv> 32"
abbreviation (input) Id_granularGrainRate :: int where "Id_granularGrainRate \<equiv> 41"
abbreviation (input) Id_granularGrainDuration :: int where "Id_granularGrainDuration \<equiv> 42"
abbreviation (input) Id_granularPosition :: int where "Id_granularPosition \<equiv> 43"
abbreviation (input) Id_granularPitch :: int where "Id_granularPitch \<equiv> 44"
abbreviation (input) Id_granularAmplitude :: int where "Id_granularAmplitude \<equiv> 45"
abbreviation (input) Id_granularPositionVar :: int where "Id_granularPositionVar \<equiv> 46"
abbreviation (input) Id_granularPitchVar :: int where "Id_granularPitchVar \<equiv> 47"
abbreviation (input) Id_granularDurationVar :: int where "Id_granularDurationVar \<equiv> 48"
abbreviation (input) Id_granularPan :: int where "Id_granularPan \<equiv> 49"
abbreviation (input) Id_granularPanVar :: int where "Id_granularPanVar \<equiv> 50"
abbreviation (input) Id_granularWindowType :: int where "Id_granularWindowType \<equiv> 51"
abbreviation (input) Id_oscillatorType :: int where "Id_oscillatorType \<equiv> 100"

text \<open>
  \<^verbatim>\<open>SynthParameterId::xyPadXValue\<close> and \<^verbatim>\<open>SynthParameterId::xyPadYValue\<close> are used by
  \<^verbatim>\<open>setParameter\<close> but declared in no file of the sources at hand, so their values are
  parameters of the model. The same holds for the enumeration constants that
  \<^verbatim>\<open>initializeDefaultModules\<close> passes to the modules.
\<close>

record SynthParameterId =
  xyPadXValue :: int
  xyPadYValue :: int

record ModuleEnums =
  WaveformType_Sine :: int
  WaveformType_Square :: int
  FilterType_LowPass :: int

subsection \<open>Engine state (class SynthEngine)\<close>

text \<open>
  The synthesis modules (Oscillator, Filter, Envelope, Delay, Reverb,
  GranularSynthesizer) are classes outside the sources at hand. The engine only
  calls their setters and triggers, so a module is modelled by whether its pointer is set
  and by the log \<open>moduleCalls\<close> of every call the engine makes on a module, in order,
  with its arguments. The calls are taken to return normally. An oscillator is \<open>True\<close>
  when the \<^verbatim>\<open>dynamic_cast\<close> to \<^verbatim>\<open>WavetableOscillatorImpl\<close> succeeds. The mutexes
  and atomics are left out: every operation is modelled as one uninterrupted step.
\<close>

datatype module_call =
    OscSetSampleRate nat int | OscSetWavetableManager nat
  | OscSetType nat int | OscSetFrequency nat real | OscSetDetune nat real
  | OscSetVolume nat real | OscSetPan nat real
  | OscSelectWavetable nat nat | OscSetWavetablePosition nat real
  | FilterSetSampleRate int | FilterSetCutoff real | FilterSetResonance real | FilterSetType int
  | EnvSetSampleRate int | EnvSetAttack real | EnvSetDecay real | EnvSetSustain real
  | EnvSetRelease real | EnvNoteOn real | EnvNoteOff
  | DelaySetSampleRate int | DelaySetTime real | DelaySetFeedback real | DelaySetMix real
  | ReverbSetSampleRate int | ReverbSetRoomSize real | ReverbSetDamping real | ReverbSetMix real
  | GranSetSampleRate int | GranSetGrainRate real | GranSetGrainDuration real
  | GranSetPosition real | GranSetPitch real | GranSetAmplitude real
  | GranSetPositionVariation real | GranSetPitchVariation real
  | GranSetGrainDurationVariation real | GranSetPan real | GranSetPanVariation real
  | GranSetWindowType int

record AutomationEvent =
  parameterId :: int
  eventValue :: real
  timestamp :: real

type_synonym AutomationTrack = "AutomationEvent list"

text \<open>
  \<open>clock\<close> and \<open>clockReads\<close> model \<^verbatim>\<open>std::chrono::high_resolution_clock::now()\<close>:
  the \<open>k\<close>-th reading of the clock is \<open>clock k\<close> seconds. \<open>wavetableCount\<close> is the length
  of \<^verbatim>\<open>wavetableManager->getTableNames()\<close>. \<open>analysisBuffers\<close> says that
  \<^verbatim>\<open>analysisInputBuffer\<close>, \<^verbatim>\<open>analysisWindow\<close> and \<^verbatim>\<open>fftMagnitudes\<close> are non-empty,
  \<open>fftPlan\<close> that the plan pointer is set. \<open>uiControlMidiCallback\<close> says that a callback is
  registered, \<open>uiControlCalls\<close> lists its invocations.
\<close>

record SynthEngine =
  initialized :: bool
  sampleRate :: int
  bufferSize :: int
  masterMute :: bool
  masterVolume :: "real SmoothedParameterF"
  oscillators :: "bool list"
  filter_m :: bool
  envelope :: bool
  delay :: bool
  reverb :: bool
  granularSynth :: bool
  wavetableCount :: nat
  moduleCalls :: "module_call list"
  activeNotes :: "int \<rightharpoonup> real"
  parameterCache :: "int \<rightharpoonup> real"
  midiLearnActive :: bool
  parameterIdToLearn :: int
  ccToParameterMap :: "int \<rightharpoonup> int"
  lastCcValue :: "int \<rightharpoonup> int"
  isRecordingAutomation :: bool
  isPlayingAutomation :: bool
  automationRecordStartTime :: real
  automationPlaybackStartTime :: real
  recordedAutomation :: "int \<rightharpoonup> AutomationTrack"
  automationPlaybackIndices :: "int \<rightharpoonup> nat"
  uiControlMidiCallback :: bool
  uiControlCalls :: "(int \<times> int \<times> int) list"
  currentUiTargetPanelId :: int
  currentXYPadXParameterId :: int
  currentXYPadYParameterId :: int
  fftSize :: int
  fftPlan :: bool
  analysisBuffers :: bool
  amplitudeLevel :: float32
  clock :: "nat \<Rightarrow> real"
  clockReads :: nat

text \<open>The constructor \<^verbatim>\<open>SynthEngine::SynthEngine()\<close>; the clock is the environment's.\<close>

definition SynthEngine_new :: "(nat \<Rightarrow> real) \<Rightarrow> SynthEngine" where
  "SynthEngine_new clk =
     \<lparr>initialized = False, sampleRate = 44100, bufferSize = 512, masterMute = False,
      masterVolume = SmoothedParameterF_new 0.75 20 44100,
      oscillators = [], filter_m = False, envelope = False, delay = False, reverb = False,
      granularSynth = False, wavetableCount = 0, moduleCalls = [],
      activeNotes = Map.empty, parameterCache = Map.empty,
      midiLearnActive = False, parameterIdToLearn = -1,
      ccToParameterMap = Map.empty, lastCcValue = Map.empty,
      isRecordingAutomation = False, isPlayingAutomation = False,
      automationRecordStartTime = 0, automationPlaybackStartTime = 0,
      recordedAutomation = Map.empty, automationPlaybackIndices = Map.empty,
      uiControlMidiCallback = False, uiControlCalls = [],
      currentUiTargetPanelId = 0,
      currentXYPadXParameterId = Id_filterCutoff,
      currentXYPadYParameterId = Id_filterResonance,
      fftSize = 2048, fftPlan = False, analysisBuffers = False, amplitudeLevel = Finite 0,
      clock = clk, clockReads = 0\<rparr>"

definition call :: "module_call \<Rightarrow> SynthEngine \<Rightarrow> SynthEngine" where
  "call c e = e\<lparr>moduleCalls := moduleCalls e @ [c]\<rparr>"

subsection \<open>Lifecycle (initialize, initializeAudioAnalysis, initializeDefaultModules)\<close>

text \<open>
  What the environment does during \<^verbatim>\<open>initialize\<close>: whether \<^verbatim>\<open>kiss_fftr_alloc\<close>
  returns a plan, how many table names the new wavetable manager reports, and whether
  the audio platform initializes and starts.
\<close>

record InitOutcome =
  fftAllocOk :: bool
  tableCount :: nat
  platformInitOk :: bool
  platformStartOk :: bool

text \<open>
  \<^verbatim>\<open>initializeAudioAnalysis\<close>: an invalid size keeps the previous one. The result is
  \<open>False\<close> when the allocation fails and the function throws, leaving the plan unset.
\<close>

definition initializeAudioAnalysis :: "bool \<Rightarrow> int \<Rightarrow> SynthEngine \<Rightarrow> bool \<times> SynthEngine" where
  "initializeAudioAnalysis allocOk fftSze e =
     (let e1 = (if fftSze \<le> 0 \<or> (fftSze AND (fftSze - 1)) \<noteq> 0 then e
                else e\<lparr>fftSize := fftSze\<rparr>)
      in if \<not> allocOk then (False, e1\<lparr>fftPlan := False\<rparr>)
         else (True, e1\<lparr>fftPlan := True, analysisBuffers := (0 < fftSize e1)\<rparr>))"

definition initializeDefaultModules :: "ModuleEnums \<Rightarrow> SynthEngine \<Rightarrow> SynthEngine" where
  "initializeDefaultModules en e =
     e\<lparr>oscillators := [True, True],
       filter_m := True, envelope := True, delay := True, reverb := True,
       moduleCalls := moduleCalls e @
         [OscSetSampleRate 0 (sampleRate e), OscSetType 0 (WaveformType_Sine en),
          OscSetVolume 0 0.5, OscSetWavetableManager 0,
          OscSetSampleRate 1 (sampleRate e), OscSetType 1 (WaveformType_Square en),
          OscSetVolume 1 0.3, OscSetDetune 1 5, OscSetWavetableManager 1,
          FilterSetSampleRate (sampleRate e), FilterSetCutoff 1000, FilterSetResonance 0.5,
          FilterSetType (FilterType_LowPass en),
          EnvSetSampleRate (sampleRate e), EnvSetAttack 0.01, EnvSetDecay 0.1,
          EnvSetSustain 0.7, EnvSetRelease 0.5,
          DelaySetSampleRate (sampleRate e), DelaySetTime 0.5, DelaySetFeedback 0.3,
          DelaySetMix 0.2,
          ReverbSetSampleRate (sampleRate e), ReverbSetRoomSize 0.5, ReverbSetDamping 0.5,
          ReverbSetMix 0.2]\<rparr>"

definition initialize :: "ModuleEnums \<Rightarrow> InitOutcome \<Rightarrow> int \<Rightarrow> int \<Rightarrow> real \<Rightarrow> SynthEngine \<Rightarrow> bool \<times> SynthEngine" where
  "initialize en out sr bs initialVolume e =
     (if initialized e then (True, e)
      else
        let e1 = e\<lparr>sampleRate := sr, bufferSize := bs,
                   masterVolume := setSmoothingTime 20 sr
                                     (setCurrentAndTarget initialVolume (masterVolume e))\<rparr>;
            (analysisOk, e2) = initializeAudioAnalysis (fftAllocOk out) (fftSize e1) e1
        in if \<not> analysisOk then (False, e2)
           else
             let e3 = call (GranSetSampleRate (sampleRate e2))
                        (e2\<lparr>wavetableCount := tableCount out, granularSynth := True\<rparr>);
                 e4 = initializeDefaultModules en e3
             in if \<not> platformInitOk out then (False, e4)
                else if \<not> platformStartOk out then (False, e4)
                else (True, e4\<lparr>initialized := True\<rparr>))"

subsection \<open>Parameter router (setParameter, getParameter)\<close>

text \<open>\<^verbatim>\<open>static_cast<int>(value)\<close> on a float: truncation towards zero.\<close>

definition float_to_int :: "real \<Rightarrow> int" where
  "float_to_int v = (if 0 \<le> v then \<lfloor>v\<rfloor> else \<lceil>v\<rceil>)"

text \<open>
  \<^verbatim>\<open>recordedAutomation[parameterId]\<close>: \<^verbatim>\<open>operator[]\<close> yields the track of the parameter,
  a new empty one when it is missing.
\<close>

definition trackOf :: "(int \<rightharpoonup> AutomationTrack) \<Rightarrow> int \<Rightarrow> AutomationTrack" where
  "trackOf m pid = (case m pid of None \<Rightarrow> [] | Some t \<Rightarrow> t)"

text \<open>
  The recording step of \<^verbatim>\<open>setParameter\<close>: one clock reading, one event pushed onto the
  track of the parameter.
\<close>

definition recordAutomationEvent :: "int \<Rightarrow> real \<Rightarrow> SynthEngine \<Rightarrow> SynthEngine" where
  "recordAutomationEvent pid v e =
     e\<lparr>clockReads := Suc (clockReads e),
       recordedAutomation := (recordedAutomation e)
         (pid \<mapsto> trackOf (recordedAutomation e) pid @
                  [\<lparr>parameterId = pid, eventValue = v,
                    timestamp = clock e (clockReads e) - automationRecordStartTime e\<rparr>])\<rparr>"

text \<open>The first two steps of \<^verbatim>\<open>setParameter\<close>: recording, then the cache write.\<close>

definition recordAndCache :: "int \<Rightarrow> real \<Rightarrow> bool \<Rightarrow> SynthEngine \<Rightarrow> SynthEngine" where
  "recordAndCache pid v fromAutomation e =
     (let e1 = (if isRecordingAutomation e \<and> \<not> fromAutomation
                then recordAutomationEvent pid v e else e)
      in e1\<lparr>parameterCache := (parameterCache e1)(pid \<mapsto> v)\<rparr>)"

text \<open>A setter call on a module whose pointer may be null.\<close>

definition onModule :: "bool \<Rightarrow> module_call \<Rightarrow> SynthEngine \<Rightarrow> bool \<times> SynthEngine" where
  "onModule present c e = (if present then (True, call c e) else (False, e))"

text \<open>The oscillator branch of the \<^verbatim>\<open>default:\<close> case.\<close>

definition oscillatorParameter :: "int \<Rightarrow> real \<Rightarrow> SynthEngine \<Rightarrow> bool \<times> SynthEngine" where
  "oscillatorParameter pid v e =
     (let oscIndex = (pid - Id_oscillatorType) div 10;
          paramOffset = (pid - Id_oscillatorType) mod 10
      in if oscIndex \<ge> 0 \<and> nat oscIndex < length (oscillators e) then
           (if paramOffset = 0 then (True, call (OscSetType (nat oscIndex) (float_to_int v)) e)
            else if paramOffset = 1 then (True, call (OscSetFrequency (nat oscIndex) v) e)
            else if paramOffset = 2 then (True, call (OscSetDetune (nat oscIndex) v) e)
            else if paramOffset = 3 then (True, call (OscSetVolume (nat oscIndex) v) e)
            else if paramOffset = 4 then (True, call (OscSetPan (nat oscIndex) v) e)
            else if paramOffset = 5 then
              (if oscillators e ! nat oscIndex \<and> float_to_int v \<ge> 0
                  \<and> nat (float_to_int v) < wavetableCount e
               then (True, call (OscSelectWavetable (nat oscIndex) (nat (float_to_int v))) e)
               else (True, e))
            else if paramOffset = 6 then
              (if oscillators e ! nat oscIndex
               then (True, call (OscSetWavetablePosition (nat oscIndex) v) e)
               else (True, e))
            else (False, e))
         else (False, e))"

text \<open>The \<^verbatim>\<open>switch (parameterId)\<close> of \<^verbatim>\<open>setParameter\<close>.\<close>

definition dispatch :: "int \<Rightarrow> real \<Rightarrow> SynthEngine \<Rightarrow> bool \<times> SynthEngine" where
  "dispatch pid v e =
     (if pid = Id_masterVolume then (True, e\<lparr>masterVolume := setTarget v (masterVolume e)\<rparr>)
      else if pid = Id_masterMute then (True, e\<lparr>masterMute := (v \<ge> 0.5)\<rparr>)
      else if pid = Id_pitchBend then (True, e)
      else if pid = Id_channelAftertouch then (True, e)
      else if pid = Id_filterCutoff then onModule (filter_m e) (FilterSetCutoff v) e
      else if pid = Id_filterResonance then onModule (filter_m e) (FilterSetResonance v) e
      else if pid = Id_filterType then onModule (filter_m e) (FilterSetType (float_to_int v)) e
      else if pid = Id_attackTime then onModule (envelope e) (EnvSetAttack v) e
      else if pid = Id_decayTime then onModule (envelope e) (EnvSetDecay v) e
      else if pid = Id_sustainLevel then onModule (envelope e) (EnvSetSustain v) e
      else if pid = Id_releaseTime then onModule (envelope e) (EnvSetRelease v) e
      else if pid = Id_reverbMix then onModule (reverb e) (ReverbSetMix v) e
      else if pid = Id_delayTime then onModule (delay e) (DelaySetTime v) e
      else if pid = Id_delayFeedback then onModule (delay e) (DelaySetFeedback v) e
      else if pid = Id_granularGrainRate then onModule (granularSynth e) (GranSetGrainRate v) e
      else if pid = Id_granularGrainDuration then
        onModule (granularSynth e) (GranSetGrainDuration v) e
      else if pid = Id_granularPosition then onModule (granularSynth e) (GranSetPosition v) e
      else if pid = Id_granularPitch then onModule (granularSynth e) (GranSetPitch v) e
      else if pid = Id_granularAmplitude then onModule (granularSynth e) (GranSetAmplitude v) e
      else if pid = Id_granularPositionVar then
        onModule (granularSynth e) (GranSetPositionVariation v) e
      else if pid = Id_granularPitchVar then
        onModule (granularSynth e) (GranSetPitchVariation v) e
      else if pid = Id_granularDurationVar then
        onModule (granularSynth e) (GranSetGrainDurationVariation v) e
      else if pid = Id_granularPan then onModule (granularSynth e) (GranSetPan v) e
      else if pid = Id_granularPanVar then onModule (granularSynth e) (GranSetPanVariation v) e
      else if pid = Id_granularWindowType then
        onModule (granularSynth e) (GranSetWindowType (float_to_int v)) e
      else if pid \<ge> Id_oscillatorType \<and> pid < Id_oscillatorType + 1000
      then oscillatorParameter pid v e
      else (False, e))"

text \<open>
  \<^verbatim>\<open>setParameter\<close>. The XY-pad passthrough calls \<^verbatim>\<open>setParameter\<close> again, with no bound
  on the depth, so the function is partial: \<open>None\<close> is a call that never returns.
\<close>

partial_function (option) setParameter ::
  "SynthParameterId \<Rightarrow> int \<Rightarrow> real \<Rightarrow> bool \<Rightarrow> SynthEngine \<Rightarrow> (bool \<times> SynthEngine) option" where
  "setParameter ids pid v fromAutomation e =
     (if \<not> initialized e then Some (False, e)
      else if pid = xyPadXValue ids then
        setParameter ids (currentXYPadXParameterId (recordAndCache pid v fromAutomation e))
          v fromAutomation (recordAndCache pid v fromAutomation e)
      else if pid = xyPadYValue ids then
        setParameter ids (currentXYPadYParameterId (recordAndCache pid v fromAutomation e))
          v fromAutomation (recordAndCache pid v fromAutomation e)
      else Some (dispatch pid v (recordAndCache pid v fromAutomation e)))"

text \<open>
  \<^verbatim>\<open>getParameter\<close>. \<^verbatim>\<open>Filter::getCutoffTarget\<close> and \<^verbatim>\<open>Filter::getResonanceTarget\<close> belong to
  the Filter class; what they return is the parameter \<open>filterTargets\<close>.
\<close>

definition getParameter :: "(real \<times> real) \<Rightarrow> int \<Rightarrow> SynthEngine \<Rightarrow> real" where
  "getParameter filterTargets pid e =
     (if \<not> initialized e then 0
      else case parameterCache e pid of
        Some x \<Rightarrow> x
      | None \<Rightarrow>
         (if pid = Id_masterVolume then getCurrentValueNonSmoothed (masterVolume e)
          else if pid = Id_masterMute then (if masterMute e then 1 else 0)
          else if pid = Id_filterCutoff then (if filter_m e then fst filterTargets else 1000)
          else if pid = Id_filterResonance then (if filter_m e then snd filterTargets else 0.5)
          else 0))"

subsection \<open>Notes (noteOn, noteOff)\<close>

definition noteToFrequency :: "int \<Rightarrow> real" where
  "noteToFrequency note = 440 * 2 powr (real_of_int (note - 69) / 12)"

definition noteOn :: "int \<Rightarrow> int \<Rightarrow> SynthEngine \<Rightarrow> bool \<times> SynthEngine" where
  "noteOn note velocity e =
     (if \<not> initialized e then (False, e)
      else
        let normalizedVelocity = real_of_int velocity / 127;
            frequency = noteToFrequency note;
            e1 = e\<lparr>moduleCalls := moduleCalls e @
                     map (\<lambda>i. OscSetFrequency i frequency) [0..<length (oscillators e)]\<rparr>;
            e2 = (if envelope e1 then call (EnvNoteOn normalizedVelocity) e1 else e1)
        in (True, e2\<lparr>activeNotes := (activeNotes e2)(note \<mapsto> normalizedVelocity)\<rparr>))"

definition noteOff :: "int \<Rightarrow> SynthEngine \<Rightarrow> bool \<times> SynthEngine" where
  "noteOff note e =
     (if \<not> initialized e then (False, e)
      else
        let noteWasActive = (activeNotes e note \<noteq> None);
            e1 = (if noteWasActive then e\<lparr>activeNotes := (activeNotes e)(note := None)\<rparr> else e)
        in if noteWasActive then
             (let anyNotesActive = (activeNotes e1 \<noteq> Map.empty)
              in if \<not> anyNotesActive \<and> envelope e1 then (True, call EnvNoteOff e1)
                 else (True, e1))
           else (True, e1))"

subsection \<open>MIDI (startMidiLearn, stopMidiLearn, processMidiEvent)\<close>

definition startMidiLearn :: "int \<Rightarrow> SynthEngine \<Rightarrow> SynthEngine" where
  "startMidiLearn pid e = e\<lparr>parameterIdToLearn := pid, midiLearnActive := True\<rparr>"

definition stopMidiLearn :: "SynthEngine \<Rightarrow> SynthEngine" where
  "stopMidiLearn e = e\<lparr>midiLearnActive := False, parameterIdToLearn := -1\<rparr>"

definition setUiControlMidiCallback :: "bool \<Rightarrow> SynthEngine \<Rightarrow> SynthEngine" where
  "setUiControlMidiCallback cb e = e\<lparr>uiControlMidiCallback := cb\<rparr>"

text \<open>
  C++ \<^verbatim>\<open>%\<close> on \<^verbatim>\<open>int\<close> truncates towards zero: the remainder has the sign of the
  dividend.
\<close>

definition c_rem :: "int \<Rightarrow> int \<Rightarrow> int" where
  "c_rem a b = (if 0 \<le> a then a mod \<bar>b\<bar> else - ((- a) mod \<bar>b\<bar>))"

text \<open>The block for Control Change messages on channel 16 (zero-indexed 15).\<close>

definition uiControlChange :: "int \<Rightarrow> int \<Rightarrow> SynthEngine \<Rightarrow> bool \<times> SynthEngine" where
  "uiControlChange ccNumber ccValue e =
     (if ccNumber = 32 then (True, e\<lparr>currentUiTargetPanelId := c_rem ccValue 128\<rparr>)
      else if ccNumber = 0 then (True, e)
      else if ccNumber = 109 then
        (True, e\<lparr>currentUiTargetPanelId := c_rem (currentUiTargetPanelId e + 1) 128\<rparr>)
      else if (ccNumber \<ge> 102 \<and> ccNumber \<le> 108) \<or> ccNumber = 110 then
        (if uiControlMidiCallback e
         then (True, e\<lparr>uiControlCalls := uiControlCalls e @
                          [(currentUiTargetPanelId e, ccNumber, ccValue)]\<rparr>)
         else (True, e))
      else (True, e))"

text \<open>
  The erase loop of MIDI learn: every entry of the table whose value is the parameter is
  removed.
\<close>

definition eraseMappingsTo :: "int \<Rightarrow> (int \<rightharpoonup> int) \<Rightarrow> (int \<rightharpoonup> int)" where
  "eraseMappingsTo paramIdToMap m = (\<lambda>cc. if m cc = Some paramIdToMap then None else m cc)"

text \<open>The \<^verbatim>\<open>case 0xB0\<close> block of the \<^verbatim>\<open>switch (messageType)\<close>.\<close>

definition controlChange :: "SynthParameterId \<Rightarrow> int \<Rightarrow> int \<Rightarrow> SynthEngine \<Rightarrow> (bool \<times> SynthEngine) option" where
  "controlChange ids ccNumber ccValue e =
     (let normalizedCcValue = real_of_int ccValue / 127
      in if midiLearnActive e then
           (let paramIdToMap = parameterIdToLearn e;
                e1 = (if paramIdToMap \<noteq> -1
                      then e\<lparr>ccToParameterMap :=
                               (eraseMappingsTo paramIdToMap (ccToParameterMap e))
                                 (ccNumber \<mapsto> paramIdToMap),
                             lastCcValue := (lastCcValue e)(ccNumber \<mapsto> ccValue)\<rparr>
                      else e)
            in Some (True, stopMidiLearn e1))
         else
           (case ccToParameterMap e ccNumber of
              Some mappedParamId \<Rightarrow>
                (case setParameter ids mappedParamId normalizedCcValue False e of
                   None \<Rightarrow> None
                 | Some (r, e1) \<Rightarrow>
                     Some (True, e1\<lparr>lastCcValue := (lastCcValue e1)(ccNumber \<mapsto> ccValue)\<rparr>))
            | None \<Rightarrow>
                (if ccNumber = 7 then setParameter ids Id_masterVolume normalizedCcValue False e
                 else if ccNumber = 1 then
                   setParameter ids Id_filterCutoff (20 + normalizedCcValue * 19980) False e
                 else Some (False, e))))"

definition processMidiEvent :: "SynthParameterId \<Rightarrow> 8 word \<Rightarrow> 8 word \<Rightarrow> 8 word \<Rightarrow> SynthEngine \<Rightarrow> (bool \<times> SynthEngine) option" where
  "processMidiEvent ids status data1 data2 e =
     (if \<not> initialized e then Some (False, e)
      else
        let messageType = status AND 0xF0;
            channel = status AND 0x0F
        in if channel = 15 \<and> messageType = 0xB0
           then Some (uiControlChange (uint data1) (uint data2) e)
           else if messageType = 0x90 then
             Some (if data2 > 0 then noteOn (uint data1) (uint data2) e
                   else noteOff (uint data1) e)
           else if messageType = 0x80 then Some (noteOff (uint data1) e)
           else if messageType = 0xE0 then
             (let lsb = uint data1; msb = uint data2;
                  bendValue = (push_bit 7 msb) OR lsb;
                  normalizedBend = (real_of_int bendValue - 8192) / 8192
              in setParameter ids Id_pitchBend normalizedBend False e)
           else if messageType = 0xD0 then
             setParameter ids Id_channelAftertouch (real_of_int (uint data1) / 127) False e
           else if messageType = 0xB0 then controlChange ids (uint data1) (uint data2) e
           else Some (False, e))"

subsection \<open>Automation control\<close>

definition startAutomationRecording :: "SynthEngine \<Rightarrow> SynthEngine" where
  "startAutomationRecording e =
     e\<lparr>recordedAutomation := Map.empty, automationPlaybackIndices := Map.empty,
       isRecordingAutomation := True, isPlayingAutomation := False,
       automationRecordStartTime := clock e (clockReads e),
       clockReads := Suc (clockReads e)\<rparr>"

definition stopAutomationRecording :: "SynthEngine \<Rightarrow> SynthEngine" where
  "stopAutomationRecording e = e\<lparr>isRecordingAutomation := False\<rparr>"

definition startAutomationPlayback :: "SynthEngine \<Rightarrow> SynthEngine" where
  "startAutomationPlayback e =
     (if recordedAutomation e = Map.empty then e\<lparr>isPlayingAutomation := False\<rparr>
      else e\<lparr>automationPlaybackIndices :=
               (\<lambda>k. if recordedAutomation e k = None then None else Some 0),
             isPlayingAutomation := True, isRecordingAutomation := False,
             automationPlaybackStartTime := clock e (clockReads e),
             clockReads := Suc (clockReads e)\<rparr>)"

definition stopAutomationPlayback :: "SynthEngine \<Rightarrow> SynthEngine" where
  "stopAutomationPlayback e = e\<lparr>isPlayingAutomation := False\<rparr>"

definition clearAutomationData :: "SynthEngine \<Rightarrow> SynthEngine" where
  "clearAutomationData e =
     e\<lparr>recordedAutomation := Map.empty, automationPlaybackIndices := Map.empty,
       isRecordingAutomation := False, isPlayingAutomation := False\<rparr>"

definition hasAutomationData :: "SynthEngine \<Rightarrow> bool" where
  "hasAutomationData e = (recordedAutomation e \<noteq> Map.empty)"

subsection \<open>XY-pad axis assignment\<close>

text \<open>
  Modelled from the spec: the engine methods behind \<^verbatim>\<open>set_xy_pad_x_parameter_ffi\<close> and
  \<^verbatim>\<open>set_xy_pad_y_parameter_ffi\<close> (declared in synth_engine_api.h, taking any
  \<^verbatim>\<open>int32_t\<close>) are missing from the sources at hand. The spec (4.2) says that the
  parameter assigned to a pad axis "is itself settable"; the setters store the
  identifier in the atomic that \<^verbatim>\<open>setParameter\<close> loads.
\<close>

definition set_xy_pad_x_parameter :: "int \<Rightarrow> SynthEngine \<Rightarrow> SynthEngine" where
  "set_xy_pad_x_parameter parameter_id e = e\<lparr>currentXYPadXParameterId := parameter_id\<rparr>"

definition set_xy_pad_y_parameter :: "int \<Rightarrow> SynthEngine \<Rightarrow> SynthEngine" where
  "set_xy_pad_y_parameter parameter_id e = e\<lparr>currentXYPadYParameterId := parameter_id\<rparr>"

subsection \<open>A concrete engine for the examples\<close>

text \<open>
  The examples run on a newly constructed engine after a successful
  \<^verbatim>\<open>initialize(44100, 512, 0.75)\<close>, with the pad identifiers 60 and 61, and a clock
  whose \<open>k\<close>-th reading is \<open>k\<close> seconds.
\<close>

definition exampleIds :: SynthParameterId where
  "exampleIds = \<lparr>xyPadXValue = 60, xyPadYValue = 61\<rparr>"

definition exampleEnums :: ModuleEnums where
  "exampleEnums = \<lparr>WaveformType_Sine = 0, WaveformType_Square = 1, FilterType_LowPass = 0\<rparr>"

definition exampleOutcome :: InitOutcome where
  "exampleOutcome =
     \<lparr>fftAllocOk = True, tableCount = 0, platformInitOk = True, platformStartOk = True\<rparr>"

definition exampleEngine :: SynthEngine where
  "exampleEngine =
     snd (initialize exampleEnums exampleOutcome 44100 512 0.75 (SynthEngine_new real))"

text \<open>
  The same engine with a clock that steps back, one second per reading:
  \<^verbatim>\<open>std::chrono::high_resolution_clock\<close> need not be steady.
\<close>

definition backwardClockEngine :: SynthEngine where
  "backwardClockEngine =
     snd (initialize exampleEnums exampleOutcome 44100 512 0.75
            (SynthEngine_new (\<lambda>k. - real k)))"

subsection \<open>Presets (getCurrentPresetDataJson, applyParameterMap, applyMidiMap, applyPresetDataJson)\<close>

text \<open>
  \<^verbatim>\<open>nlohmann::json\<close> is an external library. A document is modelled by the value the
  library holds; an object lists its members in the order of \<^verbatim>\<open>items()\<close>, which is the
  order of the keys (the library keeps an object in a \<^verbatim>\<open>std::map\<close>). Writing the text
  (\<^verbatim>\<open>dump\<close>) and reading it (\<^verbatim>\<open>parse\<close>) are the library's: export yields the document
  value, import takes \<open>Some\<close> document, or \<open>None\<close> for a text that does not parse.
\<close>

datatype json =
    JNull | JBool bool | JInt int | JFloat real | JString string
  | JArray "json list" | JObject "(string \<times> json) list"

text \<open>\<^verbatim>\<open>obj[key] = value\<close> on the members of an object: assign, or insert in key order.\<close>

fun obj_put :: "string \<Rightarrow> json \<Rightarrow> (string \<times> json) list \<Rightarrow> (string \<times> json) list" where
  "obj_put k v [] = [(k, v)]"
| "obj_put k v ((k', v') # rest) =
     (if k = k' then (k, v) # rest
      else if k < k' then (k, v) # (k', v') # rest
      else (k', v') # obj_put k v rest)"

text \<open>\<^verbatim>\<open>j[outer][inner] = value\<close>, where \<^verbatim>\<open>j[outer]\<close> becomes an object when it is missing.\<close>

definition put_nested :: "string \<Rightarrow> string \<Rightarrow> json \<Rightarrow> (string \<times> json) list \<Rightarrow> (string \<times> json) list" where
  "put_nested outer inner v j =
     obj_put outer
       (JObject (obj_put inner v (case map_of j outer of Some (JObject ms) \<Rightarrow> ms | _ \<Rightarrow> []))) j"

text \<open>\<^verbatim>\<open>std::to_string(int)\<close>: decimal digits, with a minus sign for a negative number.\<close>

fun natDigits :: "nat \<Rightarrow> string" where
  "natDigits n =
     (if n < 10 then [''0123456789'' ! n]
      else natDigits (n div 10) @ [''0123456789'' ! (n mod 10)])"

declare natDigits.simps [simp del]

definition to_string :: "int \<Rightarrow> string" where
  "to_string i = (if i < 0 then CHR ''-'' # natDigits (nat (- i)) else natDigits (nat i))"

text \<open>
  \<^verbatim>\<open>std::stoi(str)\<close>: leading white space is skipped, a sign is optional, then the longest
  run of decimal digits is read and the rest of the string is ignored. Without a digit
  it throws \<^verbatim>\<open>std::invalid_argument\<close>, for a value outside \<^verbatim>\<open>int\<close> it throws
  \<^verbatim>\<open>std::out_of_range\<close>.
\<close>

datatype stoi_error = invalid_argument | out_of_range

definition isspace :: "char \<Rightarrow> bool" where
  "isspace c = (of_char c \<in> {32 :: nat, 9, 10, 11, 12, 13})"

definition isdigit :: "char \<Rightarrow> bool" where
  "isdigit c = (48 \<le> (of_char c :: nat) \<and> (of_char c :: nat) \<le> 57)"

definition digitsValue :: "string \<Rightarrow> int" where
  "digitsValue ds = foldl (\<lambda>acc c. acc * 10 + (int (of_char c) - 48)) 0 ds"

definition stoi :: "string \<Rightarrow> stoi_error + int" where
  "stoi str =
     (let s1 = dropWhile isspace str;
          negative = (s1 \<noteq> [] \<and> hd s1 = CHR ''-'');
          s2 = (if s1 \<noteq> [] \<and> (hd s1 = CHR ''-'' \<or> hd s1 = CHR ''+'') then tl s1 else s1);
          ds = takeWhile isdigit s2
      in if ds = [] then Inl invalid_argument
         else
           let n = (if negative then - digitsValue ds else digitsValue ds)
           in if n < - 2147483648 \<or> 2147483647 < n then Inl out_of_range else Inr n)"

text \<open>
  \<^verbatim>\<open>is_number()\<close>, \<^verbatim>\<open>get<float>()\<close> and \<^verbatim>\<open>get<int>()\<close> on a value. An integer outside
  \<^verbatim>\<open>int\<close> is converted modulo \<open>2^32\<close>; a floating-point number is truncated.
\<close>

definition is_number :: "json \<Rightarrow> bool" where
  "is_number val = (case val of JInt _ \<Rightarrow> True | JFloat _ \<Rightarrow> True | _ \<Rightarrow> False)"

definition get_float :: "json \<Rightarrow> real" where
  "get_float val = (case val of JInt i \<Rightarrow> real_of_int i | JFloat r \<Rightarrow> r | _ \<Rightarrow> 0)"

definition get_int :: "json \<Rightarrow> int" where
  "get_int val =
     (case val of JInt i \<Rightarrow> sint (word_of_int i :: 32 word)
      | JFloat r \<Rightarrow> float_to_int r | _ \<Rightarrow> 0)"

text \<open>
  The order in which a \<^verbatim>\<open>std::unordered_map\<close> is traversed is unspecified. It is a
  parameter of the model: \<open>paramOrder\<close> and \<open>mappingOrder\<close> give the keys of a map in the
  order of the traversal, and \<open>enumerates\<close> says that a list is such a traversal.
\<close>

record UnorderedIteration =
  paramOrder :: "(int \<rightharpoonup> real) \<Rightarrow> int list"
  mappingOrder :: "(int \<rightharpoonup> int) \<Rightarrow> int list"

definition enumerates :: "int list \<Rightarrow> (int \<rightharpoonup> 'v) \<Rightarrow> bool" where
  "enumerates ks m = (distinct ks \<and> set ks = dom m)"

definition entriesOf :: "int list \<Rightarrow> (int \<rightharpoonup> 'v) \<Rightarrow> (int \<times> 'v) list" where
  "entriesOf ks m = List.map_filter (\<lambda>k. map_option (Pair k) (m k)) ks"

text \<open>
  \<^verbatim>\<open>getCurrentPresetDataJson\<close>: the name, then one member of \<open>parameters\<close> per cache entry
  and one member of \<open>midiCcMappings\<close> per mapping; neither object is created when its
  map is empty.
\<close>

definition getCurrentPresetDataJson :: "UnorderedIteration \<Rightarrow> string \<Rightarrow> SynthEngine \<Rightarrow> json" where
  "getCurrentPresetDataJson it name e =
     (let j0 = obj_put ''name'' (JString name) [];
          j1 = foldl (\<lambda>j (k, v). put_nested ''parameters'' (to_string k) (JFloat v) j) j0
                 (entriesOf (paramOrder it (parameterCache e)) (parameterCache e));
          j2 = foldl (\<lambda>j (k, v). put_nested ''midiCcMappings'' (to_string k) (JInt v) j) j1
                 (entriesOf (mappingOrder it (ccToParameterMap e)) (ccToParameterMap e))
      in JObject j2)"

text \<open>
  \<^verbatim>\<open>applyParameterMap\<close> on the entries of the map in traversal order: the result is false
  as soon as one \<^verbatim>\<open>setParameter\<close> fails, and every entry is applied all the same.
\<close>

fun applyParameterMap :: "SynthParameterId \<Rightarrow> (int \<times> real) list \<Rightarrow> bool \<Rightarrow> SynthEngine \<Rightarrow> (bool \<times> SynthEngine) option" where
  "applyParameterMap ids [] fromPresetOrAutomation e = Some (True, e)"
| "applyParameterMap ids ((k, v) # rest) fromPresetOrAutomation e =
     (case setParameter ids k v fromPresetOrAutomation e of
        None \<Rightarrow> None
      | Some (ok, e1) \<Rightarrow>
          (case applyParameterMap ids rest fromPresetOrAutomation e1 of
             None \<Rightarrow> None
           | Some (success, e2) \<Rightarrow> Some (ok \<and> success, e2)))"

definition applyMidiMap :: "(int \<rightharpoonup> int) \<Rightarrow> SynthEngine \<Rightarrow> bool \<times> SynthEngine" where
  "applyMidiMap midiMappings e = (True, e\<lparr>ccToParameterMap := midiMappings\<rparr>)"

text \<open>
  The two traversals in \<^verbatim>\<open>applyPresetDataJson\<close> over the members of an object. A key without
  a number is skipped (\<^verbatim>\<open>invalid_argument\<close> is caught inside the loop); a key whose
  number does not fit \<^verbatim>\<open>int\<close> ends the import (\<^verbatim>\<open>out_of_range\<close> is only caught by the
  outer handler): \<open>None\<close>. A value that is not a number is skipped.
\<close>

fun collectParameters :: "(string \<times> json) list \<Rightarrow> (int \<rightharpoonup> real) \<Rightarrow> (int \<rightharpoonup> real) option" where
  "collectParameters [] paramsToApply = Some paramsToApply"
| "collectParameters ((key_str, val) # rest) paramsToApply =
     (case stoi key_str of
        Inl invalid_argument \<Rightarrow> collectParameters rest paramsToApply
      | Inl out_of_range \<Rightarrow> None
      | Inr paramId \<Rightarrow>
          collectParameters rest
            (if is_number val then paramsToApply(paramId \<mapsto> get_float val)
             else paramsToApply))"

fun collectMidiMap :: "(string \<times> json) list \<Rightarrow> (int \<rightharpoonup> int) \<Rightarrow> (int \<rightharpoonup> int) option" where
  "collectMidiMap [] midiMapToApply = Some midiMapToApply"
| "collectMidiMap ((key_str, val) # rest) midiMapToApply =
     (case stoi key_str of
        Inl invalid_argument \<Rightarrow> collectMidiMap rest midiMapToApply
      | Inl out_of_range \<Rightarrow> None
      | Inr ccNumber \<Rightarrow>
          collectMidiMap rest
            (if is_number val then midiMapToApply(ccNumber \<mapsto> get_int val)
             else midiMapToApply))"

text \<open>\<^verbatim>\<open>j.contains(key) && j[key].is_object()\<close>: the members of that object.\<close>

definition objectMember :: "string \<Rightarrow> json \<Rightarrow> (string \<times> json) list option" where
  "objectMember key j =
     (case j of
        JObject ms \<Rightarrow> (case map_of ms key of Some (JObject inner) \<Rightarrow> Some inner | _ \<Rightarrow> None)
      | _ \<Rightarrow> None)"

text \<open>
  The "parameters" block of \<^verbatim>\<open>applyPresetDataJson\<close>. The outer \<open>None\<close> is a
  \<^verbatim>\<open>setParameter\<close> that never returns; the result is false when an exception leaves the
  block. A failed \<^verbatim>\<open>applyParameterMap\<close> is only logged.
\<close>

definition applyPresetParameters :: "SynthParameterId \<Rightarrow> UnorderedIteration \<Rightarrow> json \<Rightarrow> SynthEngine \<Rightarrow> (bool \<times> SynthEngine) option" where
  "applyPresetParameters ids it j e =
     (case objectMember ''parameters'' j of
        None \<Rightarrow> Some (True, e)
      | Some ms \<Rightarrow>
          (case collectParameters ms Map.empty of
             None \<Rightarrow> Some (False, e)
           | Some paramsToApply \<Rightarrow>
               (case applyParameterMap ids
                       (entriesOf (paramOrder it paramsToApply) paramsToApply) True e of
                  None \<Rightarrow> None
                | Some (success, e1) \<Rightarrow> Some (True, e1))))"

text \<open>The "midiCcMappings" block; the result is false when an exception leaves it.\<close>

definition applyPresetMidiMappings :: "json \<Rightarrow> SynthEngine \<Rightarrow> bool \<times> SynthEngine" where
  "applyPresetMidiMappings j e =
     (case objectMember ''midiCcMappings'' j of
        None \<Rightarrow> (True, e)
      | Some ms \<Rightarrow>
          (case collectMidiMap ms Map.empty of
             None \<Rightarrow> (False, e)
           | Some midiMapToApply \<Rightarrow> (True, snd (applyMidiMap midiMapToApply e))))"

text \<open>
  \<^verbatim>\<open>applyPresetDataJson\<close>: false for a text that does not parse and for an exception that
  reaches the outer handler, with the changes made until then kept; true otherwise.
\<close>

definition applyPresetDataJson :: "SynthParameterId \<Rightarrow> UnorderedIteration \<Rightarrow> json option \<Rightarrow> SynthEngine \<Rightarrow> (bool \<times> SynthEngine) option" where
  "applyPresetDataJson ids it parsed e =
     (case parsed of
        None \<Rightarrow> Some (False, e)
      | Some j \<Rightarrow>
          (case applyPresetParameters ids it j e of
             None \<Rightarrow> None
           | Some (ok, e1) \<Rightarrow>
               if \<not> ok then Some (False, e1) else Some (applyPresetMidiMappings j e1)))"

text \<open>
  A traversal order is valid when it lists the keys of every finite map, each once. The
  examples traverse in increasing key order.
\<close>

definition validIteration :: "UnorderedIteration \<Rightarrow> bool" where
  "validIteration it =
     ((\<forall>m. finite (dom m) \<longrightarrow> enumerates (paramOrder it m) m)
    \<and> (\<forall>m. finite (dom m) \<longrightarrow> enumerates (mappingOrder it m) m))"

definition sortedIteration :: UnorderedIteration where
  "sortedIteration =
     \<lparr>paramOrder = (\<lambda>m. sorted_list_of_set (dom m)),
      mappingOrder = (\<lambda>m. sorted_list_of_set (dom m))\<rparr>"

text \<open>
  The scenario of the preset examples, run on an engine: set parameter 10 to 500 and
  parameter 30 to 0.25, arm MIDI learn for parameter 10 and send CC 7 with value 64 on
  channel 1. With the example identifiers each of the three calls returns.
\<close>

definition presetScenario :: "SynthEngine \<Rightarrow> SynthEngine" where
  "presetScenario e =
     snd (the (processMidiEvent exampleIds 0xB0 7 64
       (startMidiLearn 10
         (snd (the (setParameter exampleIds 30 (1/4) False
           (snd (the (setParameter exampleIds 10 500 False e)))))))))"

subsection \<open>Audio analysis (updateAudioAnalysis, getAmplitudeLevel)\<close>

text \<open>
  The output block is the list of its interleaved \<^verbatim>\<open>float\<close> samples. Reading outside the
  block is undefined behaviour in C++ and \<open>None\<close> here.
\<close>

definition sampleAt :: "float32 list \<Rightarrow> int \<Rightarrow> float32 option" where
  "sampleAt buffer_input idx =
     (if 0 \<le> idx \<and> idx < int (length buffer_input) then Some (buffer_input ! nat idx)
      else None)"

text \<open>
  The expression that initializes \<^verbatim>\<open>sampleVal\<close> for frame \<open>i\<close>: for more than one
  channel the binary32 sum of the first two samples of the frame, times \<^verbatim>\<open>0.5f\<close>.
\<close>

definition frameSample :: "float32 list \<Rightarrow> int \<Rightarrow> int \<Rightarrow> float32 option" where
  "frameSample buffer_input numChannels i =
     (if numChannels = 1 then sampleAt buffer_input i
      else case sampleAt buffer_input (i * numChannels) of
             None \<Rightarrow> None
           | Some l \<Rightarrow>
               (case sampleAt buffer_input (i * numChannels + 1) of
                  None \<Rightarrow> None
                | Some r \<Rightarrow> Some (fmul (fadd l r) (Finite (1 / 2)))))"

text \<open>
  The loop that tracks \<^verbatim>\<open>currentMaxAmplitude\<close>, from frame \<open>i\<close> on. The variable is a
  \<^verbatim>\<open>double\<close> that only ever holds 0 or a \<^verbatim>\<open>float\<close> converted to \<^verbatim>\<open>double\<close>, which is
  exact; so it is a binary32 value here, and so is the reading published.
\<close>

function amplitudeLoop :: "float32 list \<Rightarrow> int \<Rightarrow> int \<Rightarrow> int \<Rightarrow> float32 \<Rightarrow> float32 option" where
  "amplitudeLoop buffer_input numFrames numChannels i currentMaxAmplitude =
     (if i < numFrames then
        (case frameSample buffer_input numChannels i of
           None \<Rightarrow> None
         | Some sampleVal \<Rightarrow>
             amplitudeLoop buffer_input numFrames numChannels (i + 1)
               (if fgt (fabs sampleVal) currentMaxAmplitude then fabs sampleVal
                else currentMaxAmplitude))
      else Some currentMaxAmplitude)"
  by pat_completeness auto
termination
  by (relation "measure (\<lambda>(b, numFrames, c, i, m). nat (numFrames - i))") auto

declare amplitudeLoop.simps [simp del]

text \<open>
  \<^verbatim>\<open>updateAudioAnalysis\<close>, as far as the amplitude reading goes. The four spectral
  readings come out of \<^verbatim>\<open>kiss_fftr\<close> and are not part of the model; the copy into the
  FFT input reads the same samples of the block as the amplitude loop. The block
  pointer is not null.
\<close>

definition updateAudioAnalysis :: "float32 list \<Rightarrow> int \<Rightarrow> int \<Rightarrow> SynthEngine \<Rightarrow> SynthEngine option" where
  "updateAudioAnalysis buffer_input numFrames numChannels e =
     (if numFrames \<le> 0 \<or> fftSize e \<le> 0 \<or> \<not> analysisBuffers e \<or> \<not> fftPlan e
      then Some (e\<lparr>amplitudeLevel := Finite 0\<rparr>)
      else case amplitudeLoop buffer_input numFrames numChannels 0 (Finite 0) of
             None \<Rightarrow> None
           | Some currentMaxAmplitude \<Rightarrow> Some (e\<lparr>amplitudeLevel := currentMaxAmplitude\<rparr>))"

definition getAmplitudeLevel :: "SynthEngine \<Rightarrow> float32" where
  "getAmplitudeLevel e = amplitudeLevel e"

text \<open>
  The mono mix of frame \<open>i\<close> of a block, as the code computes it: the sample itself for
  one channel, the binary32 sum of the first two samples of the frame times \<^verbatim>\<open>0.5f\<close>
  otherwise.
\<close>

definition monoMix :: "float32 list \<Rightarrow> int \<Rightarrow> int \<Rightarrow> float32" where
  "monoMix buffer_input numChannels i =
     (if numChannels = 1 then buffer_input ! nat i
      else fmul (fadd (buffer_input ! nat (i * numChannels))
                      (buffer_input ! nat (i * numChannels + 1))) (Finite (1 / 2)))"

section \<open>Theorems\<close>

subsection \<open>Theorems about binary32 rounding\<close>

lemma pow2_powr: "pow2 k = 2 powr (of_int k)"
proof (cases "0 \<le> k")
  case True
  then have "2 powr (of_int k) = (2::real) ^ nat k"
    by (metis of_nat_nat powr_realpow zero_less_numeral)
  then show ?thesis using True by (simp add: pow2_def)
next
  case False
  then have "(2::real) powr (of_int k) = 1 / 2 powr (of_int (- k))"
    by (simp add: powr_minus_divide)
  also have "2 powr (of_int (- k)) = (2::real) ^ nat (- k)"
    using False by (metis of_nat_nat powr_realpow zero_less_numeral
        neg_0_le_iff_le linear)
  finally show ?thesis using False by (simp add: pow2_def)
qed

lemma pow2_pos [simp]: "0 < pow2 k"
  by (simp add: pow2_powr)

lemma pow2_add: "pow2 (a + b) = pow2 a * pow2 b"
  by (simp add: pow2_powr powr_add)

lemma pow2_mono: "a \<le> b \<Longrightarrow> pow2 a \<le> pow2 b"
  by (simp add: pow2_powr)

lemma pow2_less_iff: "pow2 a < pow2 b \<longleftrightarrow> a < b"
  by (simp add: pow2_powr)

lemma pow2_le_iff: "pow2 a \<le> pow2 b \<longleftrightarrow> a \<le> b"
  by (simp add: pow2_powr)

lemma pow2_nat: "pow2 (int n) = 2 ^ n"
  by (simp add: pow2_def)

lemma pow2_0 [simp]: "pow2 0 = 1"
  by (simp add: pow2_def)

lemma real_pow2_le_int: "((2::real) ^ n \<le> of_int m) = ((2::int) ^ n \<le> m)"
proof -
  have "(2::real) ^ n = of_int ((2::int) ^ n)" by simp
  then show ?thesis by (simp only: of_int_le_iff)
qed

lemma int_less_real_pow2: "(of_int m < (2::real) ^ n) = (m < (2::int) ^ n)"
proof -
  have "(2::real) ^ n = of_int ((2::int) ^ n)" by simp
  then show ?thesis by (simp only: of_int_less_iff)
qed

lemma log2floor_bounds:
  "1 \<le> n \<Longrightarrow> 0 \<le> log2floor n \<and> pow2 (log2floor n) \<le> of_int n \<and> of_int n < pow2 (log2floor n + 1)"
proof (induction n rule: log2floor.induct)
  case (1 n)
  show ?case
  proof (cases "n \<le> 1")
    case True
    then have "n = 1" using "1.prems" by simp
    then show ?thesis by (simp add: log2floor.simps pow2_def)
  next
    case False
    then have h: "1 \<le> n div 2" by simp
    from "1.IH" [OF False h]
    have ih: "0 \<le> log2floor (n div 2)" "pow2 (log2floor (n div 2)) \<le> of_int (n div 2)"
      "of_int (n div 2) < pow2 (log2floor (n div 2) + 1)" by simp_all
    have eq: "log2floor n = 1 + log2floor (n div 2)" using False by (subst log2floor.simps) simp
    define k where "k = log2floor (n div 2)"
    have k0: "0 \<le> k" using ih(1) by (simp add: k_def)
    have a: "(2::real) ^ nat k \<le> of_int (n div 2)" using ih(2) k0 by (simp add: pow2_def k_def)
    have b: "of_int (n div 2) < (2::real) ^ nat (k + 1)" using ih(3) k0 by (simp add: pow2_def k_def)
    have a': "(2::int) ^ nat k \<le> n div 2"
      using a by (simp only: real_pow2_le_int)
    have b': "n div 2 < (2::int) ^ nat (k + 1)"
      using b by (simp only: int_less_real_pow2)
    have na: "2 * 2 ^ nat k \<le> n" using a' by linarith
    have nk: "nat (k + 1) = Suc (nat k)" using k0 by simp
    have nb: "n < 2 * 2 ^ nat (k + 1)" using b' by (simp add: nk) 
    have "pow2 (1 + k) = 2 * 2 ^ nat k" using k0 by (simp add: pow2_def nat_add_distrib)
    moreover have "pow2 (1 + k + 1) = 2 * 2 ^ nat (k + 1)"
      using k0 by (simp add: pow2_def nat_add_distrib)
    moreover have "(2::real) * 2 ^ nat k \<le> of_int n"
      using na by (metis of_int_le_iff of_int_numeral of_int_power of_int_mult)
    moreover have "of_int n < (2::real) * 2 ^ nat (k + 1)"
      using nb by (metis of_int_less_iff of_int_numeral of_int_power of_int_mult)
    ultimately show ?thesis using k0 eq by (simp add: k_def)
  qed
qed

lemma exponentOf_bounds:
  assumes "x \<noteq> 0"
  shows "pow2 (exponentOf x) \<le> \<bar>x\<bar>" and "\<bar>x\<bar> < pow2 (exponentOf x + 1)"
proof -
  define a where "a = \<bar>x\<bar>"
  have apos: "0 < a" using assms by (simp add: a_def)
  have "pow2 (exponentOf x) \<le> a \<and> a < pow2 (exponentOf x + 1)"
  proof (cases "1 \<le> a")
    case True
    then have n1: "1 \<le> \<lfloor>a\<rfloor>" by simp
    have e: "exponentOf x = log2floor \<lfloor>a\<rfloor>" using True by (simp add: exponentOf_def a_def)
    from log2floor_bounds [OF n1]
    have b: "pow2 (log2floor \<lfloor>a\<rfloor>) \<le> of_int \<lfloor>a\<rfloor>"
      "of_int \<lfloor>a\<rfloor> < pow2 (log2floor \<lfloor>a\<rfloor> + 1)" "0 \<le> log2floor \<lfloor>a\<rfloor>" by simp_all
    have lo: "pow2 (log2floor \<lfloor>a\<rfloor>) \<le> a" using b(1) of_int_floor_le [of a] by linarith
    have "of_int \<lfloor>a\<rfloor> < (2::real) ^ nat (log2floor \<lfloor>a\<rfloor> + 1)"
      using b(2,3) by (simp add: pow2_def)
    then have "\<lfloor>a\<rfloor> < (2::int) ^ nat (log2floor \<lfloor>a\<rfloor> + 1)"
      by (simp only: int_less_real_pow2)
    then have "a < of_int ((2::int) ^ nat (log2floor \<lfloor>a\<rfloor> + 1))"
      by (simp add: floor_less_iff)
    then have hi: "a < pow2 (log2floor \<lfloor>a\<rfloor> + 1)" using b(3) by (simp add: pow2_def)
    show ?thesis using lo hi e by simp
  next
    case False
    define y where "y = 1 / a"
    have y1: "1 < y" using False apos by (simp add: y_def)
    define c where "c = \<lceil>y\<rceil>"
    have c2: "2 \<le> c" using y1 by (simp add: c_def)
    define j where "j = log2floor (c - 1)"
    have e: "exponentOf x = - (j + 1)" using False by (simp add: exponentOf_def a_def j_def c_def y_def)
    have n1: "1 \<le> c - 1" using c2 by simp
    from log2floor_bounds [OF n1]
    have b: "pow2 j \<le> of_int (c - 1)" "of_int (c - 1) < pow2 (j + 1)" "0 \<le> j"
      by (simp_all add: j_def)
    have "(2::real) ^ nat j \<le> of_int (c - 1)" using b(1,3) by (simp add: pow2_def)
    then have b1: "(2::int) ^ nat j \<le> c - 1" by (simp only: real_pow2_le_int)
    have "of_int (c - 1) < (2::real) ^ nat (j + 1)" using b(2,3) by (simp add: pow2_def)
    then have b2: "c - 1 < (2::int) ^ nat (j + 1)" by (simp only: int_less_real_pow2)
    have "c \<le> (2::int) ^ nat (j + 1)" using b2 by simp
    then have "y \<le> of_int ((2::int) ^ nat (j + 1))" unfolding c_def by (simp add: ceiling_le_iff)
    then have yhi: "y \<le> pow2 (j + 1)" using b(3) by (simp add: pow2_def)
    have "(2::int) ^ nat j < c" using b1 by simp
    then have "of_int ((2::int) ^ nat j) < y" unfolding c_def by (simp add: less_ceiling_iff)
    then have ylo: "pow2 j < y" using b(3) by (simp add: pow2_def)
    have inv: "pow2 (- k) = 1 / pow2 k" for k
      by (simp add: pow2_powr powr_minus_divide)
    have "pow2 (- (j + 1)) \<le> a"
    proof -
      have "1 / pow2 (j + 1) \<le> 1 / y" using yhi y1 by (intro divide_left_mono) simp_all
      moreover have "pow2 (- (j + 1)) = 1 / pow2 (j + 1)" by (rule inv)
      ultimately show ?thesis using apos by (simp add: y_def)
    qed
    moreover have "a < pow2 (- (j + 1) + 1)"
    proof -
      have "1 / y < 1 / pow2 j" using ylo y1 by (intro divide_strict_left_mono) simp_all
      moreover have "pow2 (- (j + 1) + 1) = 1 / pow2 j" using inv [of j] by simp
      ultimately show ?thesis using apos by (simp add: y_def)
    qed
    ultimately show ?thesis using e by simp
  qed
  then show "pow2 (exponentOf x) \<le> \<bar>x\<bar>" and "\<bar>x\<bar> < pow2 (exponentOf x + 1)"
    by (simp_all add: a_def)
qed

lemma exponentOf_unique:
  assumes "pow2 k \<le> \<bar>x\<bar>" and "\<bar>x\<bar> < pow2 (k + 1)"
  shows "exponentOf x = k"
proof -
  have nz: "x \<noteq> 0" using assms(1) pow2_pos [of k] by (cases "x = 0") simp_all
  note b = exponentOf_bounds [OF nz]
  have "pow2 k < pow2 (exponentOf x + 1)" using assms(1) b(2) by linarith
  then have 1: "k < exponentOf x + 1" by (simp add: pow2_less_iff)
  have "pow2 (exponentOf x) < pow2 (k + 1)" using assms(2) b(1) by linarith
  then have 2: "exponentOf x < k + 1" by (simp add: pow2_less_iff)
  show ?thesis using 1 2 by simp
qed

lemma exponentOf_minus [simp]: "exponentOf (- x) = exponentOf x"
  by (simp add: exponentOf_def)

lemma ulp_minus [simp]: "ulp (- x) = ulp x"
  by (simp add: ulp_def)

lemma ulp_pos [simp]: "0 < ulp x"
  by (simp add: ulp_def)

lemma exponentOf_mono:
  assumes "x \<noteq> 0" and "\<bar>x\<bar> \<le> \<bar>y\<bar>"
  shows "exponentOf x \<le> exponentOf y"
proof -
  have ny: "y \<noteq> 0" using assms by auto
  have "pow2 (exponentOf x) < pow2 (exponentOf y + 1)"
    using exponentOf_bounds(1) [OF assms(1)] exponentOf_bounds(2) [OF ny] assms(2) by linarith
  then show ?thesis by (simp add: pow2_less_iff)
qed

lemma pow2_nonneg [simp]: "0 \<le> pow2 k"
  using pow2_pos [of k] by linarith


lemma pow2_nonzero [simp]: "pow2 k \<noteq> 0"
  using pow2_pos [of k] by linarith


lemma roundEven_of_int [simp]: "roundEven (of_int n) = n"
  by (simp add: roundEven_def)

lemma roundEven_zero [simp]: "roundEven 0 = 0"
  using roundEven_of_int [of 0] by simp

lemma ulp_nonneg [simp]: "0 \<le> ulp x"
  using ulp_pos [of x] by linarith

lemma roundEven_range: "\<lfloor>x\<rfloor> \<le> roundEven x \<and> roundEven x \<le> \<lfloor>x\<rfloor> + 1"
  by (simp add: roundEven_def)

lemma roundEven_mono:
  assumes "x \<le> y"
  shows "roundEven x \<le> roundEven y"
proof (cases "\<lfloor>x\<rfloor> = \<lfloor>y\<rfloor>")
  case True
  then show ?thesis using assms by (auto simp: roundEven_def)
next
  case False
  then have "\<lfloor>x\<rfloor> < \<lfloor>y\<rfloor>" using assms floor_mono [of x y] by linarith
  then show ?thesis using roundEven_range [of x] roundEven_range [of y] by linarith
qed

lemma roundEven_ge: "of_int n \<le> x \<Longrightarrow> n \<le> roundEven x"
  using roundEven_mono [of "of_int n" x] by simp

lemma roundEven_le: "x \<le> of_int n \<Longrightarrow> roundEven x \<le> n"
  using roundEven_mono [of x "of_int n"] by simp

lemma roundEven_minus: "roundEven (- x) = - roundEven x"
proof (cases "x = of_int \<lfloor>x\<rfloor>")
  case True
  then obtain n where "x = of_int n" by blast
  then have "- x = of_int (- n)" by simp
  then show ?thesis using \<open>x = of_int n\<close> by (simp only: roundEven_of_int)
next
  case False
  then have lt: "of_int \<lfloor>x\<rfloor> < x" using of_int_floor_le [of x] by linarith
  have ub: "x < of_int \<lfloor>x\<rfloor> + 1" by linarith
  have "- real_of_int \<lfloor>x\<rfloor> - 1 \<le> - x" using ub by linarith
  then have "of_int (- \<lfloor>x\<rfloor> - 1) \<le> - x" by simp
  moreover have "- x < - real_of_int \<lfloor>x\<rfloor> - 1 + 1" using lt by linarith
  then have "- x < of_int (- \<lfloor>x\<rfloor> - 1) + 1" by simp
  ultimately have fl: "\<lfloor>- x\<rfloor> = - \<lfloor>x\<rfloor> - 1" by (rule floor_unique)
  show ?thesis using lt by (auto simp: roundEven_def fl)
qed

lemma round32_unfold:
  "round32 x = (if x = 0 then Finite 0
                else if pow2 128 \<le> \<bar>nearest32 x\<bar> then (if 0 < x then PInf else NInf)
                else Finite (nearest32 x))"
  by (simp add: round32_def)

lemma nearest32_minus: "nearest32 (- x) = - nearest32 x"
  by (simp add: nearest32_def roundEven_minus)

lemma round32_minus: "round32 (- x) = fneg (round32 x)"
  by (simp add: round32_unfold nearest32_minus)

lemma nearest32_nonneg: "0 \<le> x \<Longrightarrow> 0 \<le> nearest32 x"
proof -
  assume "0 \<le> x"
  then have "of_int 0 \<le> x / ulp x" by simp
  then have "0 \<le> roundEven (x / ulp x)" by (rule roundEven_ge)
  then show ?thesis by (simp add: nearest32_def)
qed

text \<open>A binary32 value is a multiple of its own unit in the last place.\<close>

lemma isFloat_multiple:
  assumes "round32 a = Finite a"
  shows "a = of_int (roundEven (a / ulp a)) * ulp a" and "\<bar>a\<bar> < pow2 128"
proof -
  show "a = of_int (roundEven (a / ulp a)) * ulp a"
    using assms by (cases "a = 0") (auto simp: round32_unfold nearest32_def split: if_splits)
  show "\<bar>a\<bar> < pow2 128"
    using assms by (cases "a = 0") (auto simp: round32_unfold split: if_splits)
qed

lemma ulp_eq: "ulp x = pow2 (max (exponentOf x) (- 126)) * pow2 (- 23)"
  by (simp add: ulp_def pow2_add [symmetric])

lemma pow2_split23: "pow2 k = 2 ^ 23 * pow2 (k - 23)"
proof -
  have "pow2 k = pow2 (23 + (k - 23))" by (rule arg_cong [where f = pow2]) simp
  also have "\<dots> = pow2 23 * pow2 (k - 23)" by (rule pow2_add)
  finally show ?thesis by (simp add: pow2_def)
qed

lemma pow2_split24: "pow2 (k + 1) = 2 ^ 24 * pow2 (k - 23)"
proof -
  have "pow2 (k + 1) = pow2 (24 + (k - 23))" by (rule arg_cong [where f = pow2]) simp
  also have "\<dots> = pow2 24 * pow2 (k - 23)" by (rule pow2_add)
  finally show ?thesis by (simp add: pow2_def)
qed

text \<open>Bounds of the rounded value of a positive number by the powers of two around it.\<close>

lemma nearest32_upper:
  assumes "0 < x"
  shows "nearest32 x \<le> pow2 (max (exponentOf x) (- 126) + 1)"
proof -
  define E where "E = max (exponentOf x) (- 126)"
  have u: "ulp x = pow2 (E - 23)" by (simp add: ulp_def E_def)
  have "x < pow2 (exponentOf x + 1)" using exponentOf_bounds(2) [of x] assms by simp
  also have "\<dots> \<le> pow2 (E + 1)" by (intro pow2_mono) (simp add: E_def)
  finally have "x < 2 ^ 24 * ulp x" by (simp add: pow2_split24 u)
  then have "x / ulp x \<le> of_int (2 ^ 24)" by (simp add: pos_divide_le_eq)
  then have "roundEven (x / ulp x) \<le> 2 ^ 24" by (rule roundEven_le)
  then have "(of_int (roundEven (x / ulp x)) :: real) \<le> of_int (2 ^ 24)" by (simp only: of_int_le_iff)
  then have "nearest32 x \<le> 2 ^ 24 * ulp x" by (simp add: nearest32_def)
  then show ?thesis by (simp add: pow2_split24 u E_def)
qed

lemma nearest32_lower:
  assumes "0 < x" and "- 126 \<le> exponentOf x"
  shows "pow2 (exponentOf x) \<le> nearest32 x"
proof -
  have u: "ulp x = pow2 (exponentOf x - 23)" using assms(2) by (simp add: ulp_def max_def)
  have "pow2 (exponentOf x) \<le> x" using exponentOf_bounds(1) [of x] assms by simp
  then have "2 ^ 23 * ulp x \<le> x" by (simp add: pow2_split23 [of "exponentOf x"] u)
  then have "of_int (2 ^ 23) \<le> x / ulp x" by (simp add: pos_le_divide_eq)
  then have "2 ^ 23 \<le> roundEven (x / ulp x)" by (rule roundEven_ge)
  then have "(of_int (2 ^ 23) :: real) \<le> of_int (roundEven (x / ulp x))" by (simp only: of_int_le_iff)
  then have "2 ^ 23 * ulp x \<le> nearest32 x" by (simp add: nearest32_def)
  then show ?thesis by (simp add: pow2_split23 [of "exponentOf x"] u)
qed

text \<open>Rounding does not cross a binary32 value: for positive numbers.\<close>

lemma nearest32_ge_float_pos:
  assumes a: "a = of_int n * ulp a" and "0 < a" and "a \<le> x"
  shows "a \<le> nearest32 x"
proof -
  have x: "0 < x" "x \<noteq> 0" "a \<noteq> 0" using assms by simp_all
  define Ea where "Ea = max (exponentOf a) (- 126)"
  define Ex where "Ex = max (exponentOf x) (- 126)"
  have "exponentOf a \<le> exponentOf x" using assms by (intro exponentOf_mono) simp_all
  then have le: "Ea \<le> Ex" by (simp add: Ea_def Ex_def)
  show ?thesis
  proof (cases "Ea = Ex")
    case True
    then have u: "ulp x = ulp a" by (simp add: ulp_def Ea_def Ex_def)
    have "a / ulp a = of_int n" using a by (metis nonzero_mult_div_cancel_right ulp_pos less_numeral_extra(3))
    moreover have "a / ulp a \<le> x / ulp a" using assms(3) by (intro divide_right_mono) simp_all
    ultimately have "of_int n \<le> x / ulp x" by (simp add: u)
    then have "n \<le> roundEven (x / ulp x)" by (rule roundEven_ge)
    then have "(of_int n :: real) \<le> of_int (roundEven (x / ulp x))" by (simp only: of_int_le_iff)
    then have "of_int n * ulp a \<le> of_int (roundEven (x / ulp x)) * ulp a"
      by (intro mult_right_mono) simp_all
    then show ?thesis using a by (simp add: nearest32_def u)
  next
    case False
    then have lt: "Ea < Ex" using le by simp
    then have ex: "exponentOf x = Ex" "- 126 \<le> exponentOf x"
      by (simp_all add: Ex_def Ea_def max_def split: if_splits)
    have "a < pow2 (exponentOf a + 1)" using exponentOf_bounds(2) [of a] assms(2) by simp
    also have "\<dots> \<le> pow2 Ex" using lt by (intro pow2_mono) (simp add: Ea_def)
    also have "\<dots> \<le> nearest32 x" using nearest32_lower [OF x(1) ex(2)] ex(1) by simp
    finally show ?thesis by simp
  qed
qed

lemma nearest32_le_float_pos:
  assumes a: "a = of_int n * ulp a" and "0 < x" and "x \<le> a"
  shows "nearest32 x \<le> a"
proof -
  have x: "0 < a" "x \<noteq> 0" "a \<noteq> 0" using assms by simp_all
  define Ea where "Ea = max (exponentOf a) (- 126)"
  define Ex where "Ex = max (exponentOf x) (- 126)"
  have "exponentOf x \<le> exponentOf a" using assms by (intro exponentOf_mono) simp_all
  then have le: "Ex \<le> Ea" by (simp add: Ea_def Ex_def)
  show ?thesis
  proof (cases "Ea = Ex")
    case True
    then have u: "ulp x = ulp a" by (simp add: ulp_def Ea_def Ex_def)
    have "a / ulp a = of_int n" using a by (metis nonzero_mult_div_cancel_right ulp_pos less_numeral_extra(3))
    moreover have "x / ulp a \<le> a / ulp a" using assms(3) by (intro divide_right_mono) simp_all
    ultimately have "x / ulp x \<le> of_int n" by (simp add: u)
    then have "roundEven (x / ulp x) \<le> n" by (rule roundEven_le)
    then have "(of_int (roundEven (x / ulp x)) :: real) \<le> of_int n" by (simp only: of_int_le_iff)
    then have "of_int (roundEven (x / ulp x)) * ulp a \<le> of_int n * ulp a"
      by (intro mult_right_mono) simp_all
    then show ?thesis using a by (simp add: nearest32_def u)
  next
    case False
    then have lt: "Ex < Ea" using le by simp
    then have ea: "exponentOf a = Ea" "- 126 \<le> exponentOf a"
      by (simp_all add: Ex_def Ea_def max_def split: if_splits)
    have "nearest32 x \<le> pow2 (Ex + 1)" using nearest32_upper [OF assms(2)] by (simp add: Ex_def)
    also have "\<dots> \<le> pow2 Ea" using lt by (intro pow2_mono) simp
    also have "\<dots> \<le> a" using exponentOf_bounds(1) [of a] x ea by simp
    finally show ?thesis by simp
  qed
qed

text \<open>Rounding does not cross a binary32 value.\<close>

lemma nearest32_ge_float:
  assumes "round32 a = Finite a" and "a \<le> x"
  shows "a \<le> nearest32 x"
proof -
  note m = isFloat_multiple(1) [OF assms(1)]
  consider "a \<le> 0 \<and> 0 \<le> x" | "0 < a" | "x < 0" using assms(2) by linarith
  then show ?thesis
  proof cases
    case 1
    then show ?thesis using nearest32_nonneg [of x] by linarith
  next
    case 2
    then show ?thesis using m assms(2) by (intro nearest32_ge_float_pos [where n = "roundEven (a / ulp a)"]) simp_all
  next
    case 3
    have m': "- a = of_int (- roundEven (a / ulp a)) * ulp (- a)" using m by simp
    have "nearest32 (- x) \<le> - a" using 3 assms(2) by (intro nearest32_le_float_pos [OF m']) simp_all
    then show ?thesis by (simp add: nearest32_minus)
  qed
qed

lemma nearest32_le_float:
  assumes "round32 a = Finite a" and "x \<le> a"
  shows "nearest32 x \<le> a"
proof -
  have "round32 (- a) = Finite (- a)" using assms(1) by (simp add: round32_minus)
  then have "- a \<le> nearest32 (- x)" using assms(2) by (intro nearest32_ge_float) simp_all
  then show ?thesis by (simp add: nearest32_minus)
qed

lemma round32_zero [simp]: "round32 0 = Finite 0"
  by (simp add: round32_def)

lemma round32_ge_float:
  assumes "round32 a = Finite a" and "a \<le> x"
  shows "round32 x = PInf \<or> (\<exists>r. round32 x = Finite r \<and> a \<le> r)"
proof (cases "x = 0")
  case True
  then show ?thesis using assms(2) by simp
next
  case False
  note ge = nearest32_ge_float [OF assms]
  show ?thesis
  proof (cases "pow2 128 \<le> \<bar>nearest32 x\<bar>")
    case big: True
    show ?thesis
    proof (cases "0 < x")
      case True
      then show ?thesis using False big by (simp add: round32_unfold)
    next
      case neg: False
      then have "x \<le> 0" by simp
      then have "- x \<ge> 0" by simp
      then have "0 \<le> nearest32 (- x)" by (rule nearest32_nonneg)
      then have "nearest32 x \<le> 0" by (simp add: nearest32_minus)
      then have "\<bar>nearest32 x\<bar> \<le> \<bar>a\<bar>" using ge by simp
      then show ?thesis using big isFloat_multiple(2) [OF assms(1)] by linarith
    qed
  next
    case False
    then show ?thesis using \<open>x \<noteq> 0\<close> ge by (simp add: round32_unfold)
  qed
qed

lemma round32_le_float:
  assumes "round32 a = Finite a" and "x \<le> a"
  shows "round32 x = NInf \<or> (\<exists>r. round32 x = Finite r \<and> r \<le> a)"
proof -
  have "round32 (- a) = Finite (- a)" using assms(1) by (simp add: round32_minus)
  from round32_ge_float [OF this, of "- x"] assms(2)
  have "fneg (round32 x) = PInf \<or> (\<exists>r. fneg (round32 x) = Finite r \<and> - a \<le> r)"
    by (simp add: round32_minus)
  then show ?thesis by (cases "round32 x") auto
qed

lemma nearest32_idem_pos:
  assumes "0 < x" and "nearest32 x \<noteq> 0"
  shows "nearest32 (nearest32 x) = nearest32 x"
proof -
  define E where "E = max (exponentOf x) (- 126)"
  define n where "n = roundEven (x / ulp x)"
  define r where "r = nearest32 x"
  have u: "ulp x = pow2 (E - 23)" by (simp add: ulp_def E_def)
  have r: "r = of_int n * pow2 (E - 23)" by (simp add: r_def nearest32_def n_def u)
  have rpos: "0 < r" using nearest32_nonneg [of x] assms by (simp add: r_def)
  have up: "r \<le> pow2 (E + 1)" using nearest32_upper [OF assms(1)] by (simp add: r_def E_def)
  have "nearest32 r = r"
  proof (cases "r = pow2 (E + 1)")
    case True
    have ar: "\<bar>r\<bar> = pow2 (E + 1)" using True rpos by simp
    have "pow2 (E + 1) < pow2 (E + 1 + 1)" by (simp only: pow2_less_iff)
    then have hi: "\<bar>r\<bar> < pow2 (E + 1 + 1)" using ar by simp
    have lo: "pow2 (E + 1) \<le> \<bar>r\<bar>" using ar by simp
    have "exponentOf r = E + 1" using lo hi by (rule exponentOf_unique)
    then have ur: "ulp r = pow2 (E + 1 - 23)" by (simp add: ulp_def E_def max_def)
    have req: "r = of_int (2 ^ 23) * ulp r"
    proof -
      have "r = pow2 (E + 1)" by (rule True)
      also have "\<dots> = 2 ^ 23 * pow2 (E + 1 - 23)" by (rule pow2_split23)
      also have "\<dots> = of_int (2 ^ 23) * ulp r" unfolding ur by simp
      finally show ?thesis .
    qed
    then have "r / ulp r = of_int (2 ^ 23)"
      by (metis nonzero_mult_div_cancel_right ulp_pos less_numeral_extra(3))
    then have "roundEven (r / ulp r) = 2 ^ 23" by (simp only: roundEven_of_int)
    then have "nearest32 r = of_int (2 ^ 23) * ulp r" by (simp only: nearest32_def)
    then show ?thesis using req by (simp only:)
  next
    case False
    then have lt: "r < pow2 (E + 1)" using up by simp
    have "pow2 (exponentOf r) < pow2 (E + 1)"
      using exponentOf_bounds(1) [of r] rpos lt by simp
    then have le: "exponentOf r \<le> E" by (simp add: pow2_less_iff)
    have "max (exponentOf r) (- 126) = E"
    proof (cases "- 126 \<le> exponentOf x")
      case True
      then have ex: "E = exponentOf x" by (simp add: E_def)
      have "pow2 E \<le> r" using nearest32_lower [OF assms(1) True] by (simp add: r_def ex)
      then have "pow2 E < pow2 (exponentOf r + 1)"
        using exponentOf_bounds(2) [of r] rpos by simp
      then have "E \<le> exponentOf r" by (simp add: pow2_less_iff)
      then show ?thesis using le True ex by simp
    next
      case False
      then have "E = - 126" by (simp add: E_def)
      then show ?thesis using le by simp
    qed
    then have ur: "ulp r = pow2 (E - 23)" by (simp add: ulp_def)
    have "r / ulp r = r / pow2 (E - 23)" by (simp only: ur)
    also have "\<dots> = of_int n" by (subst r) simp
    finally have "roundEven (r / ulp r) = n" by (simp only: roundEven_of_int)
    then have "nearest32 r = of_int n * pow2 (E - 23)" by (simp only: nearest32_def ur)
    then show ?thesis by (simp only: r)
  qed
  then show ?thesis by (simp add: r_def)
qed

lemma nearest32_zero [simp]: "nearest32 0 = 0"
  by (simp add: nearest32_def)

lemma nearest32_idem: "nearest32 (nearest32 x) = nearest32 x"
proof (cases "nearest32 x = 0")
  case True
  then show ?thesis by simp
next
  case False
  then have nz: "x \<noteq> 0" by (auto simp: nearest32_def)
  show ?thesis
  proof (cases "0 < x")
    case True
    then show ?thesis using False by (rule nearest32_idem_pos)
  next
    case neg: False
    then have "0 < - x" using nz by simp
    moreover have "nearest32 (- x) \<noteq> 0" using False by (simp add: nearest32_minus)
    ultimately have "nearest32 (nearest32 (- x)) = nearest32 (- x)" by (rule nearest32_idem_pos)
    then show ?thesis by (simp add: nearest32_minus)
  qed
qed

text \<open>The result of a rounding is a binary32 value.\<close>

lemma round32_idem:
  assumes "round32 x = Finite r"
  shows "round32 r = Finite r"
proof (cases "x = 0")
  case True
  then show ?thesis using assms by simp
next
  case False
  then have r: "r = nearest32 x" "\<not> pow2 128 \<le> \<bar>nearest32 x\<bar>"
    using assms by (auto simp: round32_unfold split: if_splits)
  have "nearest32 r = r" using nearest32_idem [of x] r(1) by simp
  then show ?thesis using r by (simp add: round32_unfold)
qed

lemma isFloat32_round32 [simp]: "isFloat32 (round32 x)"
  by (cases "round32 x") (simp_all add: isFloat32_def round32_idem)

lemma fadd_NaN_right [simp]: "fadd x NaN = NaN"
  by (cases x) simp_all

lemma fmul_NaN_right [simp]: "fmul x NaN = NaN"
  by (cases x) simp_all

lemma fle_refl: "x \<noteq> NaN \<Longrightarrow> fle x x"
  by (cases x) (simp_all add: fle_def)

lemma fle_Finite [simp]: "fle (Finite a) (Finite b) = (a \<le> b)"
  by (auto simp: fle_def)

lemma fle_PInf [simp]: "fle (Finite a) PInf" "\<not> fle PInf (Finite a)" "fle NInf (Finite a)"
  "\<not> fle (Finite a) NInf"
  by (simp_all add: fle_def)

text \<open>One advance never moves the current value away from the target.\<close>

lemma advance_direction:
  fixes t :: float32
  assumes c: "isFloat32 c" and al: "coefficientInRange al"
  defines "new \<equiv> fadd c (fmul (fsub t c) al)"
  shows "new = NaN \<or> ((fle c t \<longrightarrow> fle c new) \<and> (fle t c \<longrightarrow> fle new c))"
proof (cases al)
  case NaN
  then show ?thesis by (simp add: new_def)
next
  case PInf
  then show ?thesis using al by (simp add: coefficientInRange_def)
next
  case NInf
  then show ?thesis using al by (simp add: coefficientInRange_def)
next
  case (Finite k)
  then have k: "0 \<le> k" "k \<le> 1" using al by (simp_all add: coefficientInRange_def)
  show ?thesis
  proof (cases c)
    case NaN
    then show ?thesis by (cases t) (simp_all add: new_def fsub_def)
  next
    case PInf
    then show ?thesis using Finite k by (cases t) (simp_all add: new_def fsub_def fle_def)
  next
    case NInf
    then show ?thesis using Finite k by (cases t) (simp_all add: new_def fsub_def fle_def)
  next
    case cf: (Finite a)
    then have fa: "round32 a = Finite a" using c by (simp add: isFloat32_def)
    show ?thesis
    proof (cases t)
      case NaN
      then show ?thesis using cf by (simp add: new_def fsub_def)
    next
      case PInf
      then show ?thesis using cf Finite k by (simp add: new_def fsub_def)
    next
      case NInf
      then show ?thesis using cf Finite k by (simp add: new_def fsub_def)
    next
      case tf: (Finite b)
      have d: "fsub t c = round32 (b - a)" using tf cf by (simp add: fsub_def)
      have z: "round32 0 = Finite 0" by simp
      have up: "new = NaN \<or> fle c new" if "a \<le> b"
      proof -
        have "0 \<le> b - a" using that by simp
        from round32_ge_float [OF z this]
        consider "round32 (b - a) = PInf" | r where "round32 (b - a) = Finite r" "0 \<le> r" by blast
        then show ?thesis
        proof cases
          case 1
          then show ?thesis using d cf Finite k by (simp add: new_def)
        next
          case 2
          have "0 \<le> r * k" using 2(2) k(1) by simp
          from round32_ge_float [OF z this]
          consider "round32 (r * k) = PInf" | s where "round32 (r * k) = Finite s" "0 \<le> s" by blast
          then show ?thesis
          proof cases
            case 1
            then show ?thesis using d 2(1) cf Finite by (simp add: new_def)
          next
            case s: 2
            have "a \<le> a + s" using s(2) by simp
            from round32_ge_float [OF fa this]
            show ?thesis using d 2(1) s(1) cf Finite by (auto simp: new_def)
          qed
        qed
      qed
      have down: "new = NaN \<or> fle new c" if "b \<le> a"
      proof -
        have "b - a \<le> 0" using that by simp
        from round32_le_float [OF z this]
        consider "round32 (b - a) = NInf" | r where "round32 (b - a) = Finite r" "r \<le> 0" by blast
        then show ?thesis
        proof cases
          case 1
          then show ?thesis using d cf Finite k by (simp add: new_def)
        next
          case 2
          have "r * k \<le> 0" using 2(2) k(1) by (simp add: mult_nonpos_nonneg)
          from round32_le_float [OF z this]
          consider "round32 (r * k) = NInf" | s where "round32 (r * k) = Finite s" "s \<le> 0" by blast
          then show ?thesis
          proof cases
            case 1
            then show ?thesis using d 2(1) cf Finite by (simp add: new_def)
          next
            case s: 2
            have "a + s \<le> a" using s(2) by simp
            from round32_le_float [OF fa this]
            show ?thesis using d 2(1) s(1) cf Finite by (auto simp: new_def)
          qed
        qed
      qed
      show ?thesis using up down tf cf by auto
    qed
  qed
qed

lemma round32_not_NaN [simp]: "round32 x \<noteq> NaN"
  by (simp add: round32_def Let_def)

text \<open>With finite values and a positive coefficient the new value is not NaN.\<close>

lemma advance_not_NaN:
  assumes "0 < k"
  shows "fadd (Finite a) (fmul (fsub (Finite b) (Finite a)) (Finite k)) \<noteq> NaN"
proof -
  have d: "fsub (Finite b) (Finite a) = round32 (b - a)" by (simp add: fsub_def)
  show ?thesis
  proof (cases "round32 (b - a)")
    case (Finite r)
    then show ?thesis using d by (cases "round32 (r * k)") simp_all
  next
    case PInf
    then show ?thesis using d assms by simp
  next
    case NInf
    then show ?thesis using d assms by simp
  next
    case NaN
    then show ?thesis by simp
  qed
qed

subsection \<open>Theorems about SmoothedParameterF\<close>

text \<open>
  The invariant of a \<^verbatim>\<open>SmoothedParameterF\<close> in binary32: the coefficient is private and
  written by \<^verbatim>\<open>setSmoothingTime\<close> only, which leaves a number of \<open>[0, 1]\<close> or NaN in it,
  whatever \<^verbatim>\<open>std::exp\<close> returned; and an advance puts a binary32 value into the current
  value.
\<close>

lemma setSmoothingTime32_coefficientInRange:
  "coefficientInRange (alpha (setSmoothingTime32 computed timeMs sr p))"
  by (cases computed)
     (simp_all add: setSmoothingTime32_def coefficientInRange_def fgt_def Let_def)

lemma isFloat32_fadd [simp]: "isFloat32 (fadd x y)"
  by (cases x; cases y) (simp_all add: isFloat32_def round32_idem split: float32.splits)

lemma getNextValue_fields:
  "targetValue (snd (getNextValue p)) = targetValue p"
  "alpha (snd (getNextValue p)) = alpha p"
  "fst (getNextValue p) = currentValue (snd (getNextValue p))"
  by (simp_all add: getNextValue_def)

lemma getNextValue_isFloat32:
  "isFloat32 (targetValue p) \<Longrightarrow> isFloat32 (currentValue (snd (getNextValue p)))"
  by (simp add: getNextValue_def)

lemma advance_fields:
  "targetValue (advance n p) = targetValue p"
  "alpha (advance n p) = alpha p"
  by (induction n) (simp_all add: getNextValue_fields)

lemma advance_isFloat32:
  assumes "isFloat32 (currentValue p)" and "isFloat32 (targetValue p)"
  shows "isFloat32 (currentValue (advance n p))"
proof (cases n)
  case 0
  then show ?thesis using assms(1) by simp
next
  case (Suc m)
  have "isFloat32 (targetValue (advance m p))" using assms(2) by (simp add: advance_fields)
  then show ?thesis using Suc by (simp add: getNextValue_isFloat32)
qed

text \<open>
  Claim C2, amended. In binary32, for an object whose values are binary32 values and
  whose coefficient is as \<^verbatim>\<open>setSmoothingTime\<close> leaves it: \<^verbatim>\<open>setTarget\<close> never changes the
  current value. After any number \<open>n\<close> of advances (\<^verbatim>\<open>getNextValue\<close>) the target and the
  coefficient are the same and the current value is a binary32 value; the next advance
  returns the new current value. The new current value is exactly the target when the
  binary32 residual \<open>\<bar>target - current\<bar>\<close> is below the binary32 constant \<^verbatim>\<open>0.00001f\<close>,
  and \<open>current + (target - current) * alpha\<close>, each operation rounded, otherwise. It is
  NaN, or it lies on the target's side of the old current value: not below it when the
  target is not below it, not above it when the target is not above it. With finite
  current value and target and a positive coefficient it is not NaN. That the advance
  does not pass the target is not part of the statement: rounding can carry the
  current value past the target.
\<close>

theorem C2_smoothed_parameter_advance_binary32:
  assumes "isFloat32 (currentValue p)" and "isFloat32 (targetValue p)"
    and "coefficientInRange (alpha p)"
  shows "currentValue (setTarget v p) = currentValue p
       \<and> targetValue (advance n p) = targetValue p
       \<and> alpha (advance n p) = alpha p
       \<and> isFloat32 (currentValue (advance n p))
       \<and> fst (getNextValue (advance n p)) = currentValue (advance (Suc n) p)
       \<and> (flt (fabs (fsub (targetValue p) (currentValue (advance n p)))) epsilon32 \<longrightarrow>
            currentValue (advance (Suc n) p) = targetValue p)
       \<and> (\<not> flt (fabs (fsub (targetValue p) (currentValue (advance n p)))) epsilon32 \<longrightarrow>
            currentValue (advance (Suc n) p)
              = fadd (currentValue (advance n p))
                  (fmul (fsub (targetValue p) (currentValue (advance n p))) (alpha p)))
       \<and> (currentValue (advance (Suc n) p) = NaN
            \<or> (fle (currentValue (advance n p)) (targetValue p) \<longrightarrow>
                  fle (currentValue (advance n p)) (currentValue (advance (Suc n) p)))
              \<and> (fle (targetValue p) (currentValue (advance n p)) \<longrightarrow>
                  fle (currentValue (advance (Suc n) p)) (currentValue (advance n p))))
       \<and> ((\<exists>a b k. currentValue (advance n p) = Finite a \<and> targetValue p = Finite b
                    \<and> alpha p = Finite k \<and> 0 < k) \<longrightarrow>
            currentValue (advance (Suc n) p) \<noteq> NaN)"
proof -
  define q where "q = advance n p"
  have q: "targetValue q = targetValue p" "alpha q = alpha p"
    by (simp_all add: q_def advance_fields)
  have qf: "isFloat32 (currentValue q)" unfolding q_def by (rule advance_isFloat32 [OF assms(1,2)])
  have qa: "coefficientInRange (alpha q)" using assms(3) q by simp
  let ?c = "currentValue q" and ?t = "targetValue q"
  let ?new = "currentValue (snd (getNextValue q))"
  have side: "?new = NaN \<or> ((fle ?c ?t \<longrightarrow> fle ?c ?new) \<and> (fle ?t ?c \<longrightarrow> fle ?new ?c))"
  proof (cases "flt (fabs (fsub ?t ?c)) epsilon32")
    case True
    then have "?new = ?t" by (simp add: getNextValue_def)
    then show ?thesis by simp
  next
    case False
    then have "?new = fadd ?c (fmul (fsub ?t ?c) (alpha q))" by (simp add: getNextValue_def)
    then show ?thesis using advance_direction [OF qf qa, of ?t] by simp
  qed
  have finite: "?new \<noteq> NaN"
    if "\<exists>a b k. ?c = Finite a \<and> ?t = Finite b \<and> alpha q = Finite k \<and> 0 < k"
  proof -
    from that obtain a b k where
      v: "?c = Finite a" "?t = Finite b" "alpha q = Finite k" "0 < k" by blast
    show ?thesis
    proof (cases "flt (fabs (fsub ?t ?c)) epsilon32")
      case True
      then show ?thesis using v by (simp add: getNextValue_def)
    next
      case False
      then have "?new = fadd (Finite a) (fmul (fsub (Finite b) (Finite a)) (Finite k))"
        using v by (simp add: getNextValue_def)
      then show ?thesis using advance_not_NaN [OF v(4)] by simp
    qed
  qed
  have step: "(flt (fabs (fsub ?t ?c)) epsilon32 \<longrightarrow> ?new = ?t)
            \<and> (\<not> flt (fabs (fsub ?t ?c)) epsilon32 \<longrightarrow>
                 ?new = fadd ?c (fmul (fsub ?t ?c) (alpha q)))"
    by (simp add: getNextValue_def)
  have ret: "fst (getNextValue q) = ?new" by (rule getNextValue_fields)
  have "currentValue (setTarget v p) = currentValue p" by (simp add: setTarget_def)
  then show ?thesis
    using side finite step ret qf q unfolding q_def [symmetric] advance.simps
    unfolding q by blast
qed

lemma epsilon32_value: "epsilon32 = Finite (2748779 / 274877906944)"
  by code_simp

lemma round32_one: "round32 1 = Finite 1" "round32 (1 / 2) = Finite (1 / 2)"
  by code_simp+

text \<open>
  Claim C2 as stated fails in binary32. From the current value 100000000 with target 1
  and coefficient 1, one advance yields 0, on the other side of the target: the
  difference \<open>1 - 100000000\<close> rounds to \<open>- 100000000\<close>. With current value 0, coefficient
  1/2 and the target \<^verbatim>\<open>0.00001f\<close>, the residual is below \<open>1 / 100000\<close>, yet the advance
  does not snap to the target but yields half of it. And a NaN target turns the current
  value into NaN.
\<close>

theorem C2_counterexample:
  "fst (getNextValue \<lparr>currentValue = Finite 100000000, targetValue = Finite 1,
                      alpha = Finite 1\<rparr>) = Finite 0
   \<and> isFloat32 (Finite 100000000)
   \<and> targetValue (setTarget epsilon32 \<lparr>currentValue = Finite 0, targetValue = Finite 0,
                      alpha = Finite (1 / 2)\<rparr>) = Finite (2748779 / 274877906944)
   \<and> \<bar>2748779 / 274877906944 - 0\<bar> < (1 / 100000 :: real)
   \<and> fst (getNextValue (setTarget epsilon32 \<lparr>currentValue = Finite 0, targetValue = Finite 0,
                      alpha = Finite (1 / 2)\<rparr>)) = Finite (2748779 / 549755813888)
   \<and> fst (getNextValue \<lparr>currentValue = Finite 0, targetValue = NaN, alpha = Finite 1\<rparr>) = NaN"
  by code_simp

text \<open>
  An instance of C2: from 0 towards the target 1 with coefficient 1/2 the first advance
  yields 1/2 and the second 3/4.
\<close>

theorem C2_witness:
  "isFloat32 (Finite 0) \<and> isFloat32 (Finite 1) \<and> coefficientInRange (Finite (1 / 2))
   \<and> currentValue (setTarget (Finite 1)
        \<lparr>currentValue = Finite 0, targetValue = Finite 0, alpha = Finite (1 / 2)\<rparr>) = Finite 0
   \<and> currentValue (advance 1
        \<lparr>currentValue = Finite 0, targetValue = Finite 1, alpha = Finite (1 / 2)\<rparr>)
       = Finite (1 / 2)
   \<and> fst (getNextValue (advance 1
        \<lparr>currentValue = Finite 0, targetValue = Finite 1, alpha = Finite (1 / 2)\<rparr>))
       = Finite (3 / 4)
   \<and> fle (Finite (1 / 2)) (currentValue (advance 2
        \<lparr>currentValue = Finite 0, targetValue = Finite 1, alpha = Finite (1 / 2)\<rparr>))"
proof -
  let ?p = "\<lparr>currentValue = Finite 0, targetValue = Finite 1, alpha = Finite (1 / 2)\<rparr>"
  have h: "isFloat32 (currentValue ?p)" "isFloat32 (targetValue ?p)"
    "coefficientInRange (alpha ?p)"
    by (simp_all add: isFloat32_def coefficientInRange_def round32_one)
  have a1: "currentValue (advance 1 ?p) = Finite (1 / 2)" by code_simp
  have big: "\<not> flt (fabs (fsub (targetValue ?p) (Finite (1 / 2)))) epsilon32" by code_simp
  have val: "fadd (Finite (1 / 2)) (fmul (fsub (targetValue ?p) (Finite (1 / 2))) (alpha ?p))
             = Finite (3 / 4)" by code_simp
  have s2: "advance (Suc 1) ?p = advance 2 ?p" by (simp add: numeral_2_eq_2)
  from C2_smoothed_parameter_advance_binary32 [OF h, of "Finite 1" 1] a1 big val
  have "fst (getNextValue (advance 1 ?p)) = Finite (3 / 4)"
    and "currentValue (advance 2 ?p) = Finite (3 / 4)"
    unfolding s2 by simp_all
  then show ?thesis using a1
    by (simp add: isFloat32_def coefficientInRange_def setTarget_def round32_one)
qed

text \<open>
  An advance can also leave the current value where it is, away from the target, for
  ever: with current value 1, target \<open>1025 / 1024\<close> and coefficient \<open>1 / 1048576\<close> the
  step \<open>1 / 1073741824\<close> is lost when it is added to 1.
\<close>

lemma getNextValue_stalls:
  "snd (getNextValue \<lparr>currentValue = Finite 1, targetValue = Finite (1025 / 1024),
                       alpha = Finite (1 / 1048576)\<rparr>)
   = \<lparr>currentValue = Finite 1, targetValue = Finite (1025 / 1024),
       alpha = Finite (1 / 1048576)\<rparr>"
  by code_simp

lemma advance_stalls:
  "advance n \<lparr>currentValue = Finite 1, targetValue = Finite (1025 / 1024),
              alpha = Finite (1 / 1048576)\<rparr>
   = \<lparr>currentValue = Finite 1, targetValue = Finite (1025 / 1024),
       alpha = Finite (1 / 1048576)\<rparr>"
  by (induction n) (simp_all add: getNextValue_stalls)

subsection \<open>Theorems about the parameter router\<close>

lemma dispatch_keeps:
  "initialized (snd (dispatch pid v e)) = initialized e"
  "parameterCache (snd (dispatch pid v e)) = parameterCache e"
  "recordedAutomation (snd (dispatch pid v e)) = recordedAutomation e"
  "ccToParameterMap (snd (dispatch pid v e)) = ccToParameterMap e"
  by (simp_all add: dispatch_def onModule_def oscillatorParameter_def call_def Let_def)

lemma recordAndCache_keeps:
  "initialized (recordAndCache pid v fa e) = initialized e"
  "parameterCache (recordAndCache pid v fa e) = (parameterCache e)(pid \<mapsto> v)"
  "currentXYPadXParameterId (recordAndCache pid v fa e) = currentXYPadXParameterId e"
  "currentXYPadYParameterId (recordAndCache pid v fa e) = currentXYPadYParameterId e"
  "isRecordingAutomation (recordAndCache pid v fa e) = isRecordingAutomation e"
  "ccToParameterMap (recordAndCache pid v fa e) = ccToParameterMap e"
  by (simp_all add: recordAndCache_def recordAutomationEvent_def Let_def)

lemma setParameter_cache_invariant:
  assumes "setParameter ids pid v fa e = Some y"
  shows "initialized e \<longrightarrow>
           initialized (snd y) \<and> parameterCache (snd y) pid = Some v
         \<and> (\<forall>k. parameterCache e k = Some v \<longrightarrow> parameterCache (snd y) k = Some v)"
proof (rule setParameter.raw_induct [OF _ assms])
  fix f :: "SynthParameterId \<Rightarrow> int \<Rightarrow> real \<Rightarrow> bool \<Rightarrow> SynthEngine \<Rightarrow> (bool \<times> SynthEngine) option"
    and ids pid v fa e y
  assume IH: "\<And>ids pid v fa e y. f ids pid v fa e = Some y \<Longrightarrow> initialized e \<longrightarrow>
           initialized (snd y) \<and> parameterCache (snd y) pid = Some v
         \<and> (\<forall>k. parameterCache e k = Some v \<longrightarrow> parameterCache (snd y) k = Some v)"
    and body: "(if \<not> initialized e then Some (False, e)
      else if pid = xyPadXValue ids then
        f ids (currentXYPadXParameterId (recordAndCache pid v fa e))
          v fa (recordAndCache pid v fa e)
      else if pid = xyPadYValue ids then
        f ids (currentXYPadYParameterId (recordAndCache pid v fa e))
          v fa (recordAndCache pid v fa e)
      else Some (dispatch pid v (recordAndCache pid v fa e))) = Some y"
  let ?e2 = "recordAndCache pid v fa e"
  show "initialized e \<longrightarrow>
           initialized (snd y) \<and> parameterCache (snd y) pid = Some v
         \<and> (\<forall>k. parameterCache e k = Some v \<longrightarrow> parameterCache (snd y) k = Some v)"
  proof (intro impI)
    assume ini: "initialized e"
    have ini2: "initialized ?e2" using ini by (simp add: recordAndCache_keeps)
    have c2: "parameterCache ?e2 pid = Some v"
             "\<forall>k. parameterCache e k = Some v \<longrightarrow> parameterCache ?e2 k = Some v"
      by (simp_all add: recordAndCache_keeps)
    consider (x) "pid = xyPadXValue ids" | (y) "pid \<noteq> xyPadXValue ids" "pid = xyPadYValue ids"
      | (d) "pid \<noteq> xyPadXValue ids" "pid \<noteq> xyPadYValue ids" by blast
    then show "initialized (snd y) \<and> parameterCache (snd y) pid = Some v
         \<and> (\<forall>k. parameterCache e k = Some v \<longrightarrow> parameterCache (snd y) k = Some v)"
    proof cases
      case x
      with body ini have "f ids (currentXYPadXParameterId ?e2) v fa ?e2 = Some y" by simp
      from IH [OF this] ini2 c2 show ?thesis by blast
    next
      case y
      with body ini have "f ids (currentXYPadYParameterId ?e2) v fa ?e2 = Some y" by simp
      from IH [OF this] ini2 c2 show ?thesis by blast
    next
      case d
      with body ini have "y = dispatch pid v ?e2" by simp
      then show ?thesis using ini2 c2 by (simp add: dispatch_keeps)
    qed
  qed
qed

text \<open>
  Claim C1. On an initialized engine, whenever \<^verbatim>\<open>setParameter(id, v)\<close> returns, with any
  result \<open>r\<close> (so also \<open>False\<close>, for an oscillator slot out of range or an unrecognized
  identifier), \<^verbatim>\<open>getParameter(id)\<close> on the resulting engine returns \<open>v\<close>: the cache was
  written before the dispatch and is read first.
\<close>

theorem C1_get_after_set_returns_value:
  assumes "initialized e" and "setParameter ids pid v fromAutomation e = Some (r, e')"
  shows "getParameter filterTargets pid e' = v"
  using setParameter_cache_invariant [OF assms(2)] assms(1)
  by (simp add: getParameter_def)

lemma setParameter_plain:
  assumes "initialized e" "pid \<noteq> xyPadXValue ids" "pid \<noteq> xyPadYValue ids"
  shows "setParameter ids pid v fa e = Some (dispatch pid v (recordAndCache pid v fa e))"
  using assms by (subst setParameter.simps) simp

lemma setParameter_uninitialized:
  "\<not> initialized e \<Longrightarrow> setParameter ids pid v fa e = Some (False, e)"
  by (subst setParameter.simps) simp

text \<open>
  A call never returns when the passthrough identifiers it goes through only lead to
  passthrough identifiers again: a set \<open>L\<close> of pad identifiers that the pad assignments
  do not leave.
\<close>

lemma setParameter_pad_cycle:
  assumes "initialized e" and "pid \<in> L" and "L \<subseteq> {xyPadXValue ids, xyPadYValue ids}"
    and "xyPadXValue ids \<in> L \<longrightarrow> currentXYPadXParameterId e \<in> L"
    and "xyPadYValue ids \<in> L \<longrightarrow> xyPadYValue ids \<noteq> xyPadXValue ids \<longrightarrow>
           currentXYPadYParameterId e \<in> L"
  shows "setParameter ids pid v fa e = None"
proof (rule ccontr)
  assume "setParameter ids pid v fa e \<noteq> None"
  then obtain y where y: "setParameter ids pid v fa e = Some y" by blast
  let ?cyc = "\<lambda>(ids :: SynthParameterId) pid e.
        initialized e \<and> pid \<in> L \<and> L \<subseteq> {xyPadXValue ids, xyPadYValue ids}
      \<and> (xyPadXValue ids \<in> L \<longrightarrow> currentXYPadXParameterId e \<in> L)
      \<and> (xyPadYValue ids \<in> L \<longrightarrow> xyPadYValue ids \<noteq> xyPadXValue ids \<longrightarrow>
           currentXYPadYParameterId e \<in> L)"
  have "\<not> ?cyc ids pid e"
  proof (rule setParameter.raw_induct [where P = "\<lambda>ids pid v fa e y. \<not> ?cyc ids pid e", OF _ y])
    fix f :: "SynthParameterId \<Rightarrow> int \<Rightarrow> real \<Rightarrow> bool \<Rightarrow> SynthEngine \<Rightarrow> (bool \<times> SynthEngine) option"
      and ids pid v fa e y
    assume IH: "\<And>ids pid v fa e y. f ids pid v fa e = Some y \<Longrightarrow> \<not> ?cyc ids pid e"
      and body: "(if \<not> initialized e then Some (False, e)
        else if pid = xyPadXValue ids then
          f ids (currentXYPadXParameterId (recordAndCache pid v fa e))
            v fa (recordAndCache pid v fa e)
        else if pid = xyPadYValue ids then
          f ids (currentXYPadYParameterId (recordAndCache pid v fa e))
            v fa (recordAndCache pid v fa e)
        else Some (dispatch pid v (recordAndCache pid v fa e))) = Some y"
    let ?e2 = "recordAndCache pid v fa e"
    show "\<not> ?cyc ids pid e"
    proof
      assume h: "?cyc ids pid e"
      show False
      proof (cases "pid = xyPadXValue ids")
        case True
        with h body have c: "f ids (currentXYPadXParameterId e) v fa ?e2 = Some y"
          by (simp add: recordAndCache_keeps)
        have "?cyc ids (currentXYPadXParameterId e) ?e2"
          using h True by (simp add: recordAndCache_keeps)
        with IH [OF c] show False by blast
      next
        case False
        with h have py: "pid = xyPadYValue ids" by auto
        with False h body have c: "f ids (currentXYPadYParameterId e) v fa ?e2 = Some y"
          by (simp add: recordAndCache_keeps)
        have "?cyc ids (currentXYPadYParameterId e) ?e2"
          using h False py by (simp add: recordAndCache_keeps)
        with IH [OF c] show False by blast
      qed
    qed
  qed
  with assms show False by simp
qed

lemma setParameter_self_loop:
  assumes "initialized e" "currentXYPadXParameterId e = xyPadXValue ids"
  shows "setParameter ids (xyPadXValue ids) v fa e = None"
  using assms by (intro setParameter_pad_cycle [where L = "{xyPadXValue ids}"]) simp_all

lemma setParameter_self_loop_Y:
  assumes "initialized e" "currentXYPadYParameterId e = xyPadYValue ids"
    "xyPadYValue ids \<noteq> xyPadXValue ids"
  shows "setParameter ids (xyPadYValue ids) v fa e = None"
  using assms by (intro setParameter_pad_cycle [where L = "{xyPadYValue ids}"]) simp_all

lemma setParameter_mutual_loop:
  assumes "initialized e" "currentXYPadXParameterId e = xyPadYValue ids"
    "currentXYPadYParameterId e = xyPadXValue ids"
    "pid = xyPadXValue ids \<or> pid = xyPadYValue ids"
  shows "setParameter ids pid v fa e = None"
  using assms
  by (intro setParameter_pad_cycle [where L = "{xyPadXValue ids, xyPadYValue ids}"]) auto

text \<open>
  An identifier outside the named ones and outside a live oscillator slot is rejected,
  and cached all the same.
\<close>

lemma dispatch_outside_named:
  assumes "pid < 0 \<or> 100 \<le> pid"
  shows "dispatch pid v e
         = (if 100 \<le> pid \<and> pid < 1100 then oscillatorParameter pid v e else (False, e))"
proof (cases "pid < 0")
  case True
  then show ?thesis by (simp add: dispatch_def)
next
  case False
  with assms have "100 \<le> pid" by simp
  then show ?thesis by (simp add: dispatch_def)
qed

lemma oscillatorParameter_slot_out_of_range:
  assumes "100 \<le> pid" "int (length (oscillators e)) \<le> (pid - 100) div 10"
  shows "oscillatorParameter pid v e = (False, e)"
proof -
  have "\<not> nat ((pid - 100) div 10) < length (oscillators e)" using assms by linarith
  then show ?thesis by (simp add: oscillatorParameter_def Let_def)
qed

lemma setParameter_rejected_is_cached:
  assumes "initialized e" "pid \<noteq> xyPadXValue ids" "pid \<noteq> xyPadYValue ids"
    and "(100 \<le> pid \<and> pid < 1100 \<and> int (length (oscillators e)) \<le> (pid - 100) div 10)
         \<or> 1100 \<le> pid \<or> pid < 0"
  shows "\<exists>e'. setParameter ids pid v fa e = Some (False, e')
            \<and> getParameter filterTargets pid e' = v"
proof -
  let ?e2 = "recordAndCache pid v fa e"
  have o: "oscillators ?e2 = oscillators e"
    by (simp add: recordAndCache_def recordAutomationEvent_def Let_def)
  have n: "pid < 0 \<or> 100 \<le> pid" using assms(4) by linarith
  have d: "dispatch pid v ?e2 = (False, ?e2)"
  proof (cases "100 \<le> pid \<and> pid < 1100")
    case True
    with assms(4) have "int (length (oscillators e)) \<le> (pid - 100) div 10" by auto
    then have "int (length (oscillators ?e2)) \<le> (pid - 100) div 10" using o by simp
    with True show ?thesis
      by (simp add: dispatch_outside_named [OF n] oscillatorParameter_slot_out_of_range)
  next
    case False
    then show ?thesis unfolding dispatch_outside_named [OF n] by auto
  qed
  have "setParameter ids pid v fa e = Some (False, ?e2)"
    using assms(1-3) d by (simp add: setParameter_plain)
  then show ?thesis using assms(1) by (simp add: recordAndCache_keeps getParameter_def)
qed

text \<open>
  What a successful \<^verbatim>\<open>initialize\<close> of a newly constructed engine leaves behind.
\<close>

lemma initialize_new_engine:
  assumes "initialize en out sr bs vol (SynthEngine_new clk) = (True, e)"
  shows "initialized e \<and> parameterCache e = Map.empty \<and> ccToParameterMap e = Map.empty
       \<and> recordedAutomation e = Map.empty \<and> activeNotes e = Map.empty
       \<and> \<not> midiLearnActive e \<and> \<not> isRecordingAutomation e
       \<and> currentXYPadXParameterId e = 10 \<and> currentXYPadYParameterId e = 11
       \<and> currentUiTargetPanelId e = 0
       \<and> fftPlan e \<and> analysisBuffers e \<and> fftSize e = 2048
       \<and> oscillators e = [True, True]"
  using assms
  by (auto simp: initialize_def SynthEngine_new_def initializeAudioAnalysis_def
      initializeDefaultModules_def call_def Let_def split: if_splits prod.splits)

lemma exampleEngine_fields:
  "initialized exampleEngine"
  "parameterCache exampleEngine = Map.empty"
  "recordedAutomation exampleEngine = Map.empty"
  "ccToParameterMap exampleEngine = Map.empty"
  "currentXYPadXParameterId exampleEngine = 10"
  "currentXYPadYParameterId exampleEngine = 11"
  "oscillators exampleEngine = [True, True]"
  "filter_m exampleEngine"
  "\<not> isRecordingAutomation exampleEngine"
  "\<not> midiLearnActive exampleEngine"
  "clockReads exampleEngine = 0"
  "clock exampleEngine = real"
  "activeNotes exampleEngine = Map.empty"
  by (simp_all add: exampleEngine_def initialize_def SynthEngine_new_def exampleOutcome_def
      initializeAudioAnalysis_def initializeDefaultModules_def call_def Let_def)

lemma exampleIds_fields: "xyPadXValue exampleIds = 60" "xyPadYValue exampleIds = 61"
  by (simp_all add: exampleIds_def)

text \<open>
  An instance of C1: the example engine has two oscillators, so identifier 150 addresses
  the oscillator slot 5, which is out of range; \<^verbatim>\<open>setParameter\<close> returns false and the
  value is read back all the same.
\<close>

theorem C1_witness:
  "initialized exampleEngine
   \<and> setParameter exampleIds 150 (3/10) False exampleEngine
       = Some (False, recordAndCache 150 (3/10) False exampleEngine)
   \<and> getParameter (0, 0) 150 (recordAndCache 150 (3/10) False exampleEngine) = 3/10"
proof -
  have i: "initialized exampleEngine" by (rule exampleEngine_fields)
  have d: "dispatch 150 (3/10) (recordAndCache 150 (3/10) False exampleEngine)
           = (False, recordAndCache 150 (3/10) False exampleEngine)"
    by (simp add: dispatch_def oscillatorParameter_def Let_def recordAndCache_def
        exampleEngine_fields)
  have s: "setParameter exampleIds 150 (3/10) False exampleEngine
       = Some (False, recordAndCache 150 (3/10) False exampleEngine)"
    using setParameter_plain [of exampleEngine 150 exampleIds "3/10" False] i d
    by (simp add: exampleIds_fields)
  from C1_get_after_set_returns_value [OF i s, of "(0, 0)"] i s show ?thesis by simp
qed

text \<open>
  Claim C3 says that \<^verbatim>\<open>setParameter\<close> terminates for every pad assignment. On the example
  engine, once the X axis of the pad is assigned to the X passthrough identifier itself, the
  call \<^verbatim>\<open>setParameter(xyPadXValue, 0.5)\<close> never returns: each call writes the cache and
  calls itself with the same identifier.
\<close>

theorem C3_self_assigned_pad_never_returns:
  "setParameter exampleIds 60 (1/2) False (set_xy_pad_x_parameter 60 exampleEngine) = None"
proof -
  have "setParameter exampleIds (xyPadXValue exampleIds) (1/2) False
          (set_xy_pad_x_parameter 60 exampleEngine) = None"
    by (rule setParameter_self_loop)
       (simp_all add: set_xy_pad_x_parameter_def exampleEngine_fields exampleIds_fields)
  then show ?thesis by (simp add: exampleIds_fields)
qed

lemma setParameter_padX:
  assumes "initialized e" "pid = xyPadXValue ids"
  shows "setParameter ids pid v fa e
         = setParameter ids (currentXYPadXParameterId e) v fa (recordAndCache pid v fa e)"
  using assms by (subst setParameter.simps) (simp add: recordAndCache_keeps)

lemma setParameter_padY:
  assumes "initialized e" "pid \<noteq> xyPadXValue ids" "pid = xyPadYValue ids"
  shows "setParameter ids pid v fa e
         = setParameter ids (currentXYPadYParameterId e) v fa (recordAndCache pid v fa e)"
  using assms by (subst setParameter.simps) (simp add: recordAndCache_keeps)

text \<open>
  When neither pad axis is assigned to a passthrough identifier, every call returns.
\<close>

lemma setParameter_returns:
  assumes "currentXYPadXParameterId e \<noteq> xyPadXValue ids"
          "currentXYPadXParameterId e \<noteq> xyPadYValue ids"
          "currentXYPadYParameterId e \<noteq> xyPadXValue ids"
          "currentXYPadYParameterId e \<noteq> xyPadYValue ids"
  shows "\<exists>y. setParameter ids pid v fa e = Some y"
proof -
  let ?e2 = "recordAndCache pid v fa e"
  consider (u) "\<not> initialized e"
    | (x) "initialized e" "pid = xyPadXValue ids"
    | (y) "initialized e" "pid \<noteq> xyPadXValue ids" "pid = xyPadYValue ids"
    | (d) "initialized e" "pid \<noteq> xyPadXValue ids" "pid \<noteq> xyPadYValue ids" by blast
  then show ?thesis
  proof cases
    case u
    then have "setParameter ids pid v fa e = Some (False, e)"
      by (rule setParameter_uninitialized)
    then show ?thesis by blast
  next
    case x
    have "setParameter ids (currentXYPadXParameterId e) v fa ?e2
          = Some (dispatch (currentXYPadXParameterId e) v
                    (recordAndCache (currentXYPadXParameterId e) v fa ?e2))"
      using assms x by (intro setParameter_plain) (simp_all add: recordAndCache_keeps)
    then show ?thesis using setParameter_padX [OF x, of v fa] by simp
  next
    case y
    have "setParameter ids (currentXYPadYParameterId e) v fa ?e2
          = Some (dispatch (currentXYPadYParameterId e) v
                    (recordAndCache (currentXYPadYParameterId e) v fa ?e2))"
      using assms y by (intro setParameter_plain) (simp_all add: recordAndCache_keeps)
    then show ?thesis using setParameter_padY [OF y, of v fa] by simp
  next
    case d
    then have "setParameter ids pid v fa e = Some (dispatch pid v ?e2)"
      by (intro setParameter_plain)
    then show ?thesis by blast
  qed
qed

lemma recordAndCache_automation:
  "recordedAutomation (recordAndCache pid v fa e) =
     (if isRecordingAutomation e \<and> \<not> fa
      then (recordedAutomation e)(pid \<mapsto> trackOf (recordedAutomation e) pid @
             [\<lparr>parameterId = pid, eventValue = v,
               timestamp = clock e (clockReads e) - automationRecordStartTime e\<rparr>])
      else recordedAutomation e)"
  "clockReads (recordAndCache pid v fa e) =
     (if isRecordingAutomation e \<and> \<not> fa then Suc (clockReads e) else clockReads e)"
  "clock (recordAndCache pid v fa e) = clock e"
  "automationRecordStartTime (recordAndCache pid v fa e) = automationRecordStartTime e"
  by (simp_all add: recordAndCache_def recordAutomationEvent_def Let_def)

lemma setParameter_fromAutomation_keeps_tracks:
  assumes "setParameter ids pid v True e = Some y"
  shows "recordedAutomation (snd y) = recordedAutomation e"
proof -
  have "True = True \<longrightarrow> recordedAutomation (snd y) = recordedAutomation e"
  proof (rule setParameter.raw_induct [where P = "\<lambda>ids pid v fa e y.
            fa = True \<longrightarrow> recordedAutomation (snd y) = recordedAutomation e", OF _ assms])
    fix f :: "SynthParameterId \<Rightarrow> int \<Rightarrow> real \<Rightarrow> bool \<Rightarrow> SynthEngine \<Rightarrow> (bool \<times> SynthEngine) option"
      and ids pid v fa e y
    assume IH: "\<And>ids pid v fa e y. f ids pid v fa e = Some y \<Longrightarrow>
                  fa = True \<longrightarrow> recordedAutomation (snd y) = recordedAutomation e"
      and body: "(if \<not> initialized e then Some (False, e)
        else if pid = xyPadXValue ids then
          f ids (currentXYPadXParameterId (recordAndCache pid v fa e))
            v fa (recordAndCache pid v fa e)
        else if pid = xyPadYValue ids then
          f ids (currentXYPadYParameterId (recordAndCache pid v fa e))
            v fa (recordAndCache pid v fa e)
        else Some (dispatch pid v (recordAndCache pid v fa e))) = Some y"
    let ?e2 = "recordAndCache pid v fa e"
    show "fa = True \<longrightarrow> recordedAutomation (snd y) = recordedAutomation e"
    proof
      assume fa: "fa = True"
      have k: "recordedAutomation ?e2 = recordedAutomation e"
        using fa by (simp add: recordAndCache_automation)
      consider (u) "\<not> initialized e"
        | (x) "initialized e" "pid = xyPadXValue ids"
        | (y) "initialized e" "pid \<noteq> xyPadXValue ids" "pid = xyPadYValue ids"
        | (d) "initialized e" "pid \<noteq> xyPadXValue ids" "pid \<noteq> xyPadYValue ids" by blast
      then show "recordedAutomation (snd y) = recordedAutomation e"
      proof cases
        case u
        with body show ?thesis by auto
      next
        case x
        with body have "f ids (currentXYPadXParameterId ?e2) v fa ?e2 = Some y" by simp
        from IH [OF this] fa k show ?thesis by simp
      next
        case y
        with body have "f ids (currentXYPadYParameterId ?e2) v fa ?e2 = Some y" by simp
        from IH [OF this] fa k show ?thesis by simp
      next
        case d
        with body have "y = dispatch pid v ?e2" by simp
        then show ?thesis using k by (simp add: dispatch_keeps)
      qed
    qed
  qed
  then show ?thesis by simp
qed

text \<open>
  \<^verbatim>\<open>startAutomationRecording\<close> stores a reading of the clock as the recording start,
  and that reading is then behind the next one.
\<close>

lemma startAutomationRecording_start:
  "automationRecordStartTime (startAutomationRecording e)
     = clock (startAutomationRecording e) (clockReads e)
   \<and> clockReads e \<le> clockReads (startAutomationRecording e)
   \<and> isRecordingAutomation (startAutomationRecording e)"
  by (simp add: startAutomationRecording_def)

text \<open>
  Claim C4, amended. While automation recording is active, a call
  \<^verbatim>\<open>setParameter(id, v, false)\<close> on an initialized engine, for an identifier that is not
  one of the two XY-pad passthrough identifiers, returns and appends exactly one event: the
  track keyed by \<open>id\<close> grows by the event \<open>(id, v, t)\<close> and nothing else in the automation
  data changes. The timestamp \<open>t\<close> is the clock reading minus the recording start; the
  recording start is itself an earlier reading of the clock (the \<open>k\<close>-th), so \<open>t\<close> is
  non-negative for a clock whose readings never decrease. A call with
  \<open>fromAutomation = true\<close> that returns leaves the automation data unchanged, for every
  identifier.
\<close>

theorem C4_recording_appends_one_event:
  assumes "initialized e" and "isRecordingAutomation e"
    and "mono (clock e)" and "k \<le> clockReads e" and "automationRecordStartTime e = clock e k"
  shows "(pid \<noteq> xyPadXValue ids \<and> pid \<noteq> xyPadYValue ids \<longrightarrow>
           (\<exists>r e' t. setParameter ids pid v False e = Some (r, e')
              \<and> recordedAutomation e' =
                  (recordedAutomation e)(pid \<mapsto> trackOf (recordedAutomation e) pid @
                     [\<lparr>parameterId = pid, eventValue = v, timestamp = t\<rparr>])
              \<and> t = clock e (clockReads e) - automationRecordStartTime e
              \<and> 0 \<le> t))
       \<and> (\<forall>r e'. setParameter ids pid v True e = Some (r, e') \<longrightarrow>
             recordedAutomation e' = recordedAutomation e)"
proof (intro conjI impI allI)
  assume np: "pid \<noteq> xyPadXValue ids \<and> pid \<noteq> xyPadYValue ids"
  let ?y = "dispatch pid v (recordAndCache pid v False e)"
  let ?t = "clock e (clockReads e) - automationRecordStartTime e"
  have s: "setParameter ids pid v False e = Some (fst ?y, snd ?y)"
    using assms(1) np by (simp add: setParameter_plain)
  have r: "recordedAutomation (snd ?y) =
             (recordedAutomation e)(pid \<mapsto> trackOf (recordedAutomation e) pid @
                [\<lparr>parameterId = pid, eventValue = v, timestamp = ?t\<rparr>])"
    using assms(2) by (simp add: dispatch_keeps recordAndCache_automation)
  have "clock e k \<le> clock e (clockReads e)" using assms(3,4) by (rule monoD)
  then have t: "0 \<le> ?t" using assms(5) by simp
  show "\<exists>r e' t. setParameter ids pid v False e = Some (r, e')
              \<and> recordedAutomation e' =
                  (recordedAutomation e)(pid \<mapsto> trackOf (recordedAutomation e) pid @
                     [\<lparr>parameterId = pid, eventValue = v, timestamp = t\<rparr>])
              \<and> t = clock e (clockReads e) - automationRecordStartTime e
              \<and> 0 \<le> t"
    using s r t by (intro exI [of _ "fst ?y"] exI [of _ "snd ?y"] exI [of _ ?t]) simp
next
  fix r e'
  assume "setParameter ids pid v True e = Some (r, e')"
  from setParameter_fromAutomation_keeps_tracks [OF this]
  show "recordedAutomation e' = recordedAutomation e" by simp
qed

lemma recording_engine_fields:
  "initialized (startAutomationRecording exampleEngine)"
  "isRecordingAutomation (startAutomationRecording exampleEngine)"
  "recordedAutomation (startAutomationRecording exampleEngine) = Map.empty"
  "automationRecordStartTime (startAutomationRecording exampleEngine) = 0"
  "clockReads (startAutomationRecording exampleEngine) = 1"
  "clock (startAutomationRecording exampleEngine) = real"
  "currentXYPadXParameterId (startAutomationRecording exampleEngine) = 10"
  "currentXYPadYParameterId (startAutomationRecording exampleEngine) = 11"
  by (simp_all add: startAutomationRecording_def exampleEngine_fields)

lemma backward_engine_fields:
  "initialized (startAutomationRecording backwardClockEngine)"
  "isRecordingAutomation (startAutomationRecording backwardClockEngine)"
  "recordedAutomation (startAutomationRecording backwardClockEngine) = Map.empty"
  "automationRecordStartTime (startAutomationRecording backwardClockEngine) = 0"
  "clockReads (startAutomationRecording backwardClockEngine) = 1"
  "clock (startAutomationRecording backwardClockEngine) = (\<lambda>k. - real k)"
  by (simp_all add: startAutomationRecording_def backwardClockEngine_def initialize_def
      SynthEngine_new_def exampleOutcome_def initializeAudioAnalysis_def
      initializeDefaultModules_def call_def Let_def)

text \<open>
  Claim C4 as stated fails twice. For a passthrough identifier: on the example engine,
  recording from reading 0 of the clock, \<^verbatim>\<open>setParameter(xyPadXValue, 0.5, false)\<close> with the
  X axis on its default target 10 (filter cutoff) turns the empty automation data into
  two tracks of one event each: one event for identifier 60 and, from the nested call, a
  second one in the track of identifier 10. And for the timestamp: on the engine whose
  clock steps back by one second per reading, \<^verbatim>\<open>setParameter(10, 0.5, false)\<close> appends one
  event, with the timestamp -1.
\<close>

theorem C4_counterexample:
  "recordedAutomation (startAutomationRecording exampleEngine) = Map.empty
   \<and> map_option (recordedAutomation \<circ> snd)
        (setParameter exampleIds 60 (1/2) False (startAutomationRecording exampleEngine))
     = Some [60 \<mapsto> [\<lparr>parameterId = 60, eventValue = 1/2, timestamp = 1\<rparr>],
             10 \<mapsto> [\<lparr>parameterId = 10, eventValue = 1/2, timestamp = 2\<rparr>]]
   \<and> recordedAutomation (startAutomationRecording backwardClockEngine) = Map.empty
   \<and> map_option (recordedAutomation \<circ> snd)
        (setParameter exampleIds 10 (1/2) False (startAutomationRecording backwardClockEngine))
     = Some [10 \<mapsto> [\<lparr>parameterId = 10, eventValue = 1/2, timestamp = - 1\<rparr>]]"
proof -
  let ?b = "startAutomationRecording backwardClockEngine"
  have b: "setParameter exampleIds 10 (1/2) False ?b
           = Some (dispatch 10 (1/2) (recordAndCache 10 (1/2) False ?b))"
    by (rule setParameter_plain) (simp_all add: backward_engine_fields exampleIds_fields)
  have b': "recordedAutomation (snd (dispatch 10 (1/2) (recordAndCache 10 (1/2) False ?b)))
            = [10 \<mapsto> [\<lparr>parameterId = 10, eventValue = 1/2, timestamp = - 1\<rparr>]]"
    by (simp add: dispatch_keeps recordAndCache_automation backward_engine_fields trackOf_def)
  let ?e = "startAutomationRecording exampleEngine"
  let ?e2 = "recordAndCache 60 (1/2) False ?e"
  have 1: "setParameter exampleIds 60 (1/2) False ?e = setParameter exampleIds 10 (1/2) False ?e2"
    using setParameter_padX [of ?e 60 exampleIds "1/2" False]
    by (simp add: recording_engine_fields exampleIds_fields)
  have 2: "setParameter exampleIds 10 (1/2) False ?e2
           = Some (dispatch 10 (1/2) (recordAndCache 10 (1/2) False ?e2))"
    by (rule setParameter_plain)
       (simp_all add: recordAndCache_keeps recording_engine_fields exampleIds_fields)
  have 3: "recordedAutomation (snd (dispatch 10 (1/2) (recordAndCache 10 (1/2) False ?e2)))
           = [60 \<mapsto> [\<lparr>parameterId = 60, eventValue = 1/2, timestamp = 1\<rparr>],
              10 \<mapsto> [\<lparr>parameterId = 10, eventValue = 1/2, timestamp = 2\<rparr>]]"
    by (simp add: dispatch_keeps recordAndCache_automation recordAndCache_keeps
        recording_engine_fields trackOf_def)
  show ?thesis using 1 2 3 b b' by (simp add: recording_engine_fields backward_engine_fields)
qed

text \<open>An instance of C4: identifier 10 on the recording example engine.\<close>

theorem C4_witness:
  "initialized (startAutomationRecording exampleEngine)
   \<and> isRecordingAutomation (startAutomationRecording exampleEngine)
   \<and> mono (clock (startAutomationRecording exampleEngine))
   \<and> automationRecordStartTime (startAutomationRecording exampleEngine)
       = clock (startAutomationRecording exampleEngine) 0
   \<and> (\<exists>r e'. setParameter exampleIds 10 (1/2) False (startAutomationRecording exampleEngine)
                = Some (r, e')
        \<and> recordedAutomation e' = [10 \<mapsto> [\<lparr>parameterId = 10, eventValue = 1/2, timestamp = 1\<rparr>]])
   \<and> map_option (recordedAutomation \<circ> snd)
        (setParameter exampleIds 10 (1/2) True (startAutomationRecording exampleEngine))
       = Some Map.empty"
proof -
  let ?e = "startAutomationRecording exampleEngine"
  have h: "initialized ?e" "isRecordingAutomation ?e" by (simp_all add: recording_engine_fields)
  have m: "mono (clock ?e)" by (simp add: recording_engine_fields mono_def)
  have k: "(0::nat) \<le> clockReads ?e" by simp
  have st: "automationRecordStartTime ?e = clock ?e 0" by (simp add: recording_engine_fields)
  have "setParameter exampleIds 10 (1/2) True ?e
        = Some (dispatch 10 (1/2) (recordAndCache 10 (1/2) True ?e))"
    by (rule setParameter_plain) (simp_all add: recording_engine_fields exampleIds_fields)
  then obtain r1 e1 where a: "setParameter exampleIds 10 (1/2) True ?e = Some (r1, e1)"
    by (cases "dispatch 10 (1/2) (recordAndCache 10 (1/2) True ?e)") simp
  from C4_recording_appends_one_event [OF h m k st, of 10 exampleIds "1/2"] a
  show ?thesis using h m st
    by (simp add: recording_engine_fields exampleIds_fields trackOf_def del: split_paired_Ex)
qed

subsection \<open>Theorems about MIDI events and notes\<close>

lemma c_rem_nonneg: "0 \<le> a \<Longrightarrow> c_rem a 128 = a mod 128"
  by (simp add: c_rem_def)

text \<open>
  Claim C7. For a Control Change message on channel 16 (status byte with type nibble
  \<open>0xB0\<close> and channel nibble 15) on an initialized engine: CC 32 returns true and sets
  the UI target panel id to the data value modulo 128, changing nothing else; CC 109
  returns true and replaces the panel id by \<open>(current + 1) % 128\<close>, which is
  \<open>(current + 1) mod 128\<close> for the non-negative ids the engine ever stores; every other
  CC outside \<open>{0, 102..108, 110}\<close> returns true and leaves the whole engine state as it
  was, so the parameter cache, the CC mapping table and the modules are untouched.
\<close>

theorem C7_ui_channel_control_change:
  assumes "initialized e" and "status AND 0xF0 = 0xB0" and "status AND 0x0F = 15"
  shows "(uint data1 = 32 \<longrightarrow>
            processMidiEvent ids status data1 data2 e
              = Some (True, e\<lparr>currentUiTargetPanelId := uint data2 mod 128\<rparr>))
       \<and> (uint data1 = 109 \<longrightarrow>
            processMidiEvent ids status data1 data2 e
              = Some (True, e\<lparr>currentUiTargetPanelId := c_rem (currentUiTargetPanelId e + 1) 128\<rparr>)
          \<and> (0 \<le> currentUiTargetPanelId e \<longrightarrow>
               c_rem (currentUiTargetPanelId e + 1) 128 = (currentUiTargetPanelId e + 1) mod 128))
       \<and> (uint data1 \<noteq> 32 \<and> uint data1 \<noteq> 109 \<and> uint data1 \<noteq> 0
            \<and> \<not> (102 \<le> uint data1 \<and> uint data1 \<le> 108) \<and> uint data1 \<noteq> 110 \<longrightarrow>
            processMidiEvent ids status data1 data2 e = Some (True, e))"
proof -
  have p: "processMidiEvent ids status data1 data2 e
           = Some (uiControlChange (uint data1) (uint data2) e)"
    using assms by (simp add: processMidiEvent_def Let_def)
  have d2: "c_rem (uint data2) 128 = uint data2 mod 128" by (simp add: c_rem_nonneg)
  show ?thesis unfolding p
    by (auto simp add: uiControlChange_def d2 c_rem_nonneg)
qed

text \<open>
  Instances of C7 on the example engine: CC 32 with value 5, CC 109 wrapping from 127 to
  0, and CC 7, which changes nothing on channel 16.
\<close>

theorem C7_witness:
  "initialized exampleEngine
   \<and> processMidiEvent exampleIds 0xBF 32 5 exampleEngine
       = Some (True, exampleEngine\<lparr>currentUiTargetPanelId := 5\<rparr>)
   \<and> processMidiEvent exampleIds 0xBF 109 0 (exampleEngine\<lparr>currentUiTargetPanelId := 127\<rparr>)
       = Some (True, exampleEngine\<lparr>currentUiTargetPanelId := 0\<rparr>)
   \<and> processMidiEvent exampleIds 0xBF 7 100 exampleEngine = Some (True, exampleEngine)"
proof -
  have i: "initialized exampleEngine" by (rule exampleEngine_fields)
  have i': "initialized (exampleEngine\<lparr>currentUiTargetPanelId := 127\<rparr>)"
    by (simp add: exampleEngine_fields)
  have s: "(0xBF :: 8 word) AND 0xF0 = 0xB0" "(0xBF :: 8 word) AND 0x0F = 15" by simp_all
  from C7_ui_channel_control_change [OF i s, of 32 exampleIds 5]
  have a: "processMidiEvent exampleIds 0xBF 32 5 exampleEngine
       = Some (True, exampleEngine\<lparr>currentUiTargetPanelId := 5\<rparr>)" by simp
  from C7_ui_channel_control_change [OF i' s, of 109 exampleIds 0]
  have b: "processMidiEvent exampleIds 0xBF 109 0 (exampleEngine\<lparr>currentUiTargetPanelId := 127\<rparr>)
       = Some (True, exampleEngine\<lparr>currentUiTargetPanelId := 0\<rparr>)"
    by (simp add: c_rem_def)
  from C7_ui_channel_control_change [OF i s, of 7 exampleIds 100]
  have c: "processMidiEvent exampleIds 0xBF 7 100 exampleEngine = Some (True, exampleEngine)"
    by simp
  show ?thesis using i a b c by simp
qed

text \<open>
  Claim C10. On an initialized engine \<^verbatim>\<open>noteOff\<close> returns true; for a note that is not
  in the active-note set it leaves the engine exactly as it was, so the set is unchanged
  and the envelope is not released. A module is only ever called by \<^verbatim>\<open>noteOff\<close> when the
  note was active and its removal empties the set, and that call is the envelope's
  release.
\<close>

theorem C10_noteOff_inactive_note:
  assumes "initialized e"
  shows "fst (noteOff note e) = True
       \<and> (activeNotes e note = None \<longrightarrow> noteOff note e = (True, e))
       \<and> (moduleCalls (snd (noteOff note e)) \<noteq> moduleCalls e \<longrightarrow>
            activeNotes e note \<noteq> None
          \<and> activeNotes (snd (noteOff note e)) = Map.empty
          \<and> moduleCalls (snd (noteOff note e)) = moduleCalls e @ [EnvNoteOff])"
  using assms by (simp add: noteOff_def Let_def call_def)

text \<open>
  An instance of C10: note 69 is not active on the example engine.
\<close>

theorem C10_witness:
  "initialized exampleEngine \<and> activeNotes exampleEngine 69 = None
   \<and> noteOff 69 exampleEngine = (True, exampleEngine)"
proof -
  have i: "initialized exampleEngine" by (rule exampleEngine_fields)
  have n: "activeNotes exampleEngine 69 = None" by (simp add: exampleEngine_fields)
  from C10_noteOff_inactive_note [OF i, of 69] i n show ?thesis by simp
qed

lemma controlChange_learn:
  assumes "midiLearnActive e" "parameterIdToLearn e \<noteq> -1"
  shows "controlChange ids cc val e =
          Some (True, stopMidiLearn (e\<lparr>ccToParameterMap :=
                               (eraseMappingsTo (parameterIdToLearn e) (ccToParameterMap e))
                                 (cc \<mapsto> parameterIdToLearn e),
                             lastCcValue := (lastCcValue e)(cc \<mapsto> val)\<rparr>))"
  using assms by (simp add: controlChange_def Let_def)

text \<open>
  Claim C6, amended: on an initialized engine, if MIDI learn is armed for a parameter
  \<open>P \<noteq> -1\<close> and a Control Change message arrives on a channel other than 16, then
  \<^verbatim>\<open>processMidiEvent\<close> returns true, the table maps the CC number to \<open>P\<close>, every other
  CC that was mapped to \<open>P\<close> is unmapped, all remaining entries are kept, and learn is
  disarmed.
\<close>

theorem C6_midi_learn_maps_cc:
  assumes "initialized e" and "midiLearnActive e" and "parameterIdToLearn e = P" and "P \<noteq> -1"
    and "status AND 0xF0 = 0xB0" and "status AND 0x0F \<noteq> 15"
  shows "\<exists>e'. processMidiEvent ids status data1 data2 e = Some (True, e')
            \<and> ccToParameterMap e' (uint data1) = Some P
            \<and> (\<forall>cc. cc \<noteq> uint data1 \<longrightarrow>
                  ccToParameterMap e' cc
                    = (if ccToParameterMap e cc = Some P then None else ccToParameterMap e cc))
            \<and> \<not> midiLearnActive e' \<and> parameterIdToLearn e' = -1"
proof -
  have p: "processMidiEvent ids status data1 data2 e
           = controlChange ids (uint data1) (uint data2) e"
    using assms(1,5,6) by (simp add: processMidiEvent_def Let_def)
  show ?thesis
    unfolding p using assms(2,3,4)
    by (simp add: controlChange_learn stopMidiLearn_def eraseMappingsTo_def)
qed

text \<open>
  Claim C6 as stated fails on an engine that is not initialized: MIDI learn can be armed
  there (\<^verbatim>\<open>startMidiLearn\<close> has no guard), but \<^verbatim>\<open>processMidiEvent\<close> returns false at its
  first check and maps nothing; learn stays armed.
\<close>

theorem C6_counterexample:
  "midiLearnActive (startMidiLearn 10 (SynthEngine_new real))
   \<and> parameterIdToLearn (startMidiLearn 10 (SynthEngine_new real)) = 10
   \<and> processMidiEvent exampleIds 0xB0 7 64 (startMidiLearn 10 (SynthEngine_new real))
       = Some (False, startMidiLearn 10 (SynthEngine_new real))"
  by (simp add: processMidiEvent_def startMidiLearn_def SynthEngine_new_def)

text \<open>
  An instance of C6: CC 5 was mapped to parameter 10, learn is armed for 10 and CC 7 arrives
  on channel 1.
\<close>

theorem C6_witness:
  "\<exists>e'. processMidiEvent exampleIds 0xB0 7 64
           (startMidiLearn 10 (exampleEngine\<lparr>ccToParameterMap := [5 \<mapsto> 10, 6 \<mapsto> 11]\<rparr>))
         = Some (True, e')
       \<and> ccToParameterMap e' = [6 \<mapsto> 11, 7 \<mapsto> 10]
       \<and> \<not> midiLearnActive e' \<and> parameterIdToLearn e' = -1"
proof -
  let ?e = "startMidiLearn 10 (exampleEngine\<lparr>ccToParameterMap := [5 \<mapsto> 10, 6 \<mapsto> 11]\<rparr>)"
  have h: "initialized ?e" "midiLearnActive ?e" "parameterIdToLearn ?e = 10" "(10::int) \<noteq> -1"
          "(0xB0 :: 8 word) AND 0xF0 = 0xB0" "(0xB0 :: 8 word) AND 0x0F \<noteq> 15"
    by (simp_all add: startMidiLearn_def exampleEngine_fields)
  have m: "ccToParameterMap ?e = [5 \<mapsto> 10, 6 \<mapsto> 11]" by (simp add: startMidiLearn_def)
  from C6_midi_learn_maps_cc [OF h, of exampleIds 7 64]
  obtain e' where e': "processMidiEvent exampleIds 0xB0 7 64 ?e = Some (True, e')"
     "ccToParameterMap e' (uint (7 :: 8 word)) = Some 10"
     "\<forall>cc. cc \<noteq> uint (7 :: 8 word) \<longrightarrow> ccToParameterMap e' cc
                    = (if ccToParameterMap ?e cc = Some 10 then None else ccToParameterMap ?e cc)"
     "\<not> midiLearnActive e'" "parameterIdToLearn e' = -1" by blast
  have "ccToParameterMap e' = [6 \<mapsto> 11, 7 \<mapsto> 10]"
  proof
    fix cc show "ccToParameterMap e' cc = [6 \<mapsto> 11, 7 \<mapsto> 10] cc"
      using e'(2,3) m by (cases "cc = 7") auto
  qed
  with e' show ?thesis by blast
qed

subsection \<open>Theorems about presets\<close>

lemma enumerates_pair:
  assumes "enumerates ks m" "dom m = {a, b}" "a \<noteq> b"
  shows "ks = [a, b] \<or> ks = [b, a]"
proof -
  have d: "distinct ks" and s: "set ks = {a, b}" using assms by (simp_all add: enumerates_def)
  have "length ks = card (set ks)" using d by (simp add: distinct_card)
  then have "length ks = 2" using s assms(3) by simp
  then obtain x y where xy: "ks = [x, y]"
    by (metis (no_types) One_nat_def Suc_1 length_0_conv length_Suc_conv)
  then have "{x, y} = {a, b}" using s by simp
  then show ?thesis using xy by (auto simp: doubleton_eq_iff)
qed

lemma enumerates_single:
  assumes "enumerates ks m" "dom m = {a}"
  shows "ks = [a]"
proof -
  have d: "distinct ks" and s: "set ks = {a}" using assms by (simp_all add: enumerates_def)
  have "length ks = card (set ks)" using d by (simp add: distinct_card)
  then have "length ks = 1" using s by simp
  then obtain x where "ks = [x]" by (cases ks) auto
  then show ?thesis using s by simp
qed

lemma validIteration_sorted: "validIteration sortedIteration"
  by (simp add: validIteration_def sortedIteration_def enumerates_def)

lemma setParameter_plain_fields:
  assumes "initialized e" "pid \<noteq> xyPadXValue ids" "pid \<noteq> xyPadYValue ids"
  shows "\<exists>r e'. setParameter ids pid v fa e = Some (r, e') \<and> initialized e'
            \<and> parameterCache e' = (parameterCache e)(pid \<mapsto> v)
            \<and> ccToParameterMap e' = ccToParameterMap e"
proof -
  let ?y = "dispatch pid v (recordAndCache pid v fa e)"
  have "setParameter ids pid v fa e = Some (fst ?y, snd ?y)"
    using assms by (simp add: setParameter_plain)
  moreover have "initialized (snd ?y)" "parameterCache (snd ?y) = (parameterCache e)(pid \<mapsto> v)"
    "ccToParameterMap (snd ?y) = ccToParameterMap e"
    using assms(1) by (simp_all add: dispatch_keeps recordAndCache_keeps)
  ultimately show ?thesis by blast
qed

lemma export_example:
  assumes c: "parameterCache A = [10 \<mapsto> 500, 30 \<mapsto> 1/4]"
    and m: "ccToParameterMap A = [7 \<mapsto> 10]"
    and v: "validIteration it"
  shows "getCurrentPresetDataJson it name A =
           JObject [(''midiCcMappings'', JObject [(''7'', JInt 10)]),
                    (''name'', JString name),
                    (''parameters'', JObject [(''10'', JFloat 500), (''30'', JFloat (1/4))])]"
proof -
  have ts: "to_string 10 = ''10''" "to_string 30 = ''30''" "to_string 7 = ''7''"
    by (simp_all add: to_string_def natDigits.simps)
  have "enumerates (paramOrder it (parameterCache A)) (parameterCache A)"
    using v c by (simp add: validIteration_def)
  then have pk: "paramOrder it (parameterCache A) = [10, 30]
               \<or> paramOrder it (parameterCache A) = [30, 10]"
    by (rule enumerates_pair) (auto simp: c)
  have "enumerates (mappingOrder it (ccToParameterMap A)) (ccToParameterMap A)"
    using v m by (simp add: validIteration_def)
  then have mk: "mappingOrder it (ccToParameterMap A) = [7]"
    by (rule enumerates_single) (simp add: m)
  from pk show ?thesis
  proof
    assume "paramOrder it (parameterCache A) = [10, 30]"
    then show ?thesis using mk
      by (simp add: getCurrentPresetDataJson_def entriesOf_def List.map_filter_simps c m
          put_nested_def ts)
  next
    assume "paramOrder it (parameterCache A) = [30, 10]"
    then show ?thesis using mk
      by (simp add: getCurrentPresetDataJson_def entriesOf_def List.map_filter_simps c m
          put_nested_def ts)
  qed
qed

lemma applyParameterMap_two:
  assumes i: "initialized B"
    and pa: "a \<noteq> xyPadXValue ids" "a \<noteq> xyPadYValue ids"
    and pb: "b \<noteq> xyPadXValue ids" "b \<noteq> xyPadYValue ids"
  shows "\<exists>r B'. applyParameterMap ids [(a, x), (b, y)] fp B = Some (r, B') \<and> initialized B'
           \<and> parameterCache B' = (parameterCache B)(a \<mapsto> x, b \<mapsto> y)
           \<and> ccToParameterMap B' = ccToParameterMap B"
proof -
  from setParameter_plain_fields [OF i pa, of x fp]
  obtain r1 B1 where 1: "setParameter ids a x fp B = Some (r1, B1)" "initialized B1"
    "parameterCache B1 = (parameterCache B)(a \<mapsto> x)" "ccToParameterMap B1 = ccToParameterMap B"
    by blast
  from setParameter_plain_fields [OF 1(2) pb, of y fp]
  obtain r2 B2 where 2: "setParameter ids b y fp B1 = Some (r2, B2)" "initialized B2"
    "parameterCache B2 = (parameterCache B1)(b \<mapsto> y)" "ccToParameterMap B2 = ccToParameterMap B1"
    by blast
  have "applyParameterMap ids [(a, x), (b, y)] fp B = Some (r1 \<and> r2, B2)"
    using 1(1) 2(1) by simp
  then show ?thesis using 1 2 by simp
qed

lemma import_example:
  assumes i: "initialized B"
    and px: "xyPadXValue ids \<notin> {10, 30}" and py: "xyPadYValue ids \<notin> {10, 30}"
    and v: "validIteration it"
  shows "\<exists>B'. applyPresetDataJson ids it
                (Some (JObject [(''midiCcMappings'', JObject [(''7'', JInt 10)]),
                    (''name'', JString name),
                    (''parameters'', JObject [(''10'', JFloat 500), (''30'', JFloat (1/4))])])) B
              = Some (True, B')
          \<and> initialized B'
          \<and> parameterCache B' 10 = Some 500 \<and> parameterCache B' 30 = Some (1/4)
          \<and> ccToParameterMap B' = [7 \<mapsto> 10]"
proof -
  let ?doc = "JObject [(''midiCcMappings'', JObject [(''7'', JInt 10)]),
                    (''name'', JString name),
                    (''parameters'', JObject [(''10'', JFloat 500), (''30'', JFloat (1/4))])]"
  let ?m = "[10 \<mapsto> 500, 30 \<mapsto> 1/4] :: int \<rightharpoonup> real"
  have st: "stoi ''10'' = Inr 10" "stoi ''30'' = Inr 30" "stoi ''7'' = Inr 7"
    by (simp_all add: stoi_def isspace_def isdigit_def digitsValue_def)
  have op: "objectMember ''parameters'' ?doc = Some [(''10'', JFloat 500), (''30'', JFloat (1/4))]"
    by (simp add: objectMember_def)
  have om: "objectMember ''midiCcMappings'' ?doc = Some [(''7'', JInt 10)]"
    by (simp add: objectMember_def)
  have cp: "collectParameters [(''10'', JFloat 500), (''30'', JFloat (1/4))] Map.empty = Some ?m"
    by (simp add: st is_number_def get_float_def)
  have cm: "collectMidiMap [(''7'', JInt 10)] Map.empty = Some [7 \<mapsto> 10]"
    by (simp add: st is_number_def get_int_def)
  have "enumerates (paramOrder it ?m) ?m" using v by (simp add: validIteration_def)
  then have "paramOrder it ?m = [10, 30] \<or> paramOrder it ?m = [30, 10]"
    by (rule enumerates_pair) auto
  then have en: "entriesOf (paramOrder it ?m) ?m = [(10, 500), (30, 1/4)]
               \<or> entriesOf (paramOrder it ?m) ?m = [(30, 1/4), (10, 500)]"
    by (auto simp: entriesOf_def List.map_filter_simps)
  have "\<exists>r B1. applyParameterMap ids (entriesOf (paramOrder it ?m) ?m) True B = Some (r, B1)
          \<and> initialized B1
          \<and> parameterCache B1 10 = Some 500 \<and> parameterCache B1 30 = Some (1/4)
          \<and> ccToParameterMap B1 = ccToParameterMap B"
  proof -
    from applyParameterMap_two [OF i, of 10 ids 30 500 "1/4" True] px py
    obtain r B1 where a: "applyParameterMap ids [(10, 500), (30, 1/4)] True B = Some (r, B1)"
      "initialized B1" "parameterCache B1 = (parameterCache B)(10 \<mapsto> 500, 30 \<mapsto> 1/4)"
      "ccToParameterMap B1 = ccToParameterMap B" by auto
    from applyParameterMap_two [OF i, of 30 ids 10 "1/4" 500 True] px py
    obtain r' B1' where b: "applyParameterMap ids [(30, 1/4), (10, 500)] True B = Some (r', B1')"
      "initialized B1'" "parameterCache B1' = (parameterCache B)(30 \<mapsto> 1/4, 10 \<mapsto> 500)"
      "ccToParameterMap B1' = ccToParameterMap B" by auto
    from en show ?thesis
    proof
      assume "entriesOf (paramOrder it ?m) ?m = [(10, 500), (30, 1/4)]"
      then show ?thesis using a by simp
    next
      assume "entriesOf (paramOrder it ?m) ?m = [(30, 1/4), (10, 500)]"
      then show ?thesis using b by simp
    qed
  qed
  then obtain r B1 where
    ap: "applyParameterMap ids (entriesOf (paramOrder it ?m) ?m) True B = Some (r, B1)"
    and B1: "initialized B1" "parameterCache B1 10 = Some 500" "parameterCache B1 30 = Some (1/4)"
    by blast
  have pp: "applyPresetParameters ids it ?doc B = Some (True, B1)"
    unfolding applyPresetParameters_def op using cp ap by simp
  have pm: "applyPresetMidiMappings ?doc B1 = (True, B1\<lparr>ccToParameterMap := [7 \<mapsto> 10]\<rparr>)"
    unfolding applyPresetMidiMappings_def om using cm by (simp add: applyMidiMap_def)
  have "applyPresetDataJson ids it (Some ?doc) B = Some (True, B1\<lparr>ccToParameterMap := [7 \<mapsto> 10]\<rparr>)"
    by (simp add: applyPresetDataJson_def pp pm)
  then show ?thesis using B1 by simp
qed

lemma scenario_state:
  assumes px: "xyPadXValue ids \<notin> {10, 30}" and py: "xyPadYValue ids \<notin> {10, 30}"
    and fresh: "initialized A0" "parameterCache A0 = Map.empty" "ccToParameterMap A0 = Map.empty"
    and set1: "setParameter ids 10 500 False A0 = Some (r1, A1)"
    and set2: "setParameter ids 30 (1/4) False A1 = Some (r2, A2)"
    and learn: "processMidiEvent ids 0xB0 7 d2 (startMidiLearn 10 A2) = Some (r3, A)"
  shows "parameterCache A = [10 \<mapsto> 500, 30 \<mapsto> 1/4] \<and> ccToParameterMap A = [7 \<mapsto> 10]"
proof -
  from setParameter_plain_fields [OF fresh(1), of 10 ids 500 False] px py set1
  have A1: "initialized A1" "parameterCache A1 = [10 \<mapsto> 500]" "ccToParameterMap A1 = Map.empty"
    using fresh by auto
  from setParameter_plain_fields [OF A1(1), of 30 ids "1/4" False] px py set2
  have A2: "initialized A2" "parameterCache A2 = [10 \<mapsto> 500, 30 \<mapsto> 1/4]"
    "ccToParameterMap A2 = Map.empty"
    using A1 by auto
  let ?L = "startMidiLearn 10 A2"
  have L: "initialized ?L" "midiLearnActive ?L" "parameterIdToLearn ?L = 10"
    "parameterCache ?L = parameterCache A2" "ccToParameterMap ?L = Map.empty"
    using A2 by (simp_all add: startMidiLearn_def)
  have "processMidiEvent ids 0xB0 7 d2 ?L = controlChange ids 7 (uint d2) ?L"
    using L(1) by (simp add: processMidiEvent_def Let_def)
  also have "\<dots> = Some (True, stopMidiLearn (?L\<lparr>ccToParameterMap :=
                               (eraseMappingsTo (parameterIdToLearn ?L) (ccToParameterMap ?L))
                                 (7 \<mapsto> parameterIdToLearn ?L),
                             lastCcValue := (lastCcValue ?L)(7 \<mapsto> uint d2)\<rparr>))"
    using L by (intro controlChange_learn) simp_all
  finally have "A = stopMidiLearn (?L\<lparr>ccToParameterMap :=
                               (eraseMappingsTo (parameterIdToLearn ?L) (ccToParameterMap ?L))
                                 (7 \<mapsto> parameterIdToLearn ?L),
                             lastCcValue := (lastCcValue ?L)(7 \<mapsto> uint d2)\<rparr>)"
    using learn by simp
  then show ?thesis using L A2
    by (simp add: stopMidiLearn_def eraseMappingsTo_def)
qed

text \<open>
  Claim C8, amended. Start from an initialized engine with an empty parameter cache and an empty
  CC table (as \<^verbatim>\<open>initialize\<close> leaves them), set parameter 10 to 500.0 and parameter 30 to
  0.25, and map CC 7 to parameter 10 by MIDI learn. Importing the exported document into
  any initialized engine returns true, and afterwards \<^verbatim>\<open>getParameter(10)\<close> is 500.0,
  \<^verbatim>\<open>getParameter(30)\<close> is 0.25 and the CC table maps CC 7 to parameter 10. This holds for
  every traversal order of the unordered maps on export and on import, and for every
  value of the pad passthrough identifiers other than 10 and 30.
\<close>

theorem C8_preset_round_trip:
  assumes "xyPadXValue ids \<notin> {10, 30}" and "xyPadYValue ids \<notin> {10, 30}"
    and "initialized A0" and "parameterCache A0 = Map.empty" and "ccToParameterMap A0 = Map.empty"
    and "setParameter ids 10 500 False A0 = Some (r1, A1)"
    and "setParameter ids 30 (1/4) False A1 = Some (r2, A2)"
    and "processMidiEvent ids 0xB0 7 d2 (startMidiLearn 10 A2) = Some (r3, A)"
    and "validIteration itE" and "validIteration itI"
    and "initialized B"
  shows "\<exists>B'. applyPresetDataJson ids itI (Some (getCurrentPresetDataJson itE name A)) B
               = Some (True, B')
           \<and> getParameter filterTargets 10 B' = 500
           \<and> getParameter filterTargets 30 B' = 1/4
           \<and> ccToParameterMap B' 7 = Some 10"
proof -
  from scenario_state [OF assms(1-8)]
  have A: "parameterCache A = [10 \<mapsto> 500, 30 \<mapsto> 1/4]" "ccToParameterMap A = [7 \<mapsto> 10]"
    by simp_all
  from import_example [OF assms(11) assms(1,2) assms(10), of name]
  obtain B' where "applyPresetDataJson ids itI
                (Some (JObject [(''midiCcMappings'', JObject [(''7'', JInt 10)]),
                    (''name'', JString name),
                    (''parameters'', JObject [(''10'', JFloat 500), (''30'', JFloat (1/4))])])) B
              = Some (True, B')"
          "initialized B'"
          "parameterCache B' 10 = Some 500" "parameterCache B' 30 = Some (1/4)"
          "ccToParameterMap B' = [7 \<mapsto> 10]" by blast
  then show ?thesis
    unfolding export_example [OF A assms(9)]
    by (intro exI [of _ B']) (simp add: getParameter_def)
qed

text \<open>
  An instance of C8: the scenario run on the example engine, exported and imported with
  the maps traversed in key order, into a second freshly initialized engine.
\<close>

theorem C8_witness:
  "\<exists>r1 A1 r2 A2 r3 A B'.
      setParameter exampleIds 10 500 False exampleEngine = Some (r1, A1)
    \<and> setParameter exampleIds 30 (1/4) False A1 = Some (r2, A2)
    \<and> processMidiEvent exampleIds 0xB0 7 64 (startMidiLearn 10 A2) = Some (r3, A)
    \<and> applyPresetDataJson exampleIds sortedIteration
         (Some (getCurrentPresetDataJson sortedIteration ''preset'' A)) exampleEngine
        = Some (True, B')
    \<and> getParameter (0, 0) 10 B' = 500 \<and> getParameter (0, 0) 30 B' = 1/4
    \<and> ccToParameterMap B' 7 = Some 10"
proof -
  have px: "xyPadXValue exampleIds \<notin> {10, 30}" and py: "xyPadYValue exampleIds \<notin> {10, 30}"
    by (simp_all add: exampleIds_fields)
  have i: "initialized exampleEngine" and c: "parameterCache exampleEngine = Map.empty"
    and m: "ccToParameterMap exampleEngine = Map.empty"
    by (simp_all add: exampleEngine_fields)
  from setParameter_plain_fields [OF i, of 10 exampleIds 500 False] px py
  obtain r1 A1 where 1: "setParameter exampleIds 10 500 False exampleEngine = Some (r1, A1)"
    "initialized A1" by auto
  from setParameter_plain_fields [OF 1(2), of 30 exampleIds "1/4" False] px py
  obtain r2 A2 where 2: "setParameter exampleIds 30 (1/4) False A1 = Some (r2, A2)"
    "initialized A2" by auto
  let ?L = "startMidiLearn 10 A2"
  have L: "initialized ?L" "midiLearnActive ?L" "parameterIdToLearn ?L \<noteq> -1"
    using 2(2) by (simp_all add: startMidiLearn_def)
  have "processMidiEvent exampleIds 0xB0 7 64 ?L = controlChange exampleIds 7 64 ?L"
    using L(1) by (simp add: processMidiEvent_def Let_def)
  then obtain r3 A where 3: "processMidiEvent exampleIds 0xB0 7 64 ?L = Some (r3, A)"
    using controlChange_learn [OF L(2,3), of exampleIds 7 64] by simp
  from C8_preset_round_trip [OF px py i c m 1(1) 2(1) 3 validIteration_sorted
      validIteration_sorted i, of "''preset''" "(0, 0)"]
  show ?thesis using 1(1) 2(1) 3 by blast
qed

text \<open>
  Before \<^verbatim>\<open>initialize\<close>, \<^verbatim>\<open>setParameter\<close> and \<^verbatim>\<open>processMidiEvent\<close> change nothing, so the
  scenario leaves a newly constructed engine with MIDI learn armed and nothing to export.
\<close>

lemma presetScenario_example:
  "parameterCache (presetScenario exampleEngine) = [10 \<mapsto> 500, 30 \<mapsto> 1/4]"
  "ccToParameterMap (presetScenario exampleEngine) = [7 \<mapsto> 10]"
proof -
  have px: "xyPadXValue exampleIds \<notin> {10, 30}" and py: "xyPadYValue exampleIds \<notin> {10, 30}"
    by (simp_all add: exampleIds_fields)
  have i: "initialized exampleEngine" and c: "parameterCache exampleEngine = Map.empty"
    and m: "ccToParameterMap exampleEngine = Map.empty"
    by (simp_all add: exampleEngine_fields)
  from setParameter_plain_fields [OF i, of 10 exampleIds 500 False] px py
  obtain r1 A1 where 1: "setParameter exampleIds 10 500 False exampleEngine = Some (r1, A1)"
    "initialized A1" by auto
  from setParameter_plain_fields [OF 1(2), of 30 exampleIds "1/4" False] px py
  obtain r2 A2 where 2: "setParameter exampleIds 30 (1/4) False A1 = Some (r2, A2)"
    "initialized A2" by auto
  let ?L = "startMidiLearn 10 A2"
  have L: "initialized ?L" "midiLearnActive ?L" "parameterIdToLearn ?L \<noteq> -1"
    using 2(2) by (simp_all add: startMidiLearn_def)
  have "processMidiEvent exampleIds 0xB0 7 64 ?L = controlChange exampleIds 7 64 ?L"
    using L(1) by (simp add: processMidiEvent_def Let_def)
  then obtain r3 A where 3: "processMidiEvent exampleIds 0xB0 7 64 ?L = Some (r3, A)"
    using controlChange_learn [OF L(2,3), of exampleIds 7 64] by simp
  have s: "presetScenario exampleEngine = A" using 1(1) 2(1) 3 by (simp add: presetScenario_def)
  from scenario_state [OF px py i c m 1(1) 2(1) 3]
  show "parameterCache (presetScenario exampleEngine) = [10 \<mapsto> 500, 30 \<mapsto> 1/4]"
    and "ccToParameterMap (presetScenario exampleEngine) = [7 \<mapsto> 10]"
    by (simp_all add: s)
qed

lemma SynthEngine_new_fields:
  "\<not> initialized (SynthEngine_new clk)"
  "parameterCache (SynthEngine_new clk) = Map.empty"
  "ccToParameterMap (SynthEngine_new clk) = Map.empty"
  by (simp_all add: SynthEngine_new_def)

lemma presetScenario_uninitialized:
  "presetScenario (SynthEngine_new clk) = startMidiLearn 10 (SynthEngine_new clk)"
  by (simp add: presetScenario_def setParameter_uninitialized SynthEngine_new_fields
      processMidiEvent_def startMidiLearn_def)

lemma import_uninitialized:
  assumes "\<not> initialized B"
  shows "applyPresetDataJson ids sortedIteration
           (Some (JObject [(''midiCcMappings'', JObject [(''7'', JInt 10)]),
                    (''name'', JString name),
                    (''parameters'', JObject [(''10'', JFloat 500), (''30'', JFloat (1/4))])])) B
         = Some (True, B\<lparr>ccToParameterMap := [7 \<mapsto> 10]\<rparr>)"
proof -
  let ?doc = "JObject [(''midiCcMappings'', JObject [(''7'', JInt 10)]),
                    (''name'', JString name),
                    (''parameters'', JObject [(''10'', JFloat 500), (''30'', JFloat (1/4))])]"
  let ?m = "[10 \<mapsto> 500, 30 \<mapsto> 1/4] :: int \<rightharpoonup> real"
  have st: "stoi ''10'' = Inr 10" "stoi ''30'' = Inr 30" "stoi ''7'' = Inr 7"
    by (simp_all add: stoi_def isspace_def isdigit_def digitsValue_def)
  have op: "objectMember ''parameters'' ?doc = Some [(''10'', JFloat 500), (''30'', JFloat (1/4))]"
    by (simp add: objectMember_def)
  have om: "objectMember ''midiCcMappings'' ?doc = Some [(''7'', JInt 10)]"
    by (simp add: objectMember_def)
  have cp: "collectParameters [(''10'', JFloat 500), (''30'', JFloat (1/4))] Map.empty = Some ?m"
    by (simp add: st is_number_def get_float_def)
  have cm: "collectMidiMap [(''7'', JInt 10)] Map.empty = Some [7 \<mapsto> 10]"
    by (simp add: st is_number_def get_int_def)
  have "dom ?m = {10, 30}" by auto
  then have "paramOrder sortedIteration ?m = [10, 30]" by (simp add: sortedIteration_def)
  then have en: "entriesOf (paramOrder sortedIteration ?m) ?m = [(10, 500), (30, 1/4)]"
    by (simp add: entriesOf_def List.map_filter_simps)
  have ap: "applyParameterMap ids [(10, 500), (30, 1/4)] True B = Some (False, B)"
    using assms by (simp add: setParameter_uninitialized)
  have pp: "applyPresetParameters ids sortedIteration ?doc B = Some (True, B)"
    unfolding applyPresetParameters_def op using cp ap en by simp
  have pm: "applyPresetMidiMappings ?doc B = (True, B\<lparr>ccToParameterMap := [7 \<mapsto> 10]\<rparr>)"
    unfolding applyPresetMidiMappings_def om using cm by (simp add: applyMidiMap_def)
  show ?thesis by (simp add: applyPresetDataJson_def pp pm)
qed

text \<open>
  Claim C8 as stated fails when one of the two engines is only constructed. The preset
  exported from the example engine after the scenario, imported into a newly constructed
  engine: the import returns true and installs the mapping of CC 7, but \<^verbatim>\<open>setParameter\<close>
  rejects both values and \<^verbatim>\<open>getParameter\<close> answers 0 for both identifiers. And the
  scenario run on a newly constructed engine sets nothing: the preset exported from it
  has a name only, and after its import into the example engine \<^verbatim>\<open>getParameter(30)\<close> is 0
  and no CC is mapped.
\<close>

theorem C8_counterexample:
  "map_option fst
     (applyPresetDataJson exampleIds sortedIteration
        (Some (getCurrentPresetDataJson sortedIteration ''preset'' (presetScenario exampleEngine)))
        (SynthEngine_new real)) = Some True
   \<and> map_option (getParameter (0, 0) 10 \<circ> snd)
     (applyPresetDataJson exampleIds sortedIteration
        (Some (getCurrentPresetDataJson sortedIteration ''preset'' (presetScenario exampleEngine)))
        (SynthEngine_new real)) = Some 0
   \<and> map_option (getParameter (0, 0) 30 \<circ> snd)
     (applyPresetDataJson exampleIds sortedIteration
        (Some (getCurrentPresetDataJson sortedIteration ''preset'' (presetScenario exampleEngine)))
        (SynthEngine_new real)) = Some 0
   \<and> map_option (ccToParameterMap \<circ> snd)
     (applyPresetDataJson exampleIds sortedIteration
        (Some (getCurrentPresetDataJson sortedIteration ''preset'' (presetScenario exampleEngine)))
        (SynthEngine_new real)) = Some [7 \<mapsto> 10]
   \<and> getCurrentPresetDataJson sortedIteration ''preset'' (presetScenario (SynthEngine_new real))
       = JObject [(''name'', JString ''preset'')]
   \<and> map_option (getParameter (0, 0) 30 \<circ> snd)
     (applyPresetDataJson exampleIds sortedIteration
        (Some (getCurrentPresetDataJson sortedIteration ''preset''
                 (presetScenario (SynthEngine_new real))))
        exampleEngine) = Some 0
   \<and> map_option (ccToParameterMap \<circ> snd)
     (applyPresetDataJson exampleIds sortedIteration
        (Some (getCurrentPresetDataJson sortedIteration ''preset''
                 (presetScenario (SynthEngine_new real))))
        exampleEngine) = Some Map.empty"
proof -
  have ex: "getCurrentPresetDataJson sortedIteration ''preset'' (presetScenario exampleEngine)
            = JObject [(''midiCcMappings'', JObject [(''7'', JInt 10)]),
                    (''name'', JString ''preset''),
                    (''parameters'', JObject [(''10'', JFloat 500), (''30'', JFloat (1/4))])]"
    by (rule export_example [OF presetScenario_example validIteration_sorted])
  have im: "applyPresetDataJson exampleIds sortedIteration
              (Some (getCurrentPresetDataJson sortedIteration ''preset''
                       (presetScenario exampleEngine)))
              (SynthEngine_new real)
            = Some (True, (SynthEngine_new real)\<lparr>ccToParameterMap := [7 \<mapsto> 10]\<rparr>)"
    unfolding ex by (rule import_uninitialized) (simp add: SynthEngine_new_fields)
  have ex2: "getCurrentPresetDataJson sortedIteration ''preset''
               (presetScenario (SynthEngine_new real))
             = JObject [(''name'', JString ''preset'')]"
    by (simp add: presetScenario_uninitialized getCurrentPresetDataJson_def sortedIteration_def
        entriesOf_def List.map_filter_simps startMidiLearn_def SynthEngine_new_fields)
  have im2: "applyPresetDataJson exampleIds sortedIteration
               (Some (JObject [(''name'', JString ''preset'')])) exampleEngine
             = Some (True, exampleEngine)"
    by (simp add: applyPresetDataJson_def applyPresetParameters_def applyPresetMidiMappings_def
        objectMember_def)
  show ?thesis
    unfolding ex2 im2 im
    by (simp add: getParameter_def SynthEngine_new_fields exampleEngine_fields)
qed

text \<open>
  Claim C5 says that no reachable state maps two CC numbers to one parameter. Importing
  a well-formed preset document whose \<open>midiCcMappings\<close> maps CC 7 and CC 8 to parameter
  10 succeeds on the example engine and leaves both mappings in the table:
  \<^verbatim>\<open>applyMidiMap\<close> replaces the table by the document's map as it is.
\<close>

theorem C5_import_maps_two_ccs_to_one_parameter:
  "applyPresetDataJson exampleIds sortedIteration
     (Some (JObject [(''midiCcMappings'', JObject [(''7'', JInt 10), (''8'', JInt 10)])]))
     exampleEngine
   = Some (True, exampleEngine\<lparr>ccToParameterMap := [7 \<mapsto> 10, 8 \<mapsto> 10]\<rparr>)"
proof -
  let ?doc = "JObject [(''midiCcMappings'', JObject [(''7'', JInt 10), (''8'', JInt 10)])]"
  have st: "stoi ''7'' = Inr 7" "stoi ''8'' = Inr 8"
    by (simp_all add: stoi_def isspace_def isdigit_def digitsValue_def)
  have pp: "applyPresetParameters exampleIds sortedIteration ?doc exampleEngine
            = Some (True, exampleEngine)"
    by (simp add: applyPresetParameters_def objectMember_def)
  have pm: "applyPresetMidiMappings ?doc exampleEngine
            = (True, exampleEngine\<lparr>ccToParameterMap := [7 \<mapsto> 10, 8 \<mapsto> 10]\<rparr>)"
    by (simp add: applyPresetMidiMappings_def objectMember_def st is_number_def get_int_def
        applyMidiMap_def)
  show ?thesis by (simp add: applyPresetDataJson_def pp pm)
qed

text \<open>
  The other path that writes the table does keep the property: whatever the message,
  \<^verbatim>\<open>processMidiEvent\<close> maps at most one CC to a parameter afterwards when it did before
  (MIDI learn erases the old mappings of the parameter first).
\<close>

lemma setParameter_keeps_ccToParameterMap:
  assumes "setParameter ids pid v fa e = Some y"
  shows "ccToParameterMap (snd y) = ccToParameterMap e"
proof (rule setParameter.raw_induct [where P = "\<lambda>ids pid v fa e y.
          ccToParameterMap (snd y) = ccToParameterMap e", OF _ assms])
  fix f :: "SynthParameterId \<Rightarrow> int \<Rightarrow> real \<Rightarrow> bool \<Rightarrow> SynthEngine \<Rightarrow> (bool \<times> SynthEngine) option"
    and ids pid v fa e y
  assume IH: "\<And>ids pid v fa e y. f ids pid v fa e = Some y \<Longrightarrow>
                ccToParameterMap (snd y) = ccToParameterMap e"
    and body: "(if \<not> initialized e then Some (False, e)
      else if pid = xyPadXValue ids then
        f ids (currentXYPadXParameterId (recordAndCache pid v fa e))
          v fa (recordAndCache pid v fa e)
      else if pid = xyPadYValue ids then
        f ids (currentXYPadYParameterId (recordAndCache pid v fa e))
          v fa (recordAndCache pid v fa e)
      else Some (dispatch pid v (recordAndCache pid v fa e))) = Some y"
  let ?e2 = "recordAndCache pid v fa e"
  have k: "ccToParameterMap ?e2 = ccToParameterMap e" by (simp add: recordAndCache_keeps)
  consider (u) "\<not> initialized e"
    | (x) "initialized e" "pid = xyPadXValue ids"
    | (y) "initialized e" "pid \<noteq> xyPadXValue ids" "pid = xyPadYValue ids"
    | (d) "initialized e" "pid \<noteq> xyPadXValue ids" "pid \<noteq> xyPadYValue ids" by blast
  then show "ccToParameterMap (snd y) = ccToParameterMap e"
  proof cases
    case u
    with body show ?thesis by auto
  next
    case x
    with body have "f ids (currentXYPadXParameterId ?e2) v fa ?e2 = Some y" by simp
    from IH [OF this] k show ?thesis by simp
  next
    case y
    with body have "f ids (currentXYPadYParameterId ?e2) v fa ?e2 = Some y" by simp
    from IH [OF this] k show ?thesis by simp
  next
    case d
    with body have "y = dispatch pid v ?e2" by simp
    then show ?thesis using k by (simp add: dispatch_keeps)
  qed
qed

lemma eraseMappingsTo_one_cc:
  assumes "\<forall>c c' p. m c = Some p \<and> m c' = Some p \<longrightarrow> c = c'"
  shows "\<forall>c c' p. ((eraseMappingsTo q m)(cc \<mapsto> q)) c = Some p
                 \<and> ((eraseMappingsTo q m)(cc \<mapsto> q)) c' = Some p \<longrightarrow> c = c'"
  using assms by (auto simp: eraseMappingsTo_def split: if_splits)

lemma processMidiEvent_keeps_one_cc_per_parameter:
  assumes ev: "processMidiEvent ids status data1 data2 e = Some (r, e')"
    and inv: "\<forall>c c' p. ccToParameterMap e c = Some p \<and> ccToParameterMap e c' = Some p \<longrightarrow> c = c'"
  shows "\<forall>c c' p. ccToParameterMap e' c = Some p \<and> ccToParameterMap e' c' = Some p \<longrightarrow> c = c'"
proof -
  have "ccToParameterMap e' = ccToParameterMap e
        \<or> (\<exists>q cc. ccToParameterMap e' = (eraseMappingsTo q (ccToParameterMap e))(cc \<mapsto> q))"
    using ev setParameter_keeps_ccToParameterMap
    by (fastforce simp: processMidiEvent_def Let_def uiControlChange_def noteOn_def noteOff_def
        call_def controlChange_def stopMidiLearn_def
        split: if_splits option.splits prod.splits)
  then show ?thesis using inv eraseMappingsTo_one_cc [OF inv] by metis
qed


subsection \<open>Theorems about the audio analysis\<close>

lemma frameSample_in_block:
  assumes "1 \<le> numChannels" "0 \<le> i" "i < numFrames"
    and "numFrames * numChannels \<le> int (length buf)"
  shows "frameSample buf numChannels i = Some (monoMix buf numChannels i)"
proof (cases "numChannels = 1")
  case True
  then show ?thesis using assms by (simp add: frameSample_def sampleAt_def monoMix_def)
next
  case False
  then have nc: "2 \<le> numChannels" using assms(1) by simp
  have "(i + 1) * numChannels \<le> numFrames * numChannels"
    using assms(3) nc by (intro mult_right_mono) simp_all
  then have hi: "i * numChannels + 1 < int (length buf)"
    using assms(4) nc by (simp add: algebra_simps)
  have lo: "0 \<le> i * numChannels" using assms(2) nc by simp
  show ?thesis using False lo hi by (simp add: frameSample_def sampleAt_def monoMix_def)
qed

text \<open>The comparison of the loop orders the values that are not NaN.\<close>

lemma flt_chain:
  "\<not> flt m c \<Longrightarrow> \<not> flt c a \<Longrightarrow> c \<noteq> NaN \<Longrightarrow> \<not> flt m a"
  by (cases m; cases c; cases a) simp_all

lemma flt_chain_strict:
  "\<not> flt m a \<Longrightarrow> flt c a \<Longrightarrow> \<not> flt m c"
  by (cases m; cases c; cases a) simp_all

lemma flt_not_NaN: "flt c a \<Longrightarrow> a \<noteq> NaN \<and> c \<noteq> NaN"
  by (cases c; cases a) simp_all

lemma flt_asym: "flt c a \<Longrightarrow> \<not> flt a c"
  by (cases c; cases a) simp_all

lemma flt_irrefl [simp]: "\<not> flt a a"
  by (cases a) simp_all

lemma fabs_eq_NaN [simp]: "fabs a = NaN \<longleftrightarrow> a = NaN"
  by (cases a) simp_all

text \<open>
  The loop returns a value that is not NaN and not below the running maximum it started
  from; no frame's absolute value is greater; and it is the starting value or the
  absolute value of a frame.
\<close>

lemma amplitudeLoop_greatest:
  assumes "0 \<le> i" "i \<le> numFrames"
    and "\<forall>j. i \<le> j \<and> j < numFrames \<longrightarrow> frameSample buf numChannels j = Some (g j)"
    and "cur \<noteq> NaN"
  shows "\<exists>m. amplitudeLoop buf numFrames numChannels i cur = Some m
           \<and> m \<noteq> NaN \<and> \<not> flt m cur
           \<and> (\<forall>j. i \<le> j \<and> j < numFrames \<longrightarrow> \<not> fgt (fabs (g j)) m)
           \<and> (m = cur \<or> (\<exists>j. i \<le> j \<and> j < numFrames \<and> m = fabs (g j)))"
  using assms
proof (induction buf numFrames numChannels i cur rule: amplitudeLoop.induct)
  case (1 buf numFrames numChannels i cur)
  show ?case
  proof (cases "i < numFrames")
    case False
    then show ?thesis using "1.prems" by (auto simp: amplitudeLoop.simps)
  next
    case True
    let ?a = "fabs (g i)"
    let ?c = "if fgt ?a cur then ?a else cur"
    have fs: "frameSample buf numChannels i = Some (g i)" using "1.prems" True by simp
    have cn: "?c \<noteq> NaN" using "1.prems"(4) flt_not_NaN [of cur ?a] by (auto simp: fgt_def)
    have "\<exists>m. amplitudeLoop buf numFrames numChannels (i + 1) ?c = Some m
           \<and> m \<noteq> NaN \<and> \<not> flt m ?c
           \<and> (\<forall>j. i + 1 \<le> j \<and> j < numFrames \<longrightarrow> \<not> fgt (fabs (g j)) m)
           \<and> (m = ?c \<or> (\<exists>j. i + 1 \<le> j \<and> j < numFrames \<and> m = fabs (g j)))"
      using "1.prems" True cn by (intro "1.IH" [OF True fs]) simp_all
    then obtain m where m: "amplitudeLoop buf numFrames numChannels (i + 1) ?c = Some m"
      "m \<noteq> NaN" "\<not> flt m ?c"
      "\<forall>j. i + 1 \<le> j \<and> j < numFrames \<longrightarrow> \<not> fgt (fabs (g j)) m"
      "m = ?c \<or> (\<exists>j. i + 1 \<le> j \<and> j < numFrames \<and> m = fabs (g j))" by blast
    have run: "amplitudeLoop buf numFrames numChannels i cur = Some m"
      using True fs m(1) by (subst amplitudeLoop.simps) simp
    have c_cur: "\<not> flt ?c cur" using flt_asym [of cur ?a] by (simp add: fgt_def)
    have c_a: "\<not> flt ?c ?a" by (simp add: fgt_def)
    have m_cur: "\<not> flt m cur" using m(3) c_cur cn by (rule flt_chain)
    have m_a: "\<not> flt m ?a" using m(3) c_a cn by (rule flt_chain)
    have all: "\<not> fgt (fabs (g j)) m" if "i \<le> j \<and> j < numFrames" for j
    proof (cases "j = i")
      case True
      then show ?thesis using m_a by (simp add: fgt_def)
    next
      case False
      then show ?thesis using that m(4) by simp
    qed
    have att: "m = cur \<or> (\<exists>j. i \<le> j \<and> j < numFrames \<and> m = fabs (g j))"
    proof (cases "m = ?c")
      case mc: True
      show ?thesis
      proof (cases "fgt ?a cur")
        case True
        then have "m = fabs (g i)" using mc by simp
        then show ?thesis using \<open>i < numFrames\<close> by auto
      next
        case False
        then show ?thesis using mc by simp
      qed
    next
      case False
      then obtain j where "i + 1 \<le> j \<and> j < numFrames \<and> m = fabs (g j)" using m(5) by blast
      then have "i \<le> j \<and> j < numFrames \<and> m = fabs (g j)" by simp
      then show ?thesis by blast
    qed
    show ?thesis using run m(2) m_cur all att by blast
  qed
qed

lemma exampleEngine_analysis:
  "fftSize exampleEngine = 2048" "analysisBuffers exampleEngine" "fftPlan exampleEngine"
  by (simp_all add: exampleEngine_def initialize_def SynthEngine_new_def exampleOutcome_def
      initializeAudioAnalysis_def initializeDefaultModules_def call_def Let_def)

text \<open>
  Claim C9, amended. With the analysis set up, for a block of at least one channel that
  holds \<open>numFrames\<close> frames, the update succeeds and publishes an amplitude that is not
  NaN: 0 when there is no frame, and otherwise the greatest absolute value of a frame's
  mono mix as the code computes it in binary32 (the sample itself for one channel; for
  more channels the rounded sum of the first two samples of the frame, times 0.5). That
  is: the absolute mix of every frame is at most the amplitude unless that mix is NaN, and
  the amplitude is the absolute mix of some frame, or 0. For a one-channel block of
  finite samples it is the maximum absolute value over the samples of the block.
\<close>

theorem C9_amplitude_is_max_of_mono_mix:
  assumes "0 < fftSize e" and "analysisBuffers e" and "fftPlan e"
    and "1 \<le> numChannels" and "numFrames * numChannels \<le> int (length buf)"
  shows "\<exists>e'. updateAudioAnalysis buf numFrames numChannels e = Some e'
           \<and> getAmplitudeLevel e' \<noteq> NaN
           \<and> (numFrames \<le> 0 \<longrightarrow> getAmplitudeLevel e' = Finite 0)
           \<and> (\<forall>i. 0 \<le> i \<and> i < numFrames \<longrightarrow>
                 monoMix buf numChannels i = NaN
                 \<or> fle (fabs (monoMix buf numChannels i)) (getAmplitudeLevel e'))
           \<and> (getAmplitudeLevel e' = Finite 0
                \<or> (\<exists>i. 0 \<le> i \<and> i < numFrames
                       \<and> getAmplitudeLevel e' = fabs (monoMix buf numChannels i)))
           \<and> (numChannels = 1 \<and> 0 < numFrames \<and> buf = map Finite xs
                \<and> int (length xs) = numFrames \<longrightarrow>
                 getAmplitudeLevel e' = Finite (Max (abs ` set xs)))"
proof (cases "numFrames \<le> 0")
  case True
  then show ?thesis by (auto simp: updateAudioAnalysis_def getAmplitudeLevel_def)
next
  case False
  then have pos: "0 < numFrames" by simp
  have inb: "\<forall>j. 0 \<le> j \<and> j < numFrames \<longrightarrow>
               frameSample buf numChannels j = Some (monoMix buf numChannels j)"
  proof (intro allI impI)
    fix j assume "0 \<le> j \<and> j < numFrames"
    then show "frameSample buf numChannels j = Some (monoMix buf numChannels j)"
      using assms(4,5) by (intro frameSample_in_block) simp_all
  qed
  have "\<exists>m. amplitudeLoop buf numFrames numChannels 0 (Finite 0) = Some m
           \<and> m \<noteq> NaN \<and> \<not> flt m (Finite 0)
           \<and> (\<forall>j. 0 \<le> j \<and> j < numFrames \<longrightarrow> \<not> fgt (fabs (monoMix buf numChannels j)) m)
           \<and> (m = Finite 0
                \<or> (\<exists>j. 0 \<le> j \<and> j < numFrames \<and> m = fabs (monoMix buf numChannels j)))"
    using pos inb by (intro amplitudeLoop_greatest) simp_all
  then obtain m where m: "amplitudeLoop buf numFrames numChannels 0 (Finite 0) = Some m"
    "m \<noteq> NaN" "\<not> flt m (Finite 0)"
    "\<forall>j. 0 \<le> j \<and> j < numFrames \<longrightarrow> \<not> fgt (fabs (monoMix buf numChannels j)) m"
    "m = Finite 0 \<or> (\<exists>j. 0 \<le> j \<and> j < numFrames \<and> m = fabs (monoMix buf numChannels j))"
    by blast
  have upd: "updateAudioAnalysis buf numFrames numChannels e = Some (e\<lparr>amplitudeLevel := m\<rparr>)"
    using assms(1-3) pos m(1) by (simp add: updateAudioAnalysis_def)
  have le: "monoMix buf numChannels i = NaN \<or> fle (fabs (monoMix buf numChannels i)) m"
    if "0 \<le> i \<and> i < numFrames" for i
    using m(4) that m(2) by (auto simp: fle_def fgt_def)
  have mono: "m = Finite (Max (abs ` set xs))"
    if h: "numChannels = 1" "buf = map Finite xs" "int (length xs) = numFrames"
  proof -
    have mix: "monoMix buf numChannels (int k) = Finite (xs ! k)" if "k < length xs" for k
      using that h by (simp add: monoMix_def)
    have ne: "xs \<noteq> []" using pos h(3) by auto
    have fin: "finite (abs ` set xs)" by simp
    have ub: "\<bar>x\<bar> \<le> v" if "m = Finite v" "x \<in> set xs" for x v
    proof -
      from that(2) obtain k where k: "k < length xs" "x = xs ! k" by (auto simp: in_set_conv_nth)
      then have "0 \<le> int k \<and> int k < numFrames" using h(3) by simp
      from le [OF this] show ?thesis using mix [OF k(1)] k(2) that(1) by simp
    qed
    from m(5) show ?thesis
    proof
      assume z: "m = Finite 0"
      have "Max (abs ` set xs) = 0"
      proof (rule Max_eqI [OF fin])
        fix y assume "y \<in> abs ` set xs"
        then show "y \<le> 0" using ub [OF z] by auto
      next
        obtain x where x: "x \<in> set xs" using ne by (cases xs) auto
        then have "\<bar>x\<bar> \<le> 0" using ub [OF z] by simp
        then have "\<bar>x\<bar> = 0" by simp
        then show "0 \<in> abs ` set xs" using x by force
      qed
      then show ?thesis using z by simp
    next
      assume "\<exists>j. 0 \<le> j \<and> j < numFrames \<and> m = fabs (monoMix buf numChannels j)"
      then obtain j where j: "0 \<le> j" "j < numFrames" "m = fabs (monoMix buf numChannels j)"
        by blast
      define k where "k = nat j"
      have k: "k < length xs" "j = int k" using j h(3) by (simp_all add: k_def)
      have mk: "m = Finite \<bar>xs ! k\<bar>" using j(3) mix [OF k(1)] k(2) by simp
      have "Max (abs ` set xs) = \<bar>xs ! k\<bar>"
      proof (rule Max_eqI [OF fin])
        fix y assume "y \<in> abs ` set xs"
        then show "y \<le> \<bar>xs ! k\<bar>" using ub [OF mk] by auto
      next
        show "\<bar>xs ! k\<bar> \<in> abs ` set xs" using k(1) by simp
      qed
      then show ?thesis using mk by simp
    qed
  qed
  show ?thesis using upd pos m(2) m(5) le mono by (simp add: getAmplitudeLevel_def)
qed

text \<open>
  Claim C9 as stated fails for a stereo block: one frame with the samples 1 and -1 has
  the raw peak 1, but its mono mix is 0 and the amplitude published is 0. It also fails
  before the analysis is set up: on a newly constructed engine the update of a mono
  block with the one sample 1 publishes 0.
\<close>

theorem C9_counterexample:
  "map_option getAmplitudeLevel
     (updateAudioAnalysis [Finite 1, Finite (- 1)] 1 2 exampleEngine) = Some (Finite 0)
   \<and> Max (abs ` set [1, - 1 :: real]) = 1
   \<and> map_option getAmplitudeLevel
     (updateAudioAnalysis [Finite 1] 1 1 (SynthEngine_new real)) = Some (Finite 0)"
proof -
  have "amplitudeLoop [Finite 1, Finite (- 1)] 1 2 0 (Finite 0) = Some (Finite 0)"
    by (simp add: amplitudeLoop.simps frameSample_def sampleAt_def fgt_def)
  moreover have "\<not> fftPlan (SynthEngine_new real)" by (simp add: SynthEngine_new_def)
  ultimately show ?thesis
    by (simp add: updateAudioAnalysis_def getAmplitudeLevel_def exampleEngine_analysis)
qed

text \<open>
  Instances of C9 on the example engine: a mono block of two frames with peak 3/4, and a
  stereo block of two frames whose mono mixes are 0 and 1/2.
\<close>

theorem C9_witness:
  "(\<exists>e'. updateAudioAnalysis [Finite (1/4), Finite (- 3/4)] 2 1 exampleEngine = Some e'
         \<and> getAmplitudeLevel e' = Finite (3/4))
   \<and> (\<exists>e'. updateAudioAnalysis [Finite 1, Finite (- 1), Finite (1/2), Finite (1/2)] 2 2
              exampleEngine = Some e'
         \<and> getAmplitudeLevel e' = Finite (1/2))"
proof -
  have r: "0 < fftSize exampleEngine" "analysisBuffers exampleEngine" "fftPlan exampleEngine"
    by (simp_all add: exampleEngine_analysis)
  let ?a = "[Finite (1/4), Finite (- 3/4)]"
  have "\<exists>e'. updateAudioAnalysis ?a 2 1 exampleEngine = Some e'
           \<and> getAmplitudeLevel e' \<noteq> NaN
           \<and> (2 \<le> (0::int) \<longrightarrow> getAmplitudeLevel e' = Finite 0)
           \<and> (\<forall>i. 0 \<le> i \<and> i < 2 \<longrightarrow>
                 monoMix ?a 1 i = NaN \<or> fle (fabs (monoMix ?a 1 i)) (getAmplitudeLevel e'))
           \<and> (getAmplitudeLevel e' = Finite 0
                \<or> (\<exists>i. 0 \<le> i \<and> i < 2 \<and> getAmplitudeLevel e' = fabs (monoMix ?a 1 i)))
           \<and> ((1::int) = 1 \<and> 0 < (2::int) \<and> ?a = map Finite [1/4, - 3/4]
                \<and> int (length [1/4, - 3/4 :: real]) = 2 \<longrightarrow>
                 getAmplitudeLevel e' = Finite (Max (abs ` set [1/4, - 3/4])))"
    by (rule C9_amplitude_is_max_of_mono_mix [OF r]) simp_all
  then obtain e1 where e1: "updateAudioAnalysis ?a 2 1 exampleEngine = Some e1"
    "(1::int) = 1 \<and> 0 < (2::int) \<and> ?a = map Finite [1/4, - 3/4]
       \<and> int (length [1/4, - 3/4 :: real]) = 2 \<longrightarrow>
     getAmplitudeLevel e1 = Finite (Max (abs ` set [1/4, - 3/4]))"
    by blast
  from e1(2) have "getAmplitudeLevel e1 = Finite (3/4)" by simp
  then have a: "\<exists>e'. updateAudioAnalysis ?a 2 1 exampleEngine = Some e'
         \<and> getAmplitudeLevel e' = Finite (3/4)" using e1(1) by blast
  let ?b = "[Finite 1, Finite (- 1), Finite (1/2), Finite (1/2)]"
  have m0: "monoMix ?b 2 0 = Finite 0" by (simp add: monoMix_def)
  have m1: "monoMix ?b 2 1 = Finite (1/2)" by (simp add: monoMix_def round32_one)
  have "\<exists>e'. updateAudioAnalysis ?b 2 2 exampleEngine = Some e'
           \<and> getAmplitudeLevel e' \<noteq> NaN
           \<and> (2 \<le> (0::int) \<longrightarrow> getAmplitudeLevel e' = Finite 0)
           \<and> (\<forall>i. 0 \<le> i \<and> i < 2 \<longrightarrow>
                 monoMix ?b 2 i = NaN \<or> fle (fabs (monoMix ?b 2 i)) (getAmplitudeLevel e'))
           \<and> (getAmplitudeLevel e' = Finite 0
                \<or> (\<exists>i. 0 \<le> i \<and> i < 2 \<and> getAmplitudeLevel e' = fabs (monoMix ?b 2 i)))
           \<and> ((2::int) = 1 \<and> 0 < (2::int) \<and> ?b = map Finite []
                \<and> int (length ([] :: real list)) = 2 \<longrightarrow>
                 getAmplitudeLevel e' = Finite (Max (abs ` set [])))"
    by (rule C9_amplitude_is_max_of_mono_mix [OF r]) simp_all
  then obtain e2 where e2: "updateAudioAnalysis ?b 2 2 exampleEngine = Some e2"
    "\<forall>i. 0 \<le> i \<and> i < 2 \<longrightarrow>
       monoMix ?b 2 i = NaN \<or> fle (fabs (monoMix ?b 2 i)) (getAmplitudeLevel e2)"
    "getAmplitudeLevel e2 = Finite 0
      \<or> (\<exists>i. 0 \<le> i \<and> i < 2 \<and> getAmplitudeLevel e2 = fabs (monoMix ?b 2 i))"
    by blast
  have "monoMix ?b 2 1 = NaN \<or> fle (fabs (monoMix ?b 2 1)) (getAmplitudeLevel e2)"
    using e2(2) by simp
  then have ge: "fle (Finite (1/2)) (getAmplitudeLevel e2)" by (simp add: m1)
  have cases: "i = 0 \<or> i = 1" if "0 \<le> i \<and> i < 2" for i :: int using that by auto
  have "getAmplitudeLevel e2 = Finite 0 \<or> getAmplitudeLevel e2 = Finite (1/2)"
    using e2(3) m0 m1 cases by fastforce
  then have "getAmplitudeLevel e2 = Finite (1/2)" using ge by auto
  then have b: "\<exists>e'. updateAudioAnalysis ?b 2 2 exampleEngine = Some e'
         \<and> getAmplitudeLevel e' = Finite (1/2)" using e2(1) by blast
  from a b show ?thesis by blast
qed

text \<open>
  Two more stereo frames, where the rounding shows: the mix of 1 and the binary32 number
  nearest to \<open>1 / 100000000\<close> is exactly 1/2, and the mix of twice the binary32 number
  nearest to \<open>3 * 10 ^ 38\<close> is infinite.
\<close>

lemma monoMix_rounds:
  "monoMix [Finite 1, round32 (1 / 100000000)] 2 0 = Finite (1 / 2)"
  "monoMix [round32 (3 * 10 ^ 38), round32 (3 * 10 ^ 38)] 2 0 = PInf"
  by code_simp+

end
